theory Spec2Isabelle
  imports Main "HOL-Library.Word"
begin

unbundle bit_operations_syntax

section \<open>Values of the JavaScript runtime\<close>

text \<open>
  The program is JavaScript on Node. Its values are modelled as follows.
  \<^item> A \<open>Buffer\<close> is a list of bytes.
  \<^item> A string is a \<open>string\<close>, read as the UTF-8 bytes of the JavaScript string, so
    \<open>Buffer.from(s, "utf8")\<close> and \<open>buf.toString("utf8")\<close> only change the type. The two agree
    with Node on well-formed UTF-8.
  \<^item> A number is an \<open>int\<close>: the integer-valued numbers on which double arithmetic is exact.
    \<open>n >>> 0\<close> on such a number is \<open>n mod 2 ^ 32\<close>.
  \<^item> A thrown exception is the left summand of \<open>exn + 'a\<close>; \<open>try ... catch\<close> is
    \<open>try_catch\<close>.
  \<^item> Functions of the platform (HMAC-SHA256, JSON, URL parsing, the secret store, the record
    store) are the fields of a record \<open>platform\<close>, over which every statement is universally
    quantified. The clock (\<open>nowSec()\<close>) and the random nonce (\<open>randomBytes(8)\<close>) are
    explicit arguments.
\<close>

type_synonym byte = "8 word"
type_synonym buffer = "byte list"

datatype exn = TypeError | RangeError | SyntaxError | URIError | Error

definition js_bind :: "exn + 'a \<Rightarrow> ('a \<Rightarrow> exn + 'b) \<Rightarrow> exn + 'b" where
  "js_bind m f = (case m of Inl e \<Rightarrow> Inl e | Inr v \<Rightarrow> f v)"

definition try_catch :: "exn + 'a \<Rightarrow> (exn \<Rightarrow> exn + 'a) \<Rightarrow> exn + 'a" where
  "try_catch m h = (case m of Inl e \<Rightarrow> h e | Inr v \<Rightarrow> Inr v)"

definition byte_of_char :: "char \<Rightarrow> byte" where
  "byte_of_char c = of_nat (of_char c)"

definition char_of_byte :: "byte \<Rightarrow> char" where
  "char_of_byte b = char_of (unat b)"

definition utf8 :: "string \<Rightarrow> buffer" where
  "utf8 s = map byte_of_char s"

definition toString_utf8 :: "buffer \<Rightarrow> string" where
  "toString_utf8 b = map char_of_byte b"

subsection \<open>Buffer reads and writes\<close>

text \<open>\<open>n >>> 0\<close> on an integer-valued number.\<close>

definition to_uint32 :: "int \<Rightarrow> int" where
  "to_uint32 n = n mod 2 ^ 32"

text \<open>\<open>u32\<close>: four bytes, written by \<open>writeUInt32BE(n >>> 0, 0)\<close>.\<close>

definition u32 :: "int \<Rightarrow> buffer" where
  "u32 n =
     (let m = to_uint32 n
      in [of_int (m div 2 ^ 24), of_int (m div 2 ^ 16), of_int (m div 2 ^ 8), of_int m])"

definition readUInt8 :: "buffer \<Rightarrow> nat \<Rightarrow> exn + int" where
  "readUInt8 buf off = (if off < length buf then Inr (uint (buf ! off)) else Inl RangeError)"

definition readUInt32BE :: "buffer \<Rightarrow> nat \<Rightarrow> exn + int" where
  "readUInt32BE buf off =
     (if off + 4 \<le> length buf
      then Inr (uint (buf ! off) * 2 ^ 24 + uint (buf ! (off + 1)) * 2 ^ 16
                + uint (buf ! (off + 2)) * 2 ^ 8 + uint (buf ! (off + 3)))
      else Inl RangeError)"

text \<open>\<open>buf.subarray(s, e)\<close> with \<open>s \<le> e\<close>; both ends are clamped to the length.\<close>

definition subarray :: "buffer \<Rightarrow> nat \<Rightarrow> nat \<Rightarrow> buffer" where
  "subarray buf s e = take (e - s) (drop s buf)"

subsection \<open>Base64\<close>

text \<open>
  \<open>buf.toString("base64")\<close> is the encoder of RFC 4648 with padding.
  \<open>Buffer.from(s, "base64")\<close> is Node's lenient decoder: it accepts both the standard and the
  URL-safe alphabet, skips every other character, stops at the first \<open>=\<close>, and turns a final
  group of two or three characters into one or two bytes. It never throws.
\<close>

definition b64char :: "nat \<Rightarrow> char" where
  "b64char n =
     (if n < 26 then char_of (n + 65)
      else if n < 52 then char_of (n + 71)
      else if n < 62 then char_of (n - 4)
      else if n = 62 then CHR ''+'' else CHR ''/'')"

fun toString_base64 :: "buffer \<Rightarrow> string" where
  "toString_base64 (a # b # c # r) =
     [b64char (unat a div 4),
      b64char (unat a mod 4 * 16 + unat b div 16),
      b64char (unat b mod 16 * 4 + unat c div 64),
      b64char (unat c mod 64)] @ toString_base64 r"
| "toString_base64 [a, b] =
     [b64char (unat a div 4),
      b64char (unat a mod 4 * 16 + unat b div 16),
      b64char (unat b mod 16 * 4),
      CHR ''='']"
| "toString_base64 [a] =
     [b64char (unat a div 4), b64char (unat a mod 4 * 16), CHR ''='', CHR ''='']"
| "toString_base64 [] = []"

definition unbase64 :: "char \<Rightarrow> nat option" where
  "unbase64 c =
     (let n = (of_char c :: nat) in
      if 65 \<le> n \<and> n \<le> 90 then Some (n - 65)
      else if 97 \<le> n \<and> n \<le> 122 then Some (n - 71)
      else if 48 \<le> n \<and> n \<le> 57 then Some (n + 4)
      else if c = CHR ''+'' \<or> c = CHR ''-'' then Some 62
      else if c = CHR ''/'' \<or> c = CHR ''_'' then Some 63
      else None)"

fun decode_sextets :: "nat list \<Rightarrow> buffer" where
  "decode_sextets (a # b # c # d # r) =
     [of_nat (a * 4 + b div 16), of_nat (b mod 16 * 16 + c div 4), of_nat (c mod 4 * 64 + d)]
       @ decode_sextets r"
| "decode_sextets [a, b, c] = [of_nat (a * 4 + b div 16), of_nat (b mod 16 * 16 + c div 4)]"
| "decode_sextets [a, b] = [of_nat (a * 4 + b div 16)]"
| "decode_sextets _ = []"

definition from_base64 :: "string \<Rightarrow> buffer" where
  "from_base64 s =
     decode_sextets (List.map_filter unbase64 (takeWhile (\<lambda>c. c \<noteq> CHR ''='') s))"

text \<open>\<open>s.replace(/x/g, y)\<close> for single characters, and \<open>s.replace(/=+$/, "")\<close>.\<close>

definition subst_char :: "char \<Rightarrow> char \<Rightarrow> char \<Rightarrow> char" where
  "subst_char x y c = (if c = x then y else c)"

definition replace_char :: "char \<Rightarrow> char \<Rightarrow> string \<Rightarrow> string" where
  "replace_char x y s = map (subst_char x y) s"

definition strip_trailing_eq :: "string \<Rightarrow> string" where
  "strip_trailing_eq s = rev (dropWhile (\<lambda>c. c = CHR ''='') (rev s))"

definition b64url :: "buffer \<Rightarrow> string" where
  "b64url buf =
     strip_trailing_eq
       (replace_char CHR ''/'' CHR ''_'' (replace_char CHR ''+'' CHR ''-'' (toString_base64 buf)))"

definition fromB64url :: "string \<Rightarrow> buffer" where
  "fromB64url s0 =
     (let s = replace_char CHR ''_'' CHR ''/'' (replace_char CHR ''-'' CHR ''+'' s0);
          pad = (if length s mod 4 \<noteq> 0 then 4 - length s mod 4 else 0)
      in from_base64 (s @ replicate pad CHR ''=''))"

text \<open>Auxiliary to the proofs: the sextets of the encoder and the URL-safe alphabet.\<close>

fun enc_sextets :: "buffer \<Rightarrow> nat list" where
  "enc_sextets (a # b # c # r) =
     [unat a div 4, unat a mod 4 * 16 + unat b div 16,
      unat b mod 16 * 4 + unat c div 64, unat c mod 64] @ enc_sextets r"
| "enc_sextets [a, b] = [unat a div 4, unat a mod 4 * 16 + unat b div 16, unat b mod 16 * 4]"
| "enc_sextets [a] = [unat a div 4, unat a mod 4 * 16]"
| "enc_sextets [] = []"

definition b64urlchar :: "nat \<Rightarrow> char" where
  "b64urlchar n =
     (if n < 26 then char_of (n + 65)
      else if n < 52 then char_of (n + 71)
      else if n < 62 then char_of (n - 4)
      else if n = 62 then CHR ''-'' else CHR ''_'')"

definition alnum_code :: "nat \<Rightarrow> bool" where
  "alnum_code m \<longleftrightarrow>
     (48 \<le> m \<and> m \<le> 57) \<or> (65 \<le> m \<and> m \<le> 90) \<or> (97 \<le> m \<and> m \<le> 122)"

subsection \<open>JSON values and property access\<close>

text \<open>
  An object holds its properties in insertion order. The properties the program reads
  (\<open>alg\<close>, \<open>typ\<close>, \<open>iss\<close>, \<open>aud\<close>, \<open>nbf\<close>, \<open>exp\<close>, \<open>iid\<close>, \<open>tv\<close>, \<open>password\<close>) are not
  built-in properties of any JavaScript value, so reading one of them from a value that is
  not an object yields \<open>undefined\<close> (\<open>None\<close>), except that reading from \<open>null\<close> throws.
\<close>

datatype json =
    JNull
  | JBool bool
  | JNum int
  | JStr string
  | JArr "json list"
  | JObj "(string \<times> json) list"

text \<open>\<open>v.k\<close>\<close>

definition get_prop :: "json \<Rightarrow> string \<Rightarrow> exn + json option" where
  "get_prop v k =
     (case v of JNull \<Rightarrow> Inl TypeError | JObj ps \<Rightarrow> Inr (map_of ps k) | _ \<Rightarrow> Inr None)"

text \<open>\<open>v?.k\<close>\<close>

definition opt_prop :: "json \<Rightarrow> string \<Rightarrow> json option" where
  "opt_prop v k = (case v of JObj ps \<Rightarrow> map_of ps k | _ \<Rightarrow> None)"

text \<open>Assignment \<open>o.k = v\<close>, also the effect of a later key in an object literal.\<close>

fun set_prop :: "(string \<times> json) list \<Rightarrow> string \<Rightarrow> json \<Rightarrow> (string \<times> json) list" where
  "set_prop [] k v = [(k, v)]"
| "set_prop ((k', v') # ps) k v =
     (if k' = k then (k, v) # ps else (k', v') # set_prop ps k v)"

text \<open>Truthiness of a value that may be \<open>undefined\<close>.\<close>

fun truthy :: "json option \<Rightarrow> bool" where
  "truthy None = False"
| "truthy (Some JNull) = False"
| "truthy (Some (JBool b)) = b"
| "truthy (Some (JNum n)) = (n \<noteq> 0)"
| "truthy (Some (JStr s)) = (s \<noteq> [])"
| "truthy (Some (JArr xs)) = True"
| "truthy (Some (JObj ps)) = True"

text \<open>Truthiness of a string that may be \<open>undefined\<close>.\<close>

definition truthy_str :: "string option \<Rightarrow> bool" where
  "truthy_str s = (case s of None \<Rightarrow> False | Some t \<Rightarrow> t \<noteq> [])"

subsection \<open>Records of the record store and the request\<close>

record webhook_instance =
  instance_id :: string
  WebhookID :: string
  authKey :: "string option"
  tokenVersion :: "int option"
  password :: "string option"

record webhook =
  ClientID :: string
  passwordProtected :: bool
  authenticationType :: "string option"

record event =
  path :: "string option"
  queryStringParameters :: "(string \<times> string) list option"
  pathParameters :: "(string \<times> string) list option"
  headers :: "(string \<times> string) list option"
  cookies :: "string list option"
  body :: "string option"

record cognito_result =
  authenticated :: bool
  authorized :: bool
  tokens :: "json option"
  user :: "json option"

subsection \<open>The platform\<close>

text \<open>
  \<^item> \<open>hmac_sha256 key msg\<close> is \<open>createHmac("sha256", key).update(msg).digest()\<close>.
  \<^item> \<open>JSON_parse\<close> is \<open>None\<close> where \<open>JSON.parse\<close> throws; \<open>decodeURIComponent\<close> is \<open>None\<close>
    where it throws; \<open>URL_parse\<close> gives \<open>protocol\<close> and \<open>host\<close> of \<open>new URL(s)\<close>, and
    \<open>None\<close> where the constructor throws.
  \<^item> \<open>getClientSecret\<close>, \<open>resolveInstanceId\<close>, \<open>loadInstance\<close>, \<open>loadWebhook\<close> and
    \<open>verifyCognitoAuthAndAuthorization\<close> read the secret store, the record store and the
    identity provider.
  \<^item> \<open>ToUint32_other\<close> and \<open>parseInt_other\<close> are the engine's conversions of the values
    whose conversion goes through their string form: strings, arrays and objects, and for
    \<open>parseInt\<close> also numbers of magnitude \<open>10 ^ 21\<close> and more. \<open>parseInt_other\<close> is \<open>None\<close>
    for \<open>NaN\<close>. \<open>less_other v n\<close> is \<open>v < n\<close> for such a value \<open>v\<close> and a number \<open>n\<close>.
\<close>

record platform =
  hmac_sha256 :: "buffer \<Rightarrow> buffer \<Rightarrow> buffer"
  JSON_stringify :: "json \<Rightarrow> string"
  JSON_parse :: "string \<Rightarrow> json option"
  decodeURIComponent :: "string \<Rightarrow> string option"
  URL_parse :: "string \<Rightarrow> (string \<times> string) option"
  getClientSecret :: "string \<Rightarrow> exn + string"
  resolveInstanceId :: "string option \<Rightarrow> exn + string"
  loadInstance :: "string \<Rightarrow> exn + webhook_instance option"
  loadWebhook :: "string \<Rightarrow> exn + webhook option"
  verifyCognitoAuthAndAuthorization :: "event \<Rightarrow> webhook_instance \<Rightarrow> webhook \<Rightarrow> exn + cognito_result"
  encodeURIComponent :: "string \<Rightarrow> string"
  ToUint32_other :: "json \<Rightarrow> int"
  parseInt_other :: "json \<Rightarrow> int option"
  less_other :: "json \<Rightarrow> int \<Rightarrow> bool"

text \<open>\<open>v >>> 0\<close> and \<open>parseInt(v)\<close> on a value that may be \<open>undefined\<close>.\<close>

fun js_to_uint32 :: "platform \<Rightarrow> json option \<Rightarrow> int" where
  "js_to_uint32 E None = 0"
| "js_to_uint32 E (Some JNull) = 0"
| "js_to_uint32 E (Some (JBool b)) = (if b then 1 else 0)"
| "js_to_uint32 E (Some (JNum n)) = to_uint32 n"
| "js_to_uint32 E (Some v) = to_uint32 (ToUint32_other E v)"

fun js_parseInt :: "platform \<Rightarrow> json option \<Rightarrow> int option" where
  "js_parseInt E None = None"
| "js_parseInt E (Some JNull) = None"
| "js_parseInt E (Some (JBool b)) = None"
| "js_parseInt E (Some (JNum n)) = (if \<bar>n\<bar> < 10 ^ 21 then Some n else parseInt_other E (JNum n))"
| "js_parseInt E (Some v) = parseInt_other E v"

text \<open>\<open>v < n\<close> for a value \<open>v\<close> that may be \<open>undefined\<close> and a number \<open>n\<close>.\<close>

fun js_less :: "platform \<Rightarrow> json option \<Rightarrow> int \<Rightarrow> bool" where
  "js_less E None n = False"
| "js_less E (Some JNull) n = (0 < n)"
| "js_less E (Some (JBool b)) n = ((if b then 1 else 0) < n)"
| "js_less E (Some (JNum m)) n = (m < n)"
| "js_less E (Some v) n = less_other E v n"

subsection \<open>String methods\<close>

text \<open>
  \<open>s.startsWith(p)\<close>, \<open>s.endsWith(p)\<close>, \<open>s.includes(p)\<close> (\<open>str_includes\<close>), \<open>xs.join(sep)\<close>, \<open>s.trim()\<close> and
  \<open>s.toLowerCase()\<close>; the last one on ASCII letters.
\<close>

definition startsWith :: "string \<Rightarrow> string \<Rightarrow> bool" where
  "startsWith s p \<longleftrightarrow> take (length p) s = p"

definition endsWith :: "string \<Rightarrow> string \<Rightarrow> bool" where
  "endsWith s p \<longleftrightarrow> length p \<le> length s \<and> drop (length s - length p) s = p"

fun str_includes :: "string \<Rightarrow> string \<Rightarrow> bool" where
  "str_includes [] p = (p = [])"
| "str_includes (c # cs) p = (startsWith (c # cs) p \<or> str_includes cs p)"

fun join :: "string \<Rightarrow> string list \<Rightarrow> string" where
  "join sep [] = []"
| "join sep [x] = x"
| "join sep (x # y # ys) = x @ sep @ join sep (y # ys)"

text \<open>
  \<open>s.trim()\<close> removes the white space and line terminators of ECMAScript from both ends:
  U+0009 to U+000D, U+0020, U+00A0, U+1680, U+2000 to U+200A, U+2028, U+2029, U+202F, U+205F,
  U+3000 and U+FEFF. The first six are single bytes of the string (\<open>is_space\<close>); in UTF-8,
  U+00A0 is the two bytes \<open>C2 A0\<close> (\<open>is_space2\<close>) and the others are three bytes each
  (\<open>is_space3\<close>): \<open>E1 9A 80\<close>, \<open>E2 80 80\<close> to \<open>E2 80 8A\<close>, \<open>E2 80 A8\<close>, \<open>E2 80 A9\<close>, \<open>E2 80 AF\<close>,
  \<open>E2 81 9F\<close>, \<open>E3 80 80\<close> and \<open>EF BB BF\<close>. \<open>strip_space\<close> removes such sequences from the
  front of a string; \<open>trim\<close> applies it to the string and, with the bytes of each sequence in
  reverse order, to its reversal.
\<close>

definition is_space :: "char \<Rightarrow> bool" where
  "is_space c \<longleftrightarrow> (let n = (of_char c :: nat) in (9 \<le> n \<and> n \<le> 13) \<or> n = 32)"

definition is_space2 :: "char \<Rightarrow> char \<Rightarrow> bool" where
  "is_space2 a b \<longleftrightarrow> (of_char a :: nat) = 194 \<and> (of_char b :: nat) = 160"

definition is_space3 :: "char \<Rightarrow> char \<Rightarrow> char \<Rightarrow> bool" where
  "is_space3 a b c \<longleftrightarrow>
     (let x = (of_char a :: nat); y = (of_char b :: nat); z = (of_char c :: nat) in
      (x = 225 \<and> y = 154 \<and> z = 128)
      \<or> (x = 226 \<and> y = 128 \<and> ((128 \<le> z \<and> z \<le> 138) \<or> z = 168 \<or> z = 169 \<or> z = 175))
      \<or> (x = 226 \<and> y = 129 \<and> z = 159)
      \<or> (x = 227 \<and> y = 128 \<and> z = 128)
      \<or> (x = 239 \<and> y = 187 \<and> z = 191))"

fun strip_space :: "(char \<Rightarrow> char \<Rightarrow> bool) \<Rightarrow> (char \<Rightarrow> char \<Rightarrow> char \<Rightarrow> bool) \<Rightarrow> string \<Rightarrow> string" where
  "strip_space p2 p3 [] = []"
| "strip_space p2 p3 [a] = (if is_space a then [] else [a])"
| "strip_space p2 p3 [a, b] =
     (if is_space a then strip_space p2 p3 [b] else if p2 a b then [] else [a, b])"
| "strip_space p2 p3 (a # b # c # s) =
     (if is_space a then strip_space p2 p3 (b # c # s)
      else if p2 a b then strip_space p2 p3 (c # s)
      else if p3 a b c then strip_space p2 p3 s
      else a # b # c # s)"

definition trimStart :: "string \<Rightarrow> string" where
  "trimStart s = strip_space is_space2 is_space3 s"

definition trimEnd :: "string \<Rightarrow> string" where
  "trimEnd s = rev (strip_space (\<lambda>b a. is_space2 a b) (\<lambda>c b a. is_space3 a b c) (rev s))"

definition trim :: "string \<Rightarrow> string" where
  "trim s = trimEnd (trimStart s)"

definition lower_char :: "char \<Rightarrow> char" where
  "lower_char c =
     (let n = (of_char c :: nat) in if 65 \<le> n \<and> n \<le> 90 then char_of (n + 32) else c)"

definition toLowerCase :: "string \<Rightarrow> string" where
  "toLowerCase s = map lower_char s"

text \<open>\<open>a || b\<close> on strings that may be \<open>undefined\<close>.\<close>

definition or_str :: "string option \<Rightarrow> string option \<Rightarrow> string option" where
  "or_str a b = (if truthy_str a then a else b)"

section \<open>helperToken/token.mjs\<close>

subsection \<open>Key derivation\<close>

text \<open>The secret and the key material may be \<open>null\<close> or \<open>undefined\<close> (\<open>None\<close>).\<close>

definition deriveSigningKey :: "platform \<Rightarrow> string option \<Rightarrow> string option \<Rightarrow> exn + buffer" where
  "deriveSigningKey E clientSecret instanceAuthKey =
     (case clientSecret of
        None \<Rightarrow> Inl TypeError
      | Some cs \<Rightarrow>
          if cs = [] then Inl TypeError
          else (case instanceAuthKey of
                  None \<Rightarrow> Inl TypeError
                | Some ak \<Rightarrow>
                    if ak = [] then Inl TypeError
                    else Inr (hmac_sha256 E (utf8 cs) (utf8 ak))))"

definition deriveCookieSigningKey :: "platform \<Rightarrow> string option \<Rightarrow> string option \<Rightarrow> exn + buffer" where
  "deriveCookieSigningKey E clientSecret instanceId =
     (case clientSecret of
        None \<Rightarrow> Inl TypeError
      | Some cs \<Rightarrow>
          if cs = [] then Inl TypeError
          else (case instanceId of
                  None \<Rightarrow> Inl TypeError
                | Some iid \<Rightarrow>
                    if iid = [] then Inl TypeError
                    else Inr (hmac_sha256 E (utf8 cs) (utf8 ''JWT_COOKIE|'' @ utf8 iid))))"

subsection \<open>Compact token\<close>

text \<open>
  The result \<open>{ ok, iat?, exp?, reason? }\<close> of \<open>verifyCompactToken\<close>: \<open>CompactOk iat exp\<close> for
  \<open>ok: true\<close> with the fields that are present, \<open>CompactFail reason\<close> for \<open>ok: false\<close>.
\<close>

datatype compact_result = CompactOk "int option" "int option" | CompactFail string

text \<open>\<open>nonce\<close> is the value of \<open>randomBytes(8)\<close>; \<open>tokenVersion_arg\<close> is the argument \<open>tokenVersion\<close>.\<close>

definition makeCompactToken ::
  "platform \<Rightarrow> buffer \<Rightarrow> buffer \<Rightarrow> string \<Rightarrow> int \<Rightarrow> int \<Rightarrow> int \<Rightarrow> string" where
  "makeCompactToken E nonce signingKey instanceId tokenVersion_arg iat ttlSeconds =
     (let ver = (1 :: byte);
          hasExp = (ttlSeconds > 0);
          flags = (if hasExp then 1 else 0 :: byte);
          expDelta = (if hasExp then ttlSeconds else 0);
          macInput = [ver, flags] @ u32 iat @ u32 expDelta @ nonce @ utf8 instanceId
                       @ u32 (to_uint32 tokenVersion_arg);
          fullTag = hmac_sha256 E signingKey macInput;
          sig = subarray fullTag 0 16;
          wire = [ver, flags] @ u32 iat @ u32 expDelta @ nonce @ sig
      in b64url wire)"

text \<open>\<open>a.equals(b)\<close> on buffers.\<close>

definition Buffer_equals :: "buffer \<Rightarrow> buffer \<Rightarrow> bool" where
  "Buffer_equals a b \<longleftrightarrow> a = b"

definition verifyCompactToken ::
  "platform \<Rightarrow> string \<Rightarrow> buffer \<Rightarrow> string \<Rightarrow> int \<Rightarrow> int \<Rightarrow> exn + compact_result" where
  "verifyCompactToken E token signingKey instanceId tokenVersion_arg nowSec =
     try_catch
       (let wire = fromB64url token in
        if length wire \<noteq> 1 + 1 + 4 + 4 + 8 + 16 then Inr (CompactFail ''len'')
        else
          js_bind (readUInt8 wire 0) (\<lambda>ver.
          js_bind (readUInt8 wire 1) (\<lambda>flags.
          js_bind (readUInt32BE wire 2) (\<lambda>iat.
          js_bind (readUInt32BE wire 6) (\<lambda>expDelta.
            let nonce = subarray wire 10 18;
                sig = subarray wire 18 34
            in if ver \<noteq> 1 then Inr (CompactFail ''ver'')
               else
                 let macInput = [of_int ver, of_int flags] @ subarray wire 2 10 @ nonce
                                  @ utf8 instanceId @ u32 (to_uint32 tokenVersion_arg);
                     fullTag = hmac_sha256 E signingKey macInput;
                     expected = subarray fullTag 0 16
                 in if \<not> Buffer_equals expected sig then Inr (CompactFail ''mac'')
                    else if flags AND 1 \<noteq> 0 then
                      (let exp = iat + expDelta
                       in if expDelta = 3600 then Inr (CompactOk None (Some exp))
                          else if nowSec > exp then Inr (CompactFail ''exp'')
                          else Inr (CompactOk (Some iat) (Some exp)))
                    else Inr (CompactOk (Some iat) None))))))
       (\<lambda>err. Inr (CompactFail ''parse''))"

text \<open>
  Auxiliary to the proofs: the big-endian value of four bytes, the tag \<open>verifyCompactToken\<close>
  recomputes from a 34-byte wire, and its verdict on that wire.
\<close>

definition be32 :: "buffer \<Rightarrow> nat \<Rightarrow> int" where
  "be32 buf off = uint (buf ! off) * 2 ^ 24 + uint (buf ! (off + 1)) * 2 ^ 16
                    + uint (buf ! (off + 2)) * 2 ^ 8 + uint (buf ! (off + 3))"

definition expected_tag :: "platform \<Rightarrow> buffer \<Rightarrow> buffer \<Rightarrow> string \<Rightarrow> int \<Rightarrow> buffer" where
  "expected_tag E wire signingKey instanceId tv =
     subarray (hmac_sha256 E signingKey
        ([wire ! 0, wire ! 1] @ subarray wire 2 10 @ subarray wire 10 18 @ utf8 instanceId
           @ u32 (to_uint32 tv))) 0 16"

definition compact_verdict :: "buffer \<Rightarrow> buffer \<Rightarrow> int \<Rightarrow> compact_result" where
  "compact_verdict wire expected nowSec =
     (if uint (wire ! 0) \<noteq> 1 then CompactFail ''ver''
      else if \<not> Buffer_equals expected (subarray wire 18 34) then CompactFail ''mac''
      else if uint (wire ! 1) AND 1 \<noteq> 0 then
        (if be32 wire 6 = 3600 then CompactOk None (Some (be32 wire 2 + be32 wire 6))
         else if nowSec > be32 wire 2 + be32 wire 6 then CompactFail ''exp''
         else CompactOk (Some (be32 wire 2)) (Some (be32 wire 2 + be32 wire 6)))
      else CompactOk (Some (be32 wire 2)) None)"

definition compact_wire :: "byte \<Rightarrow> int \<Rightarrow> int \<Rightarrow> buffer \<Rightarrow> buffer \<Rightarrow> buffer" where
  "compact_wire f i d nonce sig = [1, f] @ u32 i @ u32 d @ nonce @ sig"

text \<open>The digest of HMAC-SHA256 has 32 bytes.\<close>

definition sha256_sized :: "platform \<Rightarrow> bool" where
  "sha256_sized E \<longleftrightarrow> (\<forall>k m. length (hmac_sha256 E k m) = 32)"

subsection \<open>Minimal HS256 JWT\<close>

text \<open>\<open>s.split(c)\<close> for a one-character separator.\<close>

fun split_on :: "char \<Rightarrow> string \<Rightarrow> string list" where
  "split_on d [] = [[]]"
| "split_on d (c # cs) =
     (if c = d then [] # split_on d cs
      else (case split_on d cs of [] \<Rightarrow> [[c]] | x # xs \<Rightarrow> (c # x) # xs))"

definition b64uEncodeJson :: "platform \<Rightarrow> json \<Rightarrow> string" where
  "b64uEncodeJson E obj = b64url (utf8 (JSON_stringify E obj))"

definition b64uDecodeJson :: "platform \<Rightarrow> string \<Rightarrow> exn + json" where
  "b64uDecodeJson E s =
     (case JSON_parse E (toString_utf8 (fromB64url s)) of
        None \<Rightarrow> Inl SyntaxError
      | Some v \<Rightarrow> Inr v)"

text \<open>
  \<open>createJwtHs256({ key, payload = {}, ttlSec = 0, iss = "tgl", aud, iat = nowSec() })\<close>.
  An argument that is left out is \<open>None\<close>; \<open>clock\<close> is the value \<open>nowSec()\<close> would return.
\<close>

definition jwt_header :: json where
  "jwt_header = JObj [(''alg'', JStr ''HS256''), (''typ'', JStr ''JWT'')]"

definition jwt_body ::
  "(string \<times> json) list \<Rightarrow> int \<Rightarrow> string \<Rightarrow> string option \<Rightarrow> int \<Rightarrow> (string \<times> json) list" where
  "jwt_body payload ttlSec iss aud iat =
     (let body0 = set_prop (set_prop payload ''iat'' (JNum iat)) ''iss'' (JStr iss);
          body1 = (case aud of
                     None \<Rightarrow> body0
                   | Some a \<Rightarrow> if a \<noteq> [] then set_prop body0 ''aud'' (JStr a) else body0)
      in if ttlSec > 0 then set_prop body1 ''exp'' (JNum (iat + ttlSec)) else body1)"

definition createJwtHs256 ::
  "platform \<Rightarrow> int \<Rightarrow> buffer \<Rightarrow> (string \<times> json) list option \<Rightarrow> int option \<Rightarrow> string option
     \<Rightarrow> string option \<Rightarrow> int option \<Rightarrow> string" where
  "createJwtHs256 E clock key payload_arg ttlSec_arg iss_arg aud iat_arg =
     (let payload = (case payload_arg of None \<Rightarrow> [] | Some p \<Rightarrow> p);
          ttlSec = (case ttlSec_arg of None \<Rightarrow> 0 | Some t \<Rightarrow> t);
          iss = (case iss_arg of None \<Rightarrow> ''tgl'' | Some i \<Rightarrow> i);
          iat = (case iat_arg of None \<Rightarrow> clock | Some t \<Rightarrow> t);
          header = jwt_header;
          body = JObj (jwt_body payload ttlSec iss aud iat);
          encodedHeader = b64uEncodeJson E header;
          encodedPayload = b64uEncodeJson E body;
          data = encodedHeader @ ''.'' @ encodedPayload;
          sig = hmac_sha256 E key (utf8 data);
          encodedSig = b64url sig
      in data @ ''.'' @ encodedSig)"

text \<open>The result \<open>{ ok, payload?, reason? }\<close> of \<open>verifyJwtHs256\<close>.\<close>

datatype jwt_result = JwtOk json | JwtFail string

text \<open>\<open>timingSafeEqual(a, b)\<close> throws on buffers of different lengths.\<close>

definition timingSafeEqual :: "buffer \<Rightarrow> buffer \<Rightarrow> exn + bool" where
  "timingSafeEqual a b = (if length a \<noteq> length b then Inl RangeError else Inr (a = b))"

text \<open>
  The audience test:
  \<open>typeof a === "string" ? a === aud : Array.isArray(a) ? a.includes(aud) : false\<close>.
\<close>

definition audOk :: "json option \<Rightarrow> string \<Rightarrow> bool" where
  "audOk a aud =
     (case a of
        Some (JStr s) \<Rightarrow> s = aud
      | Some (JArr xs) \<Rightarrow> JStr aud \<in> set xs
      | _ \<Rightarrow> False)"

text \<open>The checks of \<open>verifyJwtHs256\<close> on the decoded payload, in the order of the source.\<close>

definition verify_claims :: "json \<Rightarrow> string \<Rightarrow> string option \<Rightarrow> int \<Rightarrow> int \<Rightarrow> exn + jwt_result" where
  "verify_claims payload iss aud now clockSkewSec =
     js_bind (if iss \<noteq> [] then js_bind (get_prop payload ''iss'') (\<lambda>v. Inr (v \<noteq> Some (JStr iss)))
              else Inr False) (\<lambda>iss_bad.
     if iss_bad then Inr (JwtFail ''iss'')
     else
       js_bind (case aud of
                  None \<Rightarrow> Inr False
                | Some a \<Rightarrow>
                    if a \<noteq> [] then js_bind (get_prop payload ''aud'') (\<lambda>v. Inr (\<not> audOk v a))
                    else Inr False) (\<lambda>aud_bad.
       if aud_bad then Inr (JwtFail ''aud'')
       else
         js_bind (get_prop payload ''nbf'') (\<lambda>nbf.
         if (case nbf of Some (JNum n) \<Rightarrow> now + clockSkewSec < n | _ \<Rightarrow> False)
         then Inr (JwtFail ''nbf'')
         else
           js_bind (get_prop payload ''exp'') (\<lambda>exp.
           if (case exp of Some (JNum n) \<Rightarrow> now - clockSkewSec \<ge> n | _ \<Rightarrow> False)
           then Inr (JwtFail ''exp'')
           else Inr (JwtOk payload)))))"

text \<open>
  \<open>verifyJwtHs256({ token, key, iss = "tgl", aud, now = nowSec(), clockSkewSec = 0 })\<close>.
\<close>

definition verifyJwtHs256 ::
  "platform \<Rightarrow> int \<Rightarrow> string \<Rightarrow> buffer \<Rightarrow> string option \<Rightarrow> string option \<Rightarrow> int option
     \<Rightarrow> int option \<Rightarrow> exn + jwt_result" where
  "verifyJwtHs256 E clock token key iss_arg aud now_arg clockSkewSec_arg =
     (let iss = (case iss_arg of None \<Rightarrow> ''tgl'' | Some i \<Rightarrow> i);
          now = (case now_arg of None \<Rightarrow> clock | Some t \<Rightarrow> t);
          clockSkewSec = (case clockSkewSec_arg of None \<Rightarrow> 0 | Some t \<Rightarrow> t)
      in try_catch
           (case split_on CHR ''.'' token of
              [h, p, s] \<Rightarrow>
                js_bind (b64uDecodeJson E h) (\<lambda>header.
                if opt_prop header ''alg'' \<noteq> Some (JStr ''HS256'')
                   \<or> opt_prop header ''typ'' \<noteq> Some (JStr ''JWT'')
                then Inr (JwtFail ''header'')
                else
                  let data = h @ ''.'' @ p;
                      expectedSig = hmac_sha256 E key (utf8 data);
                      gotSig = fromB64url s
                  in js_bind (if length expectedSig \<noteq> length gotSig then Inr True
                              else js_bind (timingSafeEqual expectedSig gotSig) (\<lambda>eq. Inr (\<not> eq)))
                       (\<lambda>sig_bad.
                     if sig_bad then Inr (JwtFail ''sig'')
                     else js_bind (b64uDecodeJson E p) (\<lambda>payload.
                            verify_claims payload iss aud now clockSkewSec)))
            | _ \<Rightarrow> Inr (JwtFail ''format''))
           (\<lambda>err. Inr (JwtFail ''parse'')))"

text \<open>
  Auxiliary to the statements: \<open>JSON.parse\<close> gives back the value \<open>JSON.stringify\<close> wrote.
\<close>

definition json_roundtrip :: "platform \<Rightarrow> json \<Rightarrow> bool" where
  "json_roundtrip E v \<longleftrightarrow> JSON_parse E (JSON_stringify E v) = Some v"

text \<open>Auxiliary to the proofs: the characters of a token.\<close>

definition jwt_char :: "char \<Rightarrow> bool" where
  "jwt_char c \<longleftrightarrow> alnum_code (of_char c) \<or> c = CHR ''-'' \<or> c = CHR ''_'' \<or> c = CHR ''.''"

section \<open>auth/cookie.mjs\<close>

definition COOKIE_NAME :: string where
  "COOKIE_NAME = ''tgl_wi_auth''"

definition COOKIE_TTL_SEC :: int where
  "COOKIE_TTL_SEC = 60 * 60 * 24 * 7"

definition cookieNameFor :: "string \<Rightarrow> string" where
  "cookieNameFor instanceId = COOKIE_NAME @ ''.'' @ instanceId"

text \<open>
  \<open>getCookieMap\<close>: the loop over the pairs of the header, then the function. The repository
  holds two versions; on a string they agree (the later one returns the empty map at once for the
  empty string, where the earlier one finds no pair). A pair with a key is decoded with
  \<open>decodeURIComponent\<close>, which throws on a malformed escape.
\<close>

fun cookie_pairs :: "platform \<Rightarrow> string list \<Rightarrow> (string \<rightharpoonup> string) \<Rightarrow> exn + (string \<rightharpoonup> string)" where
  "cookie_pairs E [] m = Inr m"
| "cookie_pairs E (pair # rest) m =
     (if CHR ''='' \<notin> set pair then cookie_pairs E rest m
      else
        let k = trim (takeWhile (\<lambda>c. c \<noteq> CHR ''='') pair);
            v = trim (tl (dropWhile (\<lambda>c. c \<noteq> CHR ''='') pair))
        in if k \<noteq> [] then
             (case decodeURIComponent E v of
                None \<Rightarrow> Inl URIError
              | Some d \<Rightarrow> cookie_pairs E rest (m(k \<mapsto> d)))
           else cookie_pairs E rest m)"

definition getCookieMap :: "platform \<Rightarrow> string option \<Rightarrow> exn + (string \<rightharpoonup> string)" where
  "getCookieMap E cookieHeader =
     cookie_pairs E (split_on CHR '';'' (case cookieHeader of None \<Rightarrow> [] | Some s \<Rightarrow> s)) Map.empty"

text \<open>\<open>buildAuthCookie({ name, token, maxAgeSec, path })\<close>; \<open>show_int\<close> is the decimal form.\<close>

definition buildAuthCookie :: "platform \<Rightarrow> (int \<Rightarrow> string) \<Rightarrow> string \<Rightarrow> string \<Rightarrow> int \<Rightarrow> string \<Rightarrow> string" where
  "buildAuthCookie E show_int name token maxAgeSec cookie_path =
     join ''; ''
       [name @ ''='' @ encodeURIComponent E token,
        ''Max-Age='' @ show_int maxAgeSec,
        ''Path='' @ cookie_path,
        ''Domain=.thegraphitelab.com'',
        ''HttpOnly'',
        ''Secure'',
        ''SameSite=Strict'']"

section \<open>auth/password.mjs\<close>

datatype page = PASSWORD_PAGE_HTML | COGNITO_LOGIN_PAGE_HTML | ACCESS_DENIED_PAGE_HTML

text \<open>
  The verdict of the gate: \<open>{ ok: true }\<close>, \<open>{ ok: true, cognitoTokens, user }\<close>, or
  \<open>{ ok: false, html, reason? }\<close>.
\<close>

datatype gate_result =
    GateOk
  | GateOkCognito "json option" "json option"
  | GateDeny page "string option"

definition header_of :: "event \<Rightarrow> string \<Rightarrow> string option" where
  "header_of ev k = (case headers ev of None \<Rightarrow> None | Some hs \<Rightarrow> map_of hs k)"

definition query_of :: "event \<Rightarrow> string \<Rightarrow> string option" where
  "query_of ev k = (case queryStringParameters ev of None \<Rightarrow> None | Some q \<Rightarrow> map_of q k)"

text \<open>\<open>instance.tokenVersion >>> 0\<close>\<close>

definition tokenVersion_u32 :: "webhook_instance \<Rightarrow> int" where
  "tokenVersion_u32 inst = (case tokenVersion inst of None \<Rightarrow> 0 | Some n \<Rightarrow> to_uint32 n)"

definition compact_ok :: "compact_result \<Rightarrow> bool" where
  "compact_ok r = (case r of CompactOk i e \<Rightarrow> True | CompactFail x \<Rightarrow> False)"

text \<open>
  Step 1 of the gate: the query token against the legacy key. The \<open>try\<close> block returns from
  the gate when the token verifies; every other outcome, an exception included, falls through
  to the password page.
\<close>

definition legacy_token_step :: "platform \<Rightarrow> int \<Rightarrow> webhook_instance \<Rightarrow> webhook \<Rightarrow> string \<Rightarrow> exn + gate_result" where
  "legacy_token_step E clock inst wh qsToken =
     js_bind
       (try_catch
          (js_bind (getClientSecret E (ClientID wh)) (\<lambda>clientSecret.
           js_bind (deriveSigningKey E (Some clientSecret) (authKey inst)) (\<lambda>legacyKey.
           js_bind (verifyCompactToken E qsToken legacyKey (instance_id inst)
                      (tokenVersion_u32 inst) clock) (\<lambda>res.
           Inr (compact_ok res)))))
          (\<lambda>e. Inr False))
       (\<lambda>ok. if ok then Inr GateOk else Inr (GateDeny PASSWORD_PAGE_HTML None))"

text \<open>Step 2 of the gate: the session cookie.\<close>

definition cookie_step :: "platform \<Rightarrow> int \<Rightarrow> webhook_instance \<Rightarrow> webhook \<Rightarrow> string \<Rightarrow> exn + gate_result" where
  "cookie_step E clock inst wh cookieToken =
     try_catch
       (js_bind (getClientSecret E (ClientID wh)) (\<lambda>clientSecret.
        js_bind (deriveCookieSigningKey E (Some clientSecret) (Some (instance_id inst))) (\<lambda>cookieKey.
        let aud = ''wi:'' @ instance_id inst in
        js_bind (verifyJwtHs256 E clock cookieToken cookieKey (Some ''tgl'') (Some aud)
                   (Some clock) (Some 60)) (\<lambda>v.
        case v of
          JwtFail r \<Rightarrow> Inr (GateDeny PASSWORD_PAGE_HTML None)
        | JwtOk payload \<Rightarrow>
            let p = (if truthy (Some payload) then payload else JObj []) in
            js_bind (get_prop p ''iid'') (\<lambda>iid.
            if iid \<noteq> Some (JStr (instance_id inst)) then Inr (GateDeny PASSWORD_PAGE_HTML None)
            else
              js_bind (get_prop p ''tv'') (\<lambda>tv.
              if js_to_uint32 E tv \<noteq> tokenVersion_u32 inst
              then Inr (GateDeny PASSWORD_PAGE_HTML None)
              else Inr GateOk))))))
       (\<lambda>e. Inr (GateDeny PASSWORD_PAGE_HTML None))"

text \<open>The password flow, common to both versions, from the parsed cookies on.\<close>

definition password_flow ::
  "platform \<Rightarrow> int \<Rightarrow> webhook_instance \<Rightarrow> webhook \<Rightarrow> string option \<Rightarrow> (string \<rightharpoonup> string)
     \<Rightarrow> exn + gate_result" where
  "password_flow E clock inst wh qsToken cookieMap =
     (let cookieToken = cookieMap (cookieNameFor (instance_id inst)) in
      if truthy_str qsToken \<and> truthy_str (authKey inst) then
        (case qsToken of
           Some t \<Rightarrow> legacy_token_step E clock inst wh t
         | None \<Rightarrow> Inr (GateDeny PASSWORD_PAGE_HTML None))
      else
        (case cookieToken of
           Some c \<Rightarrow>
             if c \<noteq> [] then cookie_step E clock inst wh c
             else Inr (GateDeny PASSWORD_PAGE_HTML None)
         | None \<Rightarrow> Inr (GateDeny PASSWORD_PAGE_HTML None)))"

text \<open>\<open>verifyAccessOrPasswordPage(instance, webhook, event)\<close> of \<open>src/auth/password.mjs\<close>.\<close>

definition verifyAccessOrPasswordPage ::
  "platform \<Rightarrow> int \<Rightarrow> webhook_instance \<Rightarrow> webhook \<Rightarrow> event \<Rightarrow> exn + gate_result" where
  "verifyAccessOrPasswordPage E clock inst wh ev =
     (if \<not> passwordProtected wh then Inr GateOk
      else
        let qsToken = query_of ev ''token'' in
        js_bind (getCookieMap E (or_str (header_of ev ''cookie'') (header_of ev ''Cookie'')))
          (\<lambda>cookieMap. password_flow E clock inst wh qsToken cookieMap))"

text \<open>
  The later version of the same function, with the identity provider first; the cookies come
  from \<open>event.cookies\<close> when the request has that array.
\<close>

definition verifyAccessOrPasswordPage_cognito ::
  "platform \<Rightarrow> int \<Rightarrow> webhook_instance \<Rightarrow> webhook \<Rightarrow> event \<Rightarrow> exn + gate_result" where
  "verifyAccessOrPasswordPage_cognito E clock inst wh ev =
     (if authenticationType wh = Some ''user'' then
        js_bind (verifyCognitoAuthAndAuthorization E ev inst wh) (\<lambda>cognitoResult.
        if authenticated cognitoResult \<and> authorized cognitoResult
        then Inr (GateOkCognito (tokens cognitoResult) (user cognitoResult))
        else if authenticated cognitoResult \<and> \<not> authorized cognitoResult
        then Inr (GateDeny ACCESS_DENIED_PAGE_HTML (Some ''unauthorized''))
        else Inr (GateDeny COGNITO_LOGIN_PAGE_HTML (Some ''not_authenticated'')))
      else if \<not> passwordProtected wh then Inr GateOk
      else
        let qsToken = query_of ev ''token'';
            cookieSource =
              (case cookies ev of
                 Some cs \<Rightarrow> Some (join ''; '' cs)
               | None \<Rightarrow> or_str (or_str (header_of ev ''cookie'') (header_of ev ''Cookie'')) (Some []))
        in js_bind (getCookieMap E cookieSource)
             (\<lambda>cookieMap. password_flow E clock inst wh qsToken cookieMap))"

text \<open>
  Auxiliary to the statements: whether step 1 accepts a query token, and the cookie source of
  the later version.
\<close>

definition legacy_token_accepts :: "platform \<Rightarrow> int \<Rightarrow> webhook_instance \<Rightarrow> webhook \<Rightarrow> string \<Rightarrow> bool" where
  "legacy_token_accepts E clock inst wh t =
     (case getClientSecret E (ClientID wh) of
        Inl e \<Rightarrow> False
      | Inr cs \<Rightarrow>
          (case deriveSigningKey E (Some cs) (authKey inst) of
             Inl e \<Rightarrow> False
           | Inr k \<Rightarrow>
               (case verifyCompactToken E t k (instance_id inst) (tokenVersion_u32 inst) clock of
                  Inl e \<Rightarrow> False
                | Inr r \<Rightarrow> compact_ok r)))"

definition cookieSource_of :: "event \<Rightarrow> string option" where
  "cookieSource_of ev =
     (case cookies ev of
        Some cs \<Rightarrow> Some (join ''; '' cs)
      | None \<Rightarrow> or_str (or_str (header_of ev ''cookie'') (header_of ev ''Cookie'')) (Some []))"

section \<open>auth/jwt.mjs\<close>

text \<open>The result \<open>{ ok, error?, instance?, webhook?, jwtPayload? }\<close> of \<open>verifyJWTForAPI\<close>.\<close>

datatype api_result = ApiOk webhook_instance webhook json | ApiFail string

text \<open>\<open>parseInt(instance.tokenVersion || 0)\<close>\<close>

definition expectedVersion_of :: "platform \<Rightarrow> webhook_instance \<Rightarrow> int option" where
  "expectedVersion_of E inst =
     js_parseInt E (Some (JNum (case tokenVersion inst of None \<Rightarrow> 0 | Some n \<Rightarrow> n)))"

definition verifyJWTForAPI :: "platform \<Rightarrow> int \<Rightarrow> event \<Rightarrow> string \<Rightarrow> exn + api_result" where
  "verifyJWTForAPI E clock ev instanceId =
     try_catch
       (js_bind (loadInstance E instanceId) (\<lambda>inst_opt.
        case inst_opt of
          None \<Rightarrow> Inr (ApiFail ''Instance not found'')
        | Some inst \<Rightarrow>
        js_bind (loadWebhook E (WebhookID inst)) (\<lambda>wh_opt.
        case wh_opt of
          None \<Rightarrow> Inr (ApiFail ''Webhook not found'')
        | Some wh \<Rightarrow>
        js_bind (getClientSecret E (ClientID wh)) (\<lambda>clientSecret.
        if clientSecret = [] then Inr (ApiFail ''Client configuration error'')
        else
        js_bind (deriveCookieSigningKey E (Some clientSecret) (Some instanceId)) (\<lambda>cookieKey.
        js_bind (getCookieMap E
                   (or_str (or_str (header_of ev ''cookie'') (header_of ev ''Cookie'')) (Some [])))
          (\<lambda>cookieMap.
        let cookieName = cookieNameFor instanceId;
            token = cookieMap cookieName
        in case token of
             None \<Rightarrow> Inr (ApiFail ''Authentication required'')
           | Some t \<Rightarrow>
        if t = [] then Inr (ApiFail ''Authentication required'')
        else
        let aud = ''wi:'' @ instanceId in
        js_bind (verifyJwtHs256 E clock t cookieKey (Some ''tgl'') (Some aud) (Some clock) (Some 60))
          (\<lambda>result.
        case result of
          JwtFail r \<Rightarrow> Inr (ApiFail ''Invalid authentication token'')
        | JwtOk pl \<Rightarrow>
        let payload = (if truthy (Some pl) then pl else JObj []) in
        js_bind (get_prop payload ''iid'') (\<lambda>iid.
        if iid \<noteq> Some (JStr instanceId) then Inr (ApiFail ''Instance ID mismatch'')
        else
        js_bind (get_prop payload ''tv'') (\<lambda>tv.
        let payloadVersion = js_parseInt E tv;
            expectedVersion = expectedVersion_of E inst
        in if payloadVersion = None \<or> expectedVersion = None \<or> payloadVersion \<noteq> expectedVersion
           then Inr (ApiFail ''Token has been revoked'')
           else
        js_bind (get_prop payload ''exp'') (\<lambda>exp.
        if truthy exp \<and> js_less E exp clock then Inr (ApiFail ''Token expired'')
        else Inr (ApiOk inst wh payload)))))))))))
       (\<lambda>error. Inr (ApiFail ''Internal error''))"

text \<open>
  Auxiliary to the statements: the cookie header \<open>verifyJWTForAPI\<close> reads, and its verdict on
  a payload that \<open>verifyJwtHs256\<close> has accepted.
\<close>

definition api_cookie_header :: "event \<Rightarrow> string option" where
  "api_cookie_header ev = or_str (or_str (header_of ev ''cookie'') (header_of ev ''Cookie'')) (Some [])"

definition api_verdict :: "platform \<Rightarrow> int \<Rightarrow> webhook_instance \<Rightarrow> webhook \<Rightarrow> string \<Rightarrow> json \<Rightarrow> api_result" where
  "api_verdict E clock inst wh iid payload =
     (if opt_prop payload ''iid'' \<noteq> Some (JStr iid) then ApiFail ''Instance ID mismatch''
      else if js_parseInt E (opt_prop payload ''tv'') = None \<or> expectedVersion_of E inst = None
              \<or> js_parseInt E (opt_prop payload ''tv'') \<noteq> expectedVersion_of E inst
      then ApiFail ''Token has been revoked''
      else if truthy (opt_prop payload ''exp'') \<and> js_less E (opt_prop payload ''exp'') clock
      then ApiFail ''Token expired''
      else ApiOk inst wh (if truthy (Some payload) then payload else JObj []))"

text \<open>
  \<open>validateCSRFHeaders(headers, allowedOrigins = [], requireXRW = false)\<close>. The headers are
  the entries of the object in order; a later entry with the same lower-case name overwrites an
  earlier one.
\<close>

datatype csrf_result = CsrfOk | CsrfFail string

fun normalize_headers :: "(string \<times> string) list \<Rightarrow> (string \<rightharpoonup> string) \<Rightarrow> (string \<rightharpoonup> string)" where
  "normalize_headers [] m = m"
| "normalize_headers ((key, val) # rest) m = normalize_headers rest (m(toLowerCase key \<mapsto> val))"

text \<open>The header the origin check reads: \<open>normalizedHeaders.origin || normalizedHeaders.referer\<close>.\<close>

definition csrf_origin :: "(string \<times> string) list option \<Rightarrow> string option" where
  "csrf_origin headers_arg =
     (let normalizedHeaders =
            normalize_headers (case headers_arg of None \<Rightarrow> [] | Some hs \<Rightarrow> hs) Map.empty
      in or_str (normalizedHeaders ''origin'') (normalizedHeaders ''referer''))"

definition validateCSRFHeaders ::
  "platform \<Rightarrow> (string \<times> string) list option \<Rightarrow> string list \<Rightarrow> bool \<Rightarrow> csrf_result" where
  "validateCSRFHeaders E headers_arg allowedOrigins requireXRW =
     (let normalizedHeaders =
            normalize_headers (case headers_arg of None \<Rightarrow> [] | Some hs \<Rightarrow> hs) Map.empty;
          origin_check =
            (if length allowedOrigins > 0 then
               (let origin = or_str (normalizedHeaders ''origin'') (normalizedHeaders ''referer'')
                in case origin of
                     None \<Rightarrow> Some ''Missing Origin/Referer header''
                   | Some ori \<Rightarrow>
                       if ori = [] then Some ''Missing Origin/Referer header''
                       else (case URL_parse E ori of
                               None \<Rightarrow> Some ''Invalid Origin header''
                             | Some (protocol, host) \<Rightarrow>
                                 let originBase = protocol @ ''//'' @ host
                                 in if \<not> list_ex (\<lambda>allowed. startsWith originBase allowed)
                                          allowedOrigins
                                    then Some ''Origin not allowed''
                                    else None))
             else None)
      in case origin_check of
           Some err \<Rightarrow> CsrfFail err
         | None \<Rightarrow>
             if requireXRW \<and> normalizedHeaders ''x-requested-with'' \<noteq> Some ''XMLHttpRequest''
             then CsrfFail ''Missing or invalid X-Requested-With header''
             else CsrfOk)"

section \<open>handlers/post.mjs\<close>

text \<open>
  The outcome of \<open>handlePostRequest\<close>: a response \<open>{ statusCode, headers, body }\<close>, or one of
  the paths this development does not follow further: the two upload handlers and the form
  submission after the gate has allowed the request.
\<close>

datatype response_body = Text string | Page page

datatype post_outcome =
    Response string "(string \<times> string) list" response_body
  | UploadUrl
  | UploadComplete
  | Submit

text \<open>\<open>payload?.password || ""\<close> keeps a truthy value of any type.\<close>

definition provided_password :: "json \<Rightarrow> json" where
  "provided_password payload =
     (let pw = opt_prop payload ''password'' in
      case pw of None \<Rightarrow> JStr [] | Some v \<Rightarrow> if truthy pw then v else JStr [])"

text \<open>The tests on the path and the query string at the head of \<open>handlePostRequest\<close>.\<close>

definition path_includes :: "event \<Rightarrow> string \<Rightarrow> bool" where
  "path_includes ev s = (case path ev of None \<Rightarrow> False | Some p \<Rightarrow> str_includes p s)"

definition isAuthExchange :: "event \<Rightarrow> bool" where
  "isAuthExchange ev =
     (let rawPath = (case or_str (path ev) (Some []) of None \<Rightarrow> [] | Some p \<Rightarrow> p)
      in endsWith rawPath ''/auth'' \<or> query_of ev ''auth'' = Some ''1'')"

text \<open>
  \<open>greedy\<close>: the path parameter \<open>instanceID\<close>, percent-decoded when that does not throw.
\<close>

definition greedy_of :: "platform \<Rightarrow> event \<Rightarrow> string option" where
  "greedy_of E ev =
     (case (case pathParameters ev of None \<Rightarrow> None | Some ps \<Rightarrow> map_of ps ''instanceID'') of
        None \<Rightarrow> None
      | Some g \<Rightarrow> (case decodeURIComponent E g of None \<Rightarrow> Some g | Some d \<Rightarrow> Some d))"

text \<open>\<open>event.body ? JSON.parse(event.body) : {}\<close>\<close>

definition body_payload :: "platform \<Rightarrow> event \<Rightarrow> exn + json" where
  "body_payload E ev =
     (case body ev of
        None \<Rightarrow> Inr (JObj [])
      | Some b \<Rightarrow>
          if b = [] then Inr (JObj [])
          else (case JSON_parse E b of None \<Rightarrow> Inl SyntaxError | Some v \<Rightarrow> Inr v))"

definition invalid_password_response :: "platform \<Rightarrow> post_outcome" where
  "invalid_password_response E =
     Response ''401'' [(''Content-Type'', ''application/json'')]
       (Text (JSON_stringify E (JObj [(''ok'', JBool False), (''error'', JStr ''Invalid password'')])))"

text \<open>
  \<open>gate\<close> is the imported \<open>verifyAccessOrPasswordPage\<close>, \<open>show_int\<close> the decimal form of a
  number in a template string.
\<close>

definition handlePostRequest ::
  "platform \<Rightarrow> int \<Rightarrow> (int \<Rightarrow> string)
     \<Rightarrow> (webhook_instance \<Rightarrow> webhook \<Rightarrow> event \<Rightarrow> exn + gate_result) \<Rightarrow> event \<Rightarrow> exn + post_outcome" where
  "handlePostRequest E clock show_int gate ev =
     (if path_includes ev ''/upload-url'' then Inr UploadUrl
      else if path_includes ev ''/upload-complete'' then Inr UploadComplete
      else
        js_bind (resolveInstanceId E (greedy_of E ev)) (\<lambda>instanceID.
        js_bind (loadInstance E instanceID) (\<lambda>inst_opt.
        case inst_opt of
          None \<Rightarrow> Inl TypeError
        | Some inst \<Rightarrow>
        js_bind (loadWebhook E (WebhookID inst)) (\<lambda>wh_opt.
        case wh_opt of
          None \<Rightarrow> Inl TypeError
        | Some wh \<Rightarrow>
        if isAuthExchange ev \<and> passwordProtected wh then
          js_bind (body_payload E ev) (\<lambda>payload.
          let provided = provided_password payload;
              expected = (case or_str (password inst) (Some []) of None \<Rightarrow> [] | Some p \<Rightarrow> p)
          in if provided = JStr [] \<or> provided \<noteq> JStr expected then
               Inr (invalid_password_response E)
             else
               js_bind (getClientSecret E (ClientID wh)) (\<lambda>clientSecret.
               js_bind (deriveCookieSigningKey E (Some clientSecret) (Some (instance_id inst)))
                 (\<lambda>cookieKey.
               let jwtCookie =
                     createJwtHs256 E clock cookieKey
                       (Some [(''iid'', JStr (instance_id inst)),
                              (''tv'', JNum (tokenVersion_u32 inst))])
                       (Some COOKIE_TTL_SEC) (Some ''tgl'')
                       (Some (''wi:'' @ instance_id inst)) (Some clock);
                   setCookie =
                     buildAuthCookie E show_int (cookieNameFor (instance_id inst)) jwtCookie
                       COOKIE_TTL_SEC ''/instance/''
               in Inr (Response ''200''
                         [(''Content-Type'', ''application/json''), (''Set-Cookie'', setCookie)]
                         (Text (JSON_stringify E (JObj [(''ok'', JBool True)])))))))
        else if passwordProtected wh then
          js_bind (gate inst wh ev) (\<lambda>g.
          case g of
            GateDeny pg r \<Rightarrow>
              Inr (Response ''401'' [(''Content-Type'', ''text/html'')] (Page PASSWORD_PAGE_HTML))
          | _ \<Rightarrow> Inr Submit)
        else Inr Submit))))"

section \<open>A sample platform\<close>

text \<open>
  The statements below hold for every platform. Where one of them is applied to a concrete
  request, this platform stands in: a keyed function with a 32-byte result in place of
  HMAC-SHA256, JSON for the handful of texts that occur, percent-decoding of ASCII escapes, URLs
  of the form \<open>scheme://host/...\<close>, and a record store that holds one instance \<open>I1\<close> of one
  password-protected webhook, with the revocation counter it is given.
\<close>

definition sample_hmac :: "buffer \<Rightarrow> buffer \<Rightarrow> buffer" where
  "sample_hmac k m = take 32 (k @ m @ replicate 32 0)"

definition sample_json_table :: "(string \<times> json) list" where
  \<open>sample_json_table =
     [(''{"alg":"HS256","typ":"JWT"}'', jwt_header),
      (''{"alg":"none","typ":"JWT"}'', JObj [(''alg'', JStr ''none''), (''typ'', JStr ''JWT'')]),
      (''{}'', JObj []),
      (''{"password":""}'', JObj [(''password'', JStr [])]),
      (''{"iid":"I1","tv":0,"iat":1000,"iss":"tgl","aud":"wi:I1","exp":1600}'',
         JObj [(''iid'', JStr ''I1''), (''tv'', JNum 0), (''iat'', JNum 1000), (''iss'', JStr ''tgl''),
               (''aud'', JStr ''wi:I1''), (''exp'', JNum 1600)]),
      (''{"iid":"I1","tv":"5abc","iat":1000,"iss":"tgl","aud":"wi:I1","exp":1600}'',
         JObj [(''iid'', JStr ''I1''), (''tv'', JStr ''5abc''), (''iat'', JNum 1000),
               (''iss'', JStr ''tgl''), (''aud'', JStr ''wi:I1''), (''exp'', JNum 1600)]),
      (''{"iid":"I1","tv":0,"iat":1000,"iss":"tgl","aud":"wi:I1"}'',
         JObj [(''iid'', JStr ''I1''), (''tv'', JNum 0), (''iat'', JNum 1000), (''iss'', JStr ''tgl''),
               (''aud'', JStr ''wi:I1'')]),
      (''{"nbf":2000,"iat":1000,"iss":"tgl","exp":1600}'',
         JObj [(''nbf'', JNum 2000), (''iat'', JNum 1000), (''iss'', JStr ''tgl''),
               (''exp'', JNum 1600)]),
      (''{"iss":"tgl","iat":1000,"exp":1600}'',
         JObj [(''iss'', JStr ''tgl''), (''iat'', JNum 1000), (''exp'', JNum 1600)]),
      (''{"exp":100,"iat":1000,"iss":"tgl"}'',
         JObj [(''exp'', JNum 100), (''iat'', JNum 1000), (''iss'', JStr ''tgl'')])]\<close>

definition sample_JSON_parse :: "string \<Rightarrow> json option" where
  "sample_JSON_parse s = map_of sample_json_table s"

definition sample_JSON_stringify :: "json \<Rightarrow> string" where
  "sample_JSON_stringify v =
     (case find (\<lambda>(s, w). w = v) sample_json_table of Some (s, w) \<Rightarrow> s | None \<Rightarrow> ''null'')"

definition hex_digit :: "char \<Rightarrow> nat option" where
  "hex_digit c =
     (let n = (of_char c :: nat) in
      if 48 \<le> n \<and> n \<le> 57 then Some (n - 48)
      else if 65 \<le> n \<and> n \<le> 70 then Some (n - 55)
      else if 97 \<le> n \<and> n \<le> 102 then Some (n - 87)
      else None)"

fun sample_decodeURIComponent :: "string \<Rightarrow> string option" where
  "sample_decodeURIComponent [] = Some []"
| "sample_decodeURIComponent (c # cs) =
     (if c = CHR ''%'' then
        (case cs of
           a # b # r \<Rightarrow>
             (case (hex_digit a, hex_digit b) of
                (Some x, Some y) \<Rightarrow>
                  (if 16 * x + y < 128
                   then map_option ((#) (char_of (16 * x + y))) (sample_decodeURIComponent r)
                   else None)
              | _ \<Rightarrow> None)
         | _ \<Rightarrow> None)
      else map_option ((#) c) (sample_decodeURIComponent cs))"

fun find_scheme_end :: "string \<Rightarrow> string \<Rightarrow> (string \<times> string) option" where
  "find_scheme_end acc (a # b # c # r) =
     (if a = CHR '':'' \<and> b = CHR ''/'' \<and> c = CHR ''/'' then Some (rev acc, r)
      else find_scheme_end (a # acc) (b # c # r))"
| "find_scheme_end acc r = None"

definition sample_URL_parse :: "string \<Rightarrow> (string \<times> string) option" where
  "sample_URL_parse s =
     (case find_scheme_end [] s of
        None \<Rightarrow> None
      | Some (scheme, rest) \<Rightarrow>
          if scheme = [] \<or> takeWhile (\<lambda>c. c \<noteq> CHR ''/'') rest = [] then None
          else Some (scheme @ '':'', takeWhile (\<lambda>c. c \<noteq> CHR ''/'') rest))"

definition digit_val :: "char \<Rightarrow> int option" where
  "digit_val c =
     (let n = (of_char c :: nat) in if 48 \<le> n \<and> n \<le> 57 then Some (int n - 48) else None)"

text \<open>The number written by the decimal digits at the head of a string.\<close>

fun leading_digits :: "int option \<Rightarrow> string \<Rightarrow> int option" where
  "leading_digits acc [] = acc"
| "leading_digits acc (c # cs) =
     (case digit_val c of
        None \<Rightarrow> acc
      | Some d \<Rightarrow> leading_digits (Some ((case acc of None \<Rightarrow> 0 | Some a \<Rightarrow> a) * 10 + d)) cs)"

definition sample_parseInt_other :: "json \<Rightarrow> int option" where
  "sample_parseInt_other v = (case v of JStr s \<Rightarrow> leading_digits None s | _ \<Rightarrow> None)"

text \<open>A string of decimal digits converts to its number, any other string here to \<open>NaN\<close>.\<close>

definition sample_ToUint32_other :: "json \<Rightarrow> int" where
  "sample_ToUint32_other v =
     (case v of
        JStr s \<Rightarrow>
          if s \<noteq> [] \<and> list_all (\<lambda>c. digit_val c \<noteq> None) s
          then (case leading_digits None s of None \<Rightarrow> 0 | Some n \<Rightarrow> n)
          else 0
      | _ \<Rightarrow> 0)"

definition sample_instance :: "int \<Rightarrow> webhook_instance" where
  "sample_instance counter =
     \<lparr>instance_id = ''I1'', WebhookID = ''W1'', authKey = Some ''legacy-key'',
      tokenVersion = Some counter, password = None\<rparr>"

definition sample_webhook :: webhook where
  "sample_webhook = \<lparr>ClientID = ''C1'', passwordProtected = True, authenticationType = None\<rparr>"

definition sample_platform :: "int \<Rightarrow> platform" where
  "sample_platform counter =
     \<lparr>hmac_sha256 = sample_hmac,
      JSON_stringify = sample_JSON_stringify,
      JSON_parse = sample_JSON_parse,
      decodeURIComponent = sample_decodeURIComponent,
      URL_parse = sample_URL_parse,
      getClientSecret = (\<lambda>clientId. Inr ''s3cr3t''),
      resolveInstanceId = (\<lambda>greedy. case greedy of None \<Rightarrow> Inl Error | Some g \<Rightarrow> Inr g),
      loadInstance = (\<lambda>i. if i = ''I1'' then Inr (Some (sample_instance counter)) else Inl Error),
      loadWebhook = (\<lambda>w. if w = ''W1'' then Inr (Some sample_webhook) else Inl Error),
      verifyCognitoAuthAndAuthorization =
        (\<lambda>ev inst wh. Inr \<lparr>authenticated = False, authorized = False, tokens = None, user = None\<rparr>),
      encodeURIComponent = (\<lambda>s. s),
      ToUint32_other = sample_ToUint32_other,
      parseInt_other = sample_parseInt_other,
      less_other = (\<lambda>v n. False)\<rparr>"

definition sample_event :: "string option \<Rightarrow> string option \<Rightarrow> event" where
  "sample_event qs_token cookie_header =
     \<lparr>path = Some ''/instance/I1'',
      queryStringParameters =
        Some (case qs_token of None \<Rightarrow> [] | Some t \<Rightarrow> [(''token'', t)]),
      pathParameters = Some [(''instanceID'', ''I1'')],
      headers = Some (case cookie_header of None \<Rightarrow> [] | Some c \<Rightarrow> [(''cookie'', c)]),
      cookies = None,
      body = None\<rparr>"

definition sample_exchange_event :: "string option \<Rightarrow> event" where
  "sample_exchange_event b =
     \<lparr>path = Some ''/instance/I1/auth'',
      queryStringParameters = None,
      pathParameters = Some [(''instanceID'', ''I1'')],
      headers = None,
      cookies = None,
      body = b\<rparr>"

definition sample_empty_password_body :: string where
  \<open>sample_empty_password_body = ''{"password":""}''\<close>

text \<open>
  The key of the session cookie of \<open>I1\<close>, a session JWT as the handlers mint it (issued at
  \<open>1000\<close>, for \<open>600\<close> seconds) with a given \<open>tv\<close>, and the Cookie header that carries it.
\<close>

definition sample_cookie_key :: buffer where
  "sample_cookie_key = sample_hmac (utf8 ''s3cr3t'') (utf8 ''JWT_COOKIE|'' @ utf8 ''I1'')"

definition sample_session_jwt :: "json \<Rightarrow> string" where
  "sample_session_jwt tv =
     createJwtHs256 (sample_platform 0) 0 sample_cookie_key
       (Some [(''iid'', JStr ''I1''), (''tv'', tv)]) (Some 600) (Some ''tgl'') (Some ''wi:I1'')
       (Some 1000)"

definition sample_session_body :: "json \<Rightarrow> json" where
  "sample_session_body tv =
     JObj [(''iid'', JStr ''I1''), (''tv'', tv), (''iat'', JNum 1000), (''iss'', JStr ''tgl''),
           (''aud'', JStr ''wi:I1''), (''exp'', JNum 1600)]"

definition sample_cookie_header :: "json \<Rightarrow> string" where
  "sample_cookie_header tv = cookieNameFor ''I1'' @ ''='' @ sample_session_jwt tv"

text \<open>
  The legacy key of \<open>I1\<close>, and a query token minted under it for a given counter, issued at
  \<open>1000\<close> and without expiry.
\<close>

definition sample_legacy_key :: buffer where
  "sample_legacy_key = sample_hmac (utf8 ''s3cr3t'') (utf8 ''legacy-key'')"

definition sample_query_token :: "int \<Rightarrow> string" where
  "sample_query_token counter =
     makeCompactToken (sample_platform counter) (replicate 8 0) sample_legacy_key ''I1'' counter
       1000 0"
section \<open>Lemmas: base64url and big-endian words\<close>

lemma unat_byte_less: "unat (b :: byte) < 256"
  using unsigned_less [of b] by simp

lemma byte_of_unat: "of_nat (unat (b :: byte)) = b"
  by simp

lemma div_pack: "r < k \<Longrightarrow> (q * k + r) div k = (q::nat)"
  by simp

lemma mod_pack: "r < k \<Longrightarrow> (q * k + r) mod k = (r::nat)"
  by simp

lemma sextet_join1:
  "b < 256 \<Longrightarrow> a div 4 * 4 + (a mod 4 * 16 + b div 16) div 16 = (a::nat)"
  by (simp add: div_pack)

lemma sextet_join2:
  "b < 256 \<Longrightarrow> c < 256 \<Longrightarrow>
   (a mod 4 * 16 + b div 16) mod 16 * 16 + (b mod 16 * 4 + c div 64) div 4 = (b::nat)"
  by (simp add: div_pack mod_pack)

lemma sextet_join3:
  "c < 256 \<Longrightarrow> (b mod 16 * 4 + c div 64) mod 4 * 64 + c mod 64 = (c::nat)"
  by (simp add: mod_pack)

lemma sextet_bound2: "b < 256 \<Longrightarrow> a mod 4 * 16 + b div 16 < (64::nat)"
proof -
  assume "b < 256"
  then have "b div 16 < 16" by simp
  moreover have "a mod 4 < 4" by simp
  ultimately show ?thesis by linarith
qed

lemma sextet_bound3: "c < 256 \<Longrightarrow> b mod 16 * 4 + c div 64 < (64::nat)"
proof -
  assume "c < 256"
  then have "c div 64 < 4" by simp
  moreover have "b mod 16 < 16" by simp
  ultimately show ?thesis by linarith
qed

lemma unbase64_b64char: "n < 64 \<Longrightarrow> unbase64 (b64char n) = Some n"
  by (auto simp: unbase64_def b64char_def Let_def)

lemma enc_sextets_bound: "n \<in> set (enc_sextets buf) \<Longrightarrow> n < 64"
proof (induction buf arbitrary: n rule: enc_sextets.induct)
  case (1 a b c r)
  have s2: "unat a mod 4 * 16 + unat b div 16 < 64"
    by (rule sextet_bound2 [OF unat_byte_less])
  have s3: "unat b mod 16 * 4 + unat c div 64 < 64"
    by (rule sextet_bound3 [OF unat_byte_less])
  have s1: "unat a div 4 < 64" using unat_byte_less [of a] by simp
  from 1 s1 s2 s3 show ?case by auto
next
  case (2 a b)
  have s2: "unat a mod 4 * 16 + unat b div 16 < 64"
    by (rule sextet_bound2 [OF unat_byte_less])
  have s3: "unat b mod 16 * 4 + 0 div 64 < 64"
    by (rule sextet_bound3) simp
  have s1: "unat a div 4 < 64" using unat_byte_less [of a] by simp
  from 2 s1 s2 s3 show ?case by auto
next
  case (3 a)
  have s2: "unat a mod 4 * 16 + 0 div 16 < 64"
    by (rule sextet_bound2) simp
  have s1: "unat a div 4 < 64" using unat_byte_less [of a] by simp
  from 3 s1 s2 show ?case by auto
qed simp


lemma decode_enc_sextets: "decode_sextets (enc_sextets buf) = buf"
proof (induction buf rule: enc_sextets.induct)
  case (1 a b c r)
  note bd = unat_byte_less [of a] unat_byte_less [of b] unat_byte_less [of c]
  note e = sextet_join1 [OF bd(2)] sextet_join2 [OF bd(2) bd(3)] sextet_join3 [OF bd(3)]
  show ?case
    by (simp only: enc_sextets.simps decode_sextets.simps append_Cons append_Nil e 1
        byte_of_unat)
next
  case (2 a b)
  note bd = unat_byte_less [of a] unat_byte_less [of b]
  have e2: "(unat a mod 4 * 16 + unat b div 16) mod 16 * 16 + (unat b mod 16 * 4) div 4 = unat b"
    using sextet_join2 [OF bd(2), of 0 "unat a"] by simp
  show ?case
    by (simp only: enc_sextets.simps decode_sextets.simps sextet_join1 [OF bd(2)] e2
        byte_of_unat)
next
  case (3 a)
  have e1: "unat a div 4 * 4 + (unat a mod 4 * 16) div 16 = unat a"
    using sextet_join1 [of 0 "unat a"] by simp
  show ?case
    by (simp only: enc_sextets.simps decode_sextets.simps e1 byte_of_unat)
qed simp



lemma toString_base64_sextets:
  "\<exists>k. toString_base64 buf = map b64char (enc_sextets buf) @ replicate k CHR ''=''"
proof (induction buf rule: enc_sextets.induct)
  case (1 a b c r)
  then obtain k where "toString_base64 r = map b64char (enc_sextets r) @ replicate k CHR ''=''"
    by blast
  then show ?case by simp
next
  case (2 a b)
  have "toString_base64 [a, b] = map b64char (enc_sextets [a, b]) @ replicate (Suc 0) CHR ''=''"
    by simp
  then show ?case by blast
next
  case (3 a)
  have "toString_base64 [a] = map b64char (enc_sextets [a]) @ replicate (Suc (Suc 0)) CHR ''=''"
    by simp
  then show ?case by blast
next
  case 4
  have "toString_base64 [] = map b64char (enc_sextets []) @ replicate 0 CHR ''=''"
    by simp
  then show ?case by blast
qed


lemma b64char_low_code: "n < 62 \<Longrightarrow> alnum_code (of_char (b64char n))"
  by (auto simp: b64char_def alnum_code_def)

lemma b64char_low_neq:
  assumes "n < 62" and "\<not> alnum_code (of_char c)"
  shows "b64char n \<noteq> c"
  using b64char_low_code [OF assms(1)] assms(2) by auto

lemma b64urlchar_low: "n < 62 \<Longrightarrow> b64urlchar n = b64char n"
  by (simp add: b64urlchar_def b64char_def)

lemma b64char_high: "62 \<le> n \<Longrightarrow> b64char n = (if n = 62 then CHR ''+'' else CHR ''/'')"
  by (simp add: b64char_def)

lemma b64urlchar_high: "62 \<le> n \<Longrightarrow> b64urlchar n = (if n = 62 then CHR ''-'' else CHR ''_'')"
  by (simp add: b64urlchar_def)

lemma b64urlchar_of_b64char:
  "subst_char CHR ''/'' CHR ''_'' (subst_char CHR ''+'' CHR ''-'' (b64char n)) = b64urlchar n"
proof (cases "n < 62")
  case True
  have "b64char n \<noteq> CHR ''+''" "b64char n \<noteq> CHR ''/''"
    by (rule b64char_low_neq [OF True], simp add: alnum_code_def)+
  then show ?thesis by (simp add: b64urlchar_low [OF True] subst_char_def)
next
  case False
  then have "62 \<le> n" by simp
  then show ?thesis by (simp add: b64char_high b64urlchar_high subst_char_def)
qed

lemma b64char_of_b64urlchar:
  "subst_char CHR ''_'' CHR ''/'' (subst_char CHR ''-'' CHR ''+'' (b64urlchar n)) = b64char n"
proof (cases "n < 62")
  case True
  have "b64char n \<noteq> CHR ''-''" "b64char n \<noteq> CHR ''_''"
    by (rule b64char_low_neq [OF True], simp add: alnum_code_def)+
  then show ?thesis by (simp add: b64urlchar_low [OF True] subst_char_def)
next
  case False
  then have "62 \<le> n" by simp
  then show ?thesis by (simp add: b64char_high b64urlchar_high subst_char_def)
qed

lemma b64urlchar_not_special: "b64urlchar n \<noteq> CHR ''='' \<and> b64urlchar n \<noteq> CHR ''.''"
proof (cases "n < 62")
  case True
  have "b64char n \<noteq> CHR ''=''" "b64char n \<noteq> CHR ''.''"
    by (rule b64char_low_neq [OF True], simp add: alnum_code_def)+
  then show ?thesis by (simp add: b64urlchar_low [OF True])
next
  case False
  then have "62 \<le> n" by simp
  then show ?thesis by (simp add: b64urlchar_high)
qed

lemma b64char_not_pad: "b64char n \<noteq> CHR ''=''"
proof (cases "n < 62")
  case True
  show ?thesis by (rule b64char_low_neq [OF True], simp add: alnum_code_def)
next
  case False
  then have "62 \<le> n" by simp
  then show ?thesis by (simp add: b64char_high)
qed


lemma dropWhile_replicate_append:
  "dropWhile (\<lambda>c. c = e) (replicate k e @ ys) = dropWhile (\<lambda>c. c = e) ys"
  by (induction k) simp_all

lemma b64url_sextets: "b64url buf = map b64urlchar (enc_sextets buf)"
proof -
  obtain k where k: "toString_base64 buf = map b64char (enc_sextets buf) @ replicate k CHR ''=''"
    using toString_base64_sextets by blast
  have r: "replace_char CHR ''/'' CHR ''_'' (replace_char CHR ''+'' CHR ''-'' (toString_base64 buf))
      = map b64urlchar (enc_sextets buf) @ replicate k CHR ''=''"
    by (simp add: k replace_char_def b64urlchar_of_b64char subst_char_def [of _ _ "CHR ''=''"])
  have d: "dropWhile (\<lambda>c. c = CHR ''='') (rev (map b64urlchar (enc_sextets buf)))
      = rev (map b64urlchar (enc_sextets buf))"
    by (cases "rev (enc_sextets buf)") (simp_all add: rev_map b64urlchar_not_special)
  show ?thesis
    unfolding b64url_def r strip_trailing_eq_def
    by (simp add: dropWhile_replicate_append d)
qed

lemma map_filter_unbase64:
  "(\<And>n. n \<in> set ss \<Longrightarrow> n < 64) \<Longrightarrow> List.map_filter unbase64 (map b64char ss) = ss"
  by (induction ss) (simp_all add: unbase64_b64char)

lemma takeWhile_not_pad:
  "takeWhile (\<lambda>c. c \<noteq> CHR ''='') (map b64char ss @ replicate k CHR ''='') = map b64char ss"
  by (induction ss) (simp_all add: b64char_not_pad)

lemma fromB64url_sextets:
  assumes "\<And>n. n \<in> set ss \<Longrightarrow> n < 64"
  shows "fromB64url (map b64urlchar ss) = decode_sextets ss"
proof -
  have r: "replace_char CHR ''_'' CHR ''/'' (replace_char CHR ''-'' CHR ''+'' (map b64urlchar ss))
      = map b64char ss"
    by (simp add: replace_char_def b64char_of_b64urlchar)
  show ?thesis
    unfolding fromB64url_def r Let_def from_base64_def takeWhile_not_pad
    by (simp add: map_filter_unbase64 assms)
qed

lemma fromB64url_b64url: "fromB64url (b64url buf) = buf"
  by (simp add: b64url_sextets fromB64url_sextets enc_sextets_bound decode_enc_sextets)

lemma b64url_no_dot: "CHR ''.'' \<notin> set (b64url buf)"
proof
  assume "CHR ''.'' \<in> set (b64url buf)"
  then obtain n where "b64urlchar n = CHR ''.''"
    by (auto simp: b64url_sextets)
  with b64urlchar_not_special [of n] show False by simp
qed

lemma uint_byte_of_int: "uint (of_int k :: byte) = k mod 256"
  by (simp add: uint_word_of_int)


lemma be_recombine:
  assumes "0 \<le> m" "m < 4294967296"
  shows "m div 16777216 mod 256 * 16777216 + m div 65536 mod 256 * 65536
          + m div 256 mod 256 * 256 + m mod 256 = (m::int)"
proof -
  have a: "m div 16777216 mod 256 = m div 16777216" using assms by simp
  have b: "m div 65536 mod 256 * 65536 = m mod 16777216 - m mod 65536"
    using zmod_zmult2_eq [of 256 m 65536] by simp
  have c: "m div 256 mod 256 * 256 = m mod 65536 - m mod 256"
    using zmod_zmult2_eq [of 256 m 256] by simp
  have d: "m div 16777216 * 16777216 + m mod 16777216 = m" by simp
  show ?thesis unfolding a b c using d by linarith
qed

lemma length_u32: "length (u32 n) = 4" by (simp add: u32_def Let_def)

lemma readUInt32BE_u32:
  "readUInt32BE (pre @ u32 n @ post) (length pre) = Inr (to_uint32 n)"
proof -
  have m: "0 \<le> to_uint32 n" "to_uint32 n < 4294967296" by (simp_all add: to_uint32_def)
  show ?thesis
    by (simp add: readUInt32BE_def u32_def Let_def nth_append uint_byte_of_int
        be_recombine [OF m])
qed
section \<open>Lemmas: compact token\<close>

lemma uint_byte_eq_1: "uint (b :: byte) = 1 \<longleftrightarrow> b = 1"
  by (metis uint_1 word_uint_eq_iff)

lemma verifyCompactToken_wire:
  assumes "length (fromB64url token) = 34"
  shows "verifyCompactToken E token signingKey instanceId tv nowSec =
     Inr (compact_verdict (fromB64url token)
            (expected_tag E (fromB64url token) signingKey instanceId tv) nowSec)"
  using assms
  by (simp add: verifyCompactToken_def try_catch_def js_bind_def readUInt8_def readUInt32BE_def
      Let_def compact_verdict_def expected_tag_def be32_def uint_byte_eq_1)

lemma verifyCompactToken_len:
  assumes "length (fromB64url token) \<noteq> 34"
  shows "verifyCompactToken E token signingKey instanceId tv nowSec = Inr (CompactFail ''len'')"
  using assms by (simp add: verifyCompactToken_def try_catch_def Let_def)

lemma be32_u32: "length pre = k \<Longrightarrow> be32 (pre @ u32 n @ post) k = to_uint32 n"
  using readUInt32BE_u32 [of pre n post]
  by (auto simp: readUInt32BE_def be32_def length_u32 split: if_splits)

lemma compact_wire_fields:
  assumes "length nonce = 8" "length sig = 16"
  shows "length (compact_wire f i d nonce sig) = 34"
    and "compact_wire f i d nonce sig ! 0 = 1"
    and "compact_wire f i d nonce sig ! 1 = f"
    and "be32 (compact_wire f i d nonce sig) 2 = to_uint32 i"
    and "be32 (compact_wire f i d nonce sig) 6 = to_uint32 d"
    and "subarray (compact_wire f i d nonce sig) 2 10 = u32 i @ u32 d"
    and "subarray (compact_wire f i d nonce sig) 10 18 = nonce"
    and "subarray (compact_wire f i d nonce sig) 18 34 = sig"
proof -
  show "length (compact_wire f i d nonce sig) = 34"
    using assms by (simp add: compact_wire_def length_u32)
  show "compact_wire f i d nonce sig ! 0 = 1" by (simp add: compact_wire_def)
  show "compact_wire f i d nonce sig ! 1 = f" by (simp add: compact_wire_def)
  show "be32 (compact_wire f i d nonce sig) 2 = to_uint32 i"
    using be32_u32 [of "[1, f]" 2 i "u32 d @ nonce @ sig"] by (simp add: compact_wire_def)
  show "be32 (compact_wire f i d nonce sig) 6 = to_uint32 d"
    using be32_u32 [of "[1, f] @ u32 i" 6 d "nonce @ sig"] by (simp add: compact_wire_def length_u32)
  show "subarray (compact_wire f i d nonce sig) 2 10 = u32 i @ u32 d"
    by (simp add: compact_wire_def subarray_def length_u32)
  show "subarray (compact_wire f i d nonce sig) 10 18 = nonce"
    using assms by (simp add: compact_wire_def subarray_def length_u32)
  show "subarray (compact_wire f i d nonce sig) 18 34 = sig"
    using assms by (simp add: compact_wire_def subarray_def length_u32)
qed

lemma makeCompactToken_wire:
  "makeCompactToken E nonce key iid tv iat ttl =
     b64url (compact_wire (if ttl > 0 then 1 else 0) iat (if ttl > 0 then ttl else 0) nonce
       (subarray (hmac_sha256 E key
          ([1, if ttl > 0 then 1 else 0] @ u32 iat @ u32 (if ttl > 0 then ttl else 0) @ nonce
             @ utf8 iid @ u32 (to_uint32 tv))) 0 16))"
  by (simp add: makeCompactToken_def Let_def compact_wire_def)

lemma verify_make_compact:
  assumes "length nonce = 8" and "sha256_sized E"
  shows "verifyCompactToken E (makeCompactToken E nonce key iid tv iat ttl) key iid tv now =
     Inr (if ttl > 0
          then (if to_uint32 ttl = 3600 then CompactOk None (Some (to_uint32 iat + 3600))
                else if now > to_uint32 iat + to_uint32 ttl then CompactFail ''exp''
                else CompactOk (Some (to_uint32 iat)) (Some (to_uint32 iat + to_uint32 ttl)))
          else CompactOk (Some (to_uint32 iat)) None)"
proof -
  let ?f = "if ttl > 0 then 1 else 0 :: byte"
  let ?d = "if ttl > 0 then ttl else 0"
  let ?sig = "subarray (hmac_sha256 E key
          ([1, ?f] @ u32 iat @ u32 ?d @ nonce @ utf8 iid @ u32 (to_uint32 tv))) 0 16"
  let ?w = "compact_wire ?f iat ?d nonce ?sig"
  have ls: "length ?sig = 16"
    using assms(2) by (simp add: subarray_def sha256_sized_def)
  note fl = compact_wire_fields [OF assms(1) ls]
  have dec: "fromB64url (makeCompactToken E nonce key iid tv iat ttl) = ?w"
    by (simp only: makeCompactToken_wire fromB64url_b64url)
  have tag: "expected_tag E ?w key iid tv = ?sig"
    unfolding expected_tag_def fl by simp
  have "verifyCompactToken E (makeCompactToken E nonce key iid tv iat ttl) key iid tv now
      = Inr (compact_verdict ?w (expected_tag E ?w key iid tv) now)"
    using verifyCompactToken_wire [of "makeCompactToken E nonce key iid tv iat ttl" E key iid tv now]
    unfolding dec using fl(1) by simp
  also have "compact_verdict ?w (expected_tag E ?w key iid tv) now =
      (if ttl > 0
          then (if to_uint32 ttl = 3600 then CompactOk None (Some (to_uint32 iat + 3600))
                else if now > to_uint32 iat + to_uint32 ttl then CompactFail ''exp''
                else CompactOk (Some (to_uint32 iat)) (Some (to_uint32 iat + to_uint32 ttl)))
          else CompactOk (Some (to_uint32 iat)) None)"
    unfolding tag compact_verdict_def fl by (simp add: Buffer_equals_def)
  finally show ?thesis .
qed

section \<open>Lemmas: HS256 JWT\<close>

lemma split_on_nonempty: "split_on d s \<noteq> []"
  by (induction s) (auto split: list.splits)

lemma split_on_no_sep: "d \<notin> set a \<Longrightarrow> split_on d a = [a]"
  by (induction a) auto

lemma split_on_append: "d \<notin> set a \<Longrightarrow> split_on d (a @ d # r) = a # split_on d r"
  by (induction a) (auto split: list.splits simp: split_on_nonempty)

lemma split_on_three:
  assumes "d \<notin> set a" "d \<notin> set b" "d \<notin> set c"
  shows "split_on d (a @ [d] @ b @ [d] @ c) = [a, b, c]"
  using assms by (simp add: split_on_append split_on_no_sep)

lemma toString_utf8_utf8: "toString_utf8 (utf8 s) = s"
  by (induction s) (simp_all add: toString_utf8_def utf8_def byte_of_char_def char_of_byte_def unat_of_nat)

lemma b64uDecodeJson_encode:
  "json_roundtrip E v \<Longrightarrow> b64uDecodeJson E (b64uEncodeJson E v) = Inr v"
  by (simp add: b64uDecodeJson_def b64uEncodeJson_def fromB64url_b64url toString_utf8_utf8
      json_roundtrip_def)

lemma map_of_set_prop: "map_of (set_prop ps k v) k' = (if k' = k then Some v else map_of ps k')"
  by (induction ps) auto

lemma verify_create_jwt:
  assumes "json_roundtrip E jwt_header"
      and "json_roundtrip E (JObj (jwt_body (case payload of None \<Rightarrow> [] | Some p \<Rightarrow> p)
              (case ttlSec of None \<Rightarrow> 0 | Some t \<Rightarrow> t)
              (case iss of None \<Rightarrow> ''tgl'' | Some i \<Rightarrow> i) aud
              (case iat of None \<Rightarrow> clock | Some t \<Rightarrow> t)))"
  shows "verifyJwtHs256 E clock' (createJwtHs256 E clock key payload ttlSec iss aud iat) key
           iss' aud' now skew =
         try_catch
           (verify_claims
              (JObj (jwt_body (case payload of None \<Rightarrow> [] | Some p \<Rightarrow> p)
                 (case ttlSec of None \<Rightarrow> 0 | Some t \<Rightarrow> t)
                 (case iss of None \<Rightarrow> ''tgl'' | Some i \<Rightarrow> i) aud
                 (case iat of None \<Rightarrow> clock | Some t \<Rightarrow> t)))
              (case iss' of None \<Rightarrow> ''tgl'' | Some i \<Rightarrow> i) aud'
              (case now of None \<Rightarrow> clock' | Some t \<Rightarrow> t)
              (case skew of None \<Rightarrow> 0 | Some t \<Rightarrow> t))
           (\<lambda>err. Inr (JwtFail ''parse''))"
proof -
  let ?body = "JObj (jwt_body (case payload of None \<Rightarrow> [] | Some p \<Rightarrow> p)
              (case ttlSec of None \<Rightarrow> 0 | Some t \<Rightarrow> t)
              (case iss of None \<Rightarrow> ''tgl'' | Some i \<Rightarrow> i) aud
              (case iat of None \<Rightarrow> clock | Some t \<Rightarrow> t))"
  let ?h = "b64uEncodeJson E jwt_header"
  let ?p = "b64uEncodeJson E ?body"
  let ?s = "b64url (hmac_sha256 E key (utf8 (?h @ ''.'' @ ?p)))"
  have tok: "createJwtHs256 E clock key payload ttlSec iss aud iat = ?h @ ''.'' @ ?p @ ''.'' @ ?s"
    by (simp add: createJwtHs256_def Let_def)
  have nd: "CHR ''.'' \<notin> set ?h" "CHR ''.'' \<notin> set ?p" "CHR ''.'' \<notin> set ?s"
    by (simp_all add: b64uEncodeJson_def b64url_no_dot)
  have sp: "split_on CHR ''.'' (?h @ ''.'' @ ?p @ ''.'' @ ?s) = [?h, ?p, ?s]"
    using split_on_three [OF nd] by simp
  have hd: "b64uDecodeJson E ?h = Inr jwt_header"
    by (rule b64uDecodeJson_encode [OF assms(1)])
  have pd: "b64uDecodeJson E ?p = Inr ?body"
    by (rule b64uDecodeJson_encode [OF assms(2)])
  have hp: "opt_prop jwt_header ''alg'' = Some (JStr ''HS256'')"
           "opt_prop jwt_header ''typ'' = Some (JStr ''JWT'')"
    by (simp_all add: jwt_header_def opt_prop_def)
  show ?thesis
    unfolding tok verifyJwtHs256_def Let_def sp
    by (simp add: hd pd hp js_bind_def fromB64url_b64url timingSafeEqual_def)
qed

lemma try_catch_total: "\<exists>r. try_catch m (\<lambda>e. Inr (f e)) = Inr r"
  by (cases m) (simp_all add: try_catch_def)

lemma verifyCompactToken_returns: "\<exists>r. verifyCompactToken E token key iid tv now = Inr r"
  unfolding verifyCompactToken_def by (rule try_catch_total)

lemma verifyJwtHs256_returns: "\<exists>r. verifyJwtHs256 E clock token key iss aud now skew = Inr r"
  unfolding verifyJwtHs256_def Let_def by (rule try_catch_total)

lemma json_roundtrip_sample:
  "v \<in> snd ` set sample_json_table \<Longrightarrow> json_roundtrip (sample_platform c) v"
  by (auto simp: json_roundtrip_def sample_platform_def sample_JSON_parse_def
      sample_JSON_stringify_def sample_json_table_def jwt_header_def)

lemma verify_claims_obj:
  "verify_claims (JObj ps) iss aud now skew =
     Inr (if iss \<noteq> [] \<and> map_of ps ''iss'' \<noteq> Some (JStr iss) then JwtFail ''iss''
          else if (case aud of None \<Rightarrow> False | Some a \<Rightarrow> a \<noteq> [] \<and> \<not> audOk (map_of ps ''aud'') a)
          then JwtFail ''aud''
          else if (case map_of ps ''nbf'' of Some (JNum n) \<Rightarrow> now + skew < n | _ \<Rightarrow> False)
          then JwtFail ''nbf''
          else if (case map_of ps ''exp'' of Some (JNum n) \<Rightarrow> now - skew \<ge> n | _ \<Rightarrow> False)
          then JwtFail ''exp''
          else JwtOk (JObj ps))"
  by (simp add: verify_claims_def get_prop_def js_bind_def split: option.splits)


lemma map_of_jwt_body:
  "map_of (jwt_body claims ttl iss aud iat) k =
     (if k = ''exp'' \<and> ttl > 0 then Some (JNum (iat + ttl))
      else if k = ''aud'' \<and> truthy_str aud then map_option JStr aud
      else if k = ''iss'' then Some (JStr iss)
      else if k = ''iat'' then Some (JNum iat)
      else map_of claims k)"
  by (cases aud) (simp_all add: jwt_body_def Let_def map_of_set_prop truthy_str_def)

lemma verify_create_jwt_same:
  assumes "json_roundtrip E jwt_header"
      and "json_roundtrip E (JObj (jwt_body claims ttl iss aud iat))"
  shows "verifyJwtHs256 E clock'
           (createJwtHs256 E clock key (Some claims) (Some ttl) (Some iss) aud (Some iat)) key
           (Some iss) aud (Some now) (Some skew) =
         verify_claims (JObj (jwt_body claims ttl iss aud iat)) iss aud now skew"
  using verify_create_jwt [where E = E and payload = "Some claims" and ttlSec = "Some ttl"
      and iss = "Some iss" and aud = aud and iat = "Some iat" and clock = clock and clock' = clock'
      and key = key and iss' = "Some iss" and aud' = aud and now = "Some now"
      and skew = "Some skew"] assms
  by (simp add: verify_claims_obj try_catch_def)

lemma verify_claims_jwt_body:
  "verify_claims (JObj (jwt_body claims ttl iss aud iat)) iss aud now skew =
     Inr (if (case map_of claims ''nbf'' of Some (JNum n) \<Rightarrow> now + skew < n | _ \<Rightarrow> False)
          then JwtFail ''nbf''
          else if (if ttl > 0 then now - skew \<ge> iat + ttl
                   else (case map_of claims ''exp'' of Some (JNum n) \<Rightarrow> now - skew \<ge> n | _ \<Rightarrow> False))
          then JwtFail ''exp''
          else JwtOk (JObj (jwt_body claims ttl iss aud iat)))"
  by (cases aud) (simp_all add: verify_claims_obj map_of_jwt_body truthy_str_def audOk_def)

lemma json_roundtrip_sample_header: "json_roundtrip (sample_platform c) jwt_header"
  by (rule json_roundtrip_sample) (simp add: sample_json_table_def)

lemma json_roundtrip_sample_body:
  "JObj (jwt_body claims ttl iss aud iat) \<in> snd ` set sample_json_table
     \<Longrightarrow> json_roundtrip (sample_platform c) (JObj (jwt_body claims ttl iss aud iat))"
  by (rule json_roundtrip_sample)

lemma list3_cases:
  "(case xs of [h, p, s] \<Rightarrow> f h p s | _ \<Rightarrow> g) =
     (if length xs = 3 then f (xs ! 0) (xs ! 1) (xs ! 2) else g)"
  by (auto split: list.splits)

lemma verifyJwtHs256_bad_header:
  assumes "b64uDecodeJson E (hd (split_on CHR ''.'' token)) = Inr header"
      and "opt_prop header ''alg'' \<noteq> Some (JStr ''HS256'') \<or> opt_prop header ''typ'' \<noteq> Some (JStr ''JWT'')"
  shows "verifyJwtHs256 E clock token key iss aud now skew =
           Inr (JwtFail (if length (split_on CHR ''.'' token) = 3 then ''header'' else ''format''))"
proof (cases "length (split_on CHR ''.'' token) = 3")
  case True
  then have h: "split_on CHR ''.'' token ! 0 = hd (split_on CHR ''.'' token)"
    by (cases "split_on CHR ''.'' token") simp_all
  show ?thesis
    using assms True
    by (auto simp: verifyJwtHs256_def Let_def list3_cases h js_bind_def try_catch_def)
next
  case False
  then show ?thesis
    by (simp add: verifyJwtHs256_def Let_def list3_cases try_catch_def)
qed

lemma verifyJwtHs256_header_parse:
  assumes "split_on CHR ''.'' token = [h, p, s]"
      and "JSON_parse E (toString_utf8 (fromB64url h)) = None"
  shows "verifyJwtHs256 E clock token key iss aud now skew = Inr (JwtFail ''parse'')"
  using assms
  by (simp add: verifyJwtHs256_def Let_def b64uDecodeJson_def js_bind_def try_catch_def)

lemma verify_claims_exp_only_number:
  assumes "verify_claims payload iss aud now skew = Inr (JwtFail ''exp'')"
  shows "\<exists>n. get_prop payload ''exp'' = Inr (Some (JNum n)) \<and> now - skew \<ge> n"
  using assms
  by (auto simp: verify_claims_def js_bind_def get_prop_def
      split: if_splits sum.splits option.splits json.splits)


lemma list3_obtain: "length xs = 3 \<Longrightarrow> \<exists>h p s. xs = [h, p, s]"
  by (cases xs; cases "tl xs"; cases "tl (tl xs)") auto

lemma verifyJwtHs256_exp_only_number:
  assumes "verifyJwtHs256 E clock token key iss aud now skew = Inr (JwtFail ''exp'')"
  shows "\<exists>h p s payload n.
           split_on CHR ''.'' token = [h, p, s] \<and> b64uDecodeJson E p = Inr payload
           \<and> get_prop payload ''exp'' = Inr (Some (JNum n))
           \<and> (case now of None \<Rightarrow> clock | Some t \<Rightarrow> t) - (case skew of None \<Rightarrow> 0 | Some t \<Rightarrow> t) \<ge> n"
proof -
  let ?iss = "case iss of None \<Rightarrow> ''tgl'' | Some i \<Rightarrow> i"
  let ?now = "case now of None \<Rightarrow> clock | Some t \<Rightarrow> t"
  let ?skew = "case skew of None \<Rightarrow> 0 | Some t \<Rightarrow> t"
  have "length (split_on CHR ''.'' token) = 3"
    using assms by (auto simp: verifyJwtHs256_def Let_def list3_cases try_catch_def split: if_splits)
  then obtain h p s where sp: "split_on CHR ''.'' token = [h, p, s]"
    using list3_obtain by blast
  from assms obtain payload where pd: "b64uDecodeJson E p = Inr payload"
    and vc: "verify_claims payload ?iss aud ?now ?skew = Inr (JwtFail ''exp'')"
    by (auto simp: verifyJwtHs256_def Let_def sp js_bind_def try_catch_def
        split: if_splits sum.splits)
  from verify_claims_exp_only_number [OF vc] sp pd show ?thesis by blast
qed

lemma sample_none_header:
  "b64uDecodeJson (sample_platform c)
     (b64uEncodeJson (sample_platform c) (JObj [(''alg'', JStr ''none''), (''typ'', JStr ''JWT'')]))
   = Inr (JObj [(''alg'', JStr ''none''), (''typ'', JStr ''JWT'')])"
  by (rule b64uDecodeJson_encode, rule json_roundtrip_sample) (simp add: sample_json_table_def)

lemma split_on_two:
  assumes "d \<notin> set a" "d \<notin> set b"
  shows "split_on d (a @ [d] @ b) = [a, b]"
  using assms by (simp add: split_on_append split_on_no_sep)

lemma b64uEncodeJson_no_dot: "CHR ''.'' \<notin> set (b64uEncodeJson E v)"
  by (simp add: b64uEncodeJson_def b64url_no_dot)

lemma fromB64url_AQ: "fromB64url ''AQ'' = [1]"
  by code_simp

lemma verify_claims_null:
  "try_catch (verify_claims JNull iss aud now skew) (\<lambda>e. Inr (JwtFail ''parse''))
    = Inr (JwtFail ''parse'')"
  by (cases aud) (simp_all add: verify_claims_def get_prop_def js_bind_def try_catch_def)

lemma verifyJwtHs256_payload_parse:
  assumes "split_on CHR ''.'' token = [h, p, s]"
      and "b64uDecodeJson E h = Inr header"
      and "opt_prop header ''alg'' = Some (JStr ''HS256'')"
      and "opt_prop header ''typ'' = Some (JStr ''JWT'')"
      and "fromB64url s = hmac_sha256 E key (utf8 (h @ ''.'' @ p))"
      and "JSON_parse E (toString_utf8 (fromB64url p)) = None
           \<or> JSON_parse E (toString_utf8 (fromB64url p)) = Some JNull"
  shows "verifyJwtHs256 E clock token key iss aud now skew = Inr (JwtFail ''parse'')"
proof -
  from assms(6) show ?thesis
  proof
    assume "JSON_parse E (toString_utf8 (fromB64url p)) = None"
    then show ?thesis
      using assms(1-5)
      by (simp add: verifyJwtHs256_def Let_def b64uDecodeJson_def js_bind_def try_catch_def
          timingSafeEqual_def)
  next
    assume n: "JSON_parse E (toString_utf8 (fromB64url p)) = Some JNull"
    have pd: "b64uDecodeJson E p = Inr JNull"
      by (simp add: b64uDecodeJson_def n)
    show ?thesis
      using assms(1-5) pd verify_claims_null
      by (simp add: verifyJwtHs256_def Let_def js_bind_def timingSafeEqual_def)
  qed
qed
section \<open>Lemmas: CSRF headers and the POST handler\<close>

lemma normalize_headers_lookup:
  "normalize_headers hs m k = Some v \<Longrightarrow>
     m k = Some v \<or> (\<exists>k'. (k', v) \<in> set hs \<and> toLowerCase k' = k)"
proof (induction hs arbitrary: m)
  case Nil
  then show ?case by simp
next
  case (Cons e hs)
  obtain a b where e: "e = (a, b)" by (cases e)
  from Cons.prems have "normalize_headers hs (m(toLowerCase a \<mapsto> b)) k = Some v"
    by (simp add: e)
  from Cons.IH [OF this]
  show ?case by (auto simp: e split: if_splits)
qed

lemma validateCSRFHeaders_origin:
  "validateCSRFHeaders E hs allowed xrw =
     (if allowed = [] then
        (if xrw \<and> normalize_headers (case hs of None \<Rightarrow> [] | Some h \<Rightarrow> h) Map.empty
                     ''x-requested-with'' \<noteq> Some ''XMLHttpRequest''
         then CsrfFail ''Missing or invalid X-Requested-With header'' else CsrfOk)
      else if \<not> truthy_str (csrf_origin hs) then CsrfFail ''Missing Origin/Referer header''
      else (case URL_parse E (case csrf_origin hs of None \<Rightarrow> [] | Some ori \<Rightarrow> ori) of
              None \<Rightarrow> CsrfFail ''Invalid Origin header''
            | Some (protocol, host) \<Rightarrow>
                if \<not> list_ex (\<lambda>a. startsWith (protocol @ ''//'' @ host) a) allowed
                then CsrfFail ''Origin not allowed''
                else if xrw \<and> normalize_headers (case hs of None \<Rightarrow> [] | Some h \<Rightarrow> h) Map.empty
                                ''x-requested-with'' \<noteq> Some ''XMLHttpRequest''
                then CsrfFail ''Missing or invalid X-Requested-With header'' else CsrfOk))"
  by (auto simp: validateCSRFHeaders_def csrf_origin_def Let_def truthy_str_def
      split: option.splits prod.splits)

lemma csrf_origin_absent:
  assumes "\<forall>(k, v) \<in> set hs. toLowerCase k \<in> {''origin'', ''referer''} \<longrightarrow> v = []"
  shows "\<not> truthy_str (csrf_origin (Some hs))"
proof -
  have "normalize_headers hs Map.empty k = Some v \<Longrightarrow> k \<in> {''origin'', ''referer''} \<Longrightarrow> v = []"
    for k v
    using normalize_headers_lookup [of hs Map.empty k v] assms by auto
  then show ?thesis
    by (auto simp: csrf_origin_def Let_def or_str_def truthy_str_def split: option.splits)
qed

lemma toLowerCase_Origin: "toLowerCase ''Origin'' = ''origin''"
  by code_simp


lemma sample_URL_parse_examples:
  "sample_URL_parse ''https://app.example.com/path'' = Some (''https:'', ''app.example.com'')"
  "sample_URL_parse ''https://evil.example.com'' = Some (''https:'', ''evil.example.com'')"
  by code_simp+

lemma csrf_origin_single:
  "csrf_origin (Some [(''Origin'', v)]) = (if v = [] then None else Some v)"
  by (simp add: csrf_origin_def Let_def toLowerCase_Origin or_str_def truthy_str_def)

lemma sample_exchange_event_facts:
  "\<not> path_includes (sample_exchange_event b) ''/upload-url''"
  "\<not> path_includes (sample_exchange_event b) ''/upload-complete''"
  "isAuthExchange (sample_exchange_event b)"
  "greedy_of (sample_platform c) (sample_exchange_event b) = Some ''I1''"
  by (simp_all add: sample_exchange_event_def path_includes_def isAuthExchange_def greedy_of_def
      startsWith_def endsWith_def or_str_def truthy_str_def query_of_def sample_platform_def)

section \<open>Lemmas: the gates\<close>

lemma legacy_token_step_eq:
  "legacy_token_step E clock inst wh t =
     Inr (if legacy_token_accepts E clock inst wh t then GateOk else GateDeny PASSWORD_PAGE_HTML None)"
  by (simp add: legacy_token_step_def legacy_token_accepts_def js_bind_def try_catch_def
      split: sum.splits)

lemma password_flow_query_token:
  assumes "qs = Some t" and "t \<noteq> []" and "truthy_str (authKey inst)"
  shows "password_flow E clock inst wh qs m =
     Inr (if legacy_token_accepts E clock inst wh t then GateOk else GateDeny PASSWORD_PAGE_HTML None)"
  using assms by (simp add: password_flow_def Let_def truthy_str_def legacy_token_step_eq)

lemma get_prop_payload:
  "get_prop (if truthy (Some payload) then payload else JObj []) k = Inr (opt_prop payload k)"
  by (cases payload) (simp_all add: get_prop_def opt_prop_def)

lemma cookie_step_verified:
  assumes "getClientSecret E (ClientID wh) = Inr cs"
      and "deriveCookieSigningKey E (Some cs) (Some (instance_id inst)) = Inr k"
      and "verifyJwtHs256 E clock c k (Some ''tgl'') (Some (''wi:'' @ instance_id inst))
             (Some clock) (Some 60) = Inr (JwtOk payload)"
  shows "cookie_step E clock inst wh c =
     Inr (if opt_prop payload ''iid'' = Some (JStr (instance_id inst))
             \<and> js_to_uint32 E (opt_prop payload ''tv'') = tokenVersion_u32 inst
          then GateOk else GateDeny PASSWORD_PAGE_HTML None)"
  using assms
  by (simp add: cookie_step_def js_bind_def try_catch_def Let_def get_prop_payload)

lemma cookie_step_ok:
  assumes "cookie_step E clock inst wh c = Inr GateOk"
  shows "\<exists>cs k payload.
           getClientSecret E (ClientID wh) = Inr cs
           \<and> deriveCookieSigningKey E (Some cs) (Some (instance_id inst)) = Inr k
           \<and> verifyJwtHs256 E clock c k (Some ''tgl'') (Some (''wi:'' @ instance_id inst))
                (Some clock) (Some 60) = Inr (JwtOk payload)
           \<and> opt_prop payload ''iid'' = Some (JStr (instance_id inst))
           \<and> js_to_uint32 E (opt_prop payload ''tv'') = tokenVersion_u32 inst"
proof -
  from assms obtain cs where cs: "getClientSecret E (ClientID wh) = Inr cs"
    by (cases "getClientSecret E (ClientID wh)")
       (simp_all add: cookie_step_def js_bind_def try_catch_def)
  from assms cs obtain k where k: "deriveCookieSigningKey E (Some cs) (Some (instance_id inst)) = Inr k"
    by (cases "deriveCookieSigningKey E (Some cs) (Some (instance_id inst))")
       (simp_all add: cookie_step_def js_bind_def try_catch_def)
  obtain v where v: "verifyJwtHs256 E clock c k (Some ''tgl'') (Some (''wi:'' @ instance_id inst))
             (Some clock) (Some 60) = Inr v"
    using verifyJwtHs256_returns by blast
  from assms cs k v obtain payload where p: "v = JwtOk payload"
    by (cases v) (simp_all add: cookie_step_def js_bind_def try_catch_def Let_def)
  from assms cookie_step_verified [OF cs k v [unfolded p]]
  have "opt_prop payload ''iid'' = Some (JStr (instance_id inst))
      \<and> js_to_uint32 E (opt_prop payload ''tv'') = tokenVersion_u32 inst"
    by (simp split: if_splits)
  with cs k v p show ?thesis by blast
qed

lemma password_flow_ok_cookie:
  assumes "password_flow E clock inst wh qs m = Inr GateOk"
      and "\<not> (truthy_str qs \<and> truthy_str (authKey inst))"
  shows "\<exists>c. m (cookieNameFor (instance_id inst)) = Some c \<and> c \<noteq> []
           \<and> cookie_step E clock inst wh c = Inr GateOk"
  using assms
  by (auto simp: password_flow_def Let_def split: option.splits if_splits)


lemma gate_query_token:
  assumes "passwordProtected wh" and "query_of ev ''token'' = Some t" and "t \<noteq> []"
      and "truthy_str (authKey inst)"
  shows "verifyAccessOrPasswordPage E clock inst wh ev =
     (case getCookieMap E (or_str (header_of ev ''cookie'') (header_of ev ''Cookie'')) of
        Inl e \<Rightarrow> Inl e
      | Inr m \<Rightarrow> Inr (if legacy_token_accepts E clock inst wh t then GateOk
                      else GateDeny PASSWORD_PAGE_HTML None))"
  using assms
  by (simp add: verifyAccessOrPasswordPage_def Let_def js_bind_def password_flow_query_token
      split: sum.splits)

lemma gate_cognito_query_token:
  assumes "authenticationType wh \<noteq> Some ''user''"
      and "passwordProtected wh" and "query_of ev ''token'' = Some t" and "t \<noteq> []"
      and "truthy_str (authKey inst)"
  shows "verifyAccessOrPasswordPage_cognito E clock inst wh ev =
     (case getCookieMap E (cookieSource_of ev) of
        Inl e \<Rightarrow> Inl e
      | Inr m \<Rightarrow> Inr (if legacy_token_accepts E clock inst wh t then GateOk
                      else GateDeny PASSWORD_PAGE_HTML None))"
  using assms
  by (simp add: verifyAccessOrPasswordPage_cognito_def Let_def js_bind_def cookieSource_of_def
      password_flow_query_token split: sum.splits)

lemma gate_ok_cookie:
  assumes "verifyAccessOrPasswordPage E clock inst wh ev = Inr GateOk"
      and "passwordProtected wh"
      and "\<not> (truthy_str (query_of ev ''token'') \<and> truthy_str (authKey inst))"
  shows "\<exists>m c. getCookieMap E (or_str (header_of ev ''cookie'') (header_of ev ''Cookie'')) = Inr m
           \<and> m (cookieNameFor (instance_id inst)) = Some c \<and> c \<noteq> []
           \<and> cookie_step E clock inst wh c = Inr GateOk"
proof -
  from assms(1,2) obtain m where
    m: "getCookieMap E (or_str (header_of ev ''cookie'') (header_of ev ''Cookie'')) = Inr m"
    and "password_flow E clock inst wh (query_of ev ''token'') m = Inr GateOk"
    by (auto simp: verifyAccessOrPasswordPage_def Let_def js_bind_def split: sum.splits)
  from password_flow_ok_cookie [OF this(2) assms(3)] m show ?thesis by blast
qed

lemma gate_cognito_ok_cookie:
  assumes "verifyAccessOrPasswordPage_cognito E clock inst wh ev = Inr GateOk"
      and "authenticationType wh \<noteq> Some ''user''"
      and "passwordProtected wh"
      and "\<not> (truthy_str (query_of ev ''token'') \<and> truthy_str (authKey inst))"
  shows "\<exists>m c. getCookieMap E (cookieSource_of ev) = Inr m
           \<and> m (cookieNameFor (instance_id inst)) = Some c \<and> c \<noteq> []
           \<and> cookie_step E clock inst wh c = Inr GateOk"
proof -
  from assms(1,2,3) obtain m where
    m: "getCookieMap E (cookieSource_of ev) = Inr m"
    and "password_flow E clock inst wh (query_of ev ''token'') m = Inr GateOk"
    by (auto simp: verifyAccessOrPasswordPage_cognito_def Let_def js_bind_def cookieSource_of_def
        split: sum.splits)
  from password_flow_ok_cookie [OF this(2) assms(4)] m show ?thesis by blast
qed

lemma api_verified:
  assumes "loadInstance E iid = Inr (Some inst)"
      and "loadWebhook E (WebhookID inst) = Inr (Some wh)"
      and "getClientSecret E (ClientID wh) = Inr cs" and "cs \<noteq> []"
      and "deriveCookieSigningKey E (Some cs) (Some iid) = Inr k"
      and "getCookieMap E (api_cookie_header ev) = Inr m"
      and "m (cookieNameFor iid) = Some c" and "c \<noteq> []"
      and "verifyJwtHs256 E clock c k (Some ''tgl'') (Some (''wi:'' @ iid)) (Some clock) (Some 60)
             = Inr (JwtOk payload)"
  shows "verifyJWTForAPI E clock ev iid = Inr (api_verdict E clock inst wh iid payload)"
  using assms
  by (simp add: verifyJWTForAPI_def js_bind_def try_catch_def Let_def get_prop_payload
      api_verdict_def api_cookie_header_def)


lemma api_ok:
  assumes "verifyJWTForAPI E clock ev iid = Inr (ApiOk inst wh p)"
  shows "\<exists>cs k m c payload.
           loadInstance E iid = Inr (Some inst)
           \<and> loadWebhook E (WebhookID inst) = Inr (Some wh)
           \<and> getClientSecret E (ClientID wh) = Inr cs \<and> cs \<noteq> []
           \<and> deriveCookieSigningKey E (Some cs) (Some iid) = Inr k
           \<and> getCookieMap E (api_cookie_header ev) = Inr m
           \<and> m (cookieNameFor iid) = Some c \<and> c \<noteq> []
           \<and> verifyJwtHs256 E clock c k (Some ''tgl'') (Some (''wi:'' @ iid)) (Some clock) (Some 60)
                = Inr (JwtOk payload)
           \<and> api_verdict E clock inst wh iid payload = ApiOk inst wh p"
proof -
  from assms obtain inst0 where li: "loadInstance E iid = Inr (Some inst0)"
    by (auto simp: verifyJWTForAPI_def js_bind_def try_catch_def split: sum.splits option.splits)
  from assms li obtain wh0 where lw: "loadWebhook E (WebhookID inst0) = Inr (Some wh0)"
    by (auto simp: verifyJWTForAPI_def js_bind_def try_catch_def split: sum.splits option.splits)
  from assms li lw obtain cs where cs: "getClientSecret E (ClientID wh0) = Inr cs" "cs \<noteq> []"
    by (auto simp: verifyJWTForAPI_def js_bind_def try_catch_def split: sum.splits if_splits)
  from assms li lw cs obtain k where k: "deriveCookieSigningKey E (Some cs) (Some iid) = Inr k"
    by (auto simp: verifyJWTForAPI_def js_bind_def try_catch_def split: sum.splits)
  from assms li lw cs k obtain m where m: "getCookieMap E (api_cookie_header ev) = Inr m"
    by (auto simp: verifyJWTForAPI_def js_bind_def try_catch_def api_cookie_header_def
        split: sum.splits)
  from assms li lw cs k m obtain c where c: "m (cookieNameFor iid) = Some c" "c \<noteq> []"
    by (auto simp: verifyJWTForAPI_def js_bind_def try_catch_def api_cookie_header_def Let_def
        split: option.splits if_splits)
  obtain v where v: "verifyJwtHs256 E clock c k (Some ''tgl'') (Some (''wi:'' @ iid))
      (Some clock) (Some 60) = Inr v"
    using verifyJwtHs256_returns by blast
  from assms li lw cs k m c v obtain payload where p: "v = JwtOk payload"
    by (cases v)
       (simp_all add: verifyJWTForAPI_def js_bind_def try_catch_def api_cookie_header_def Let_def)
  from assms api_verified [OF li lw cs(1,2) k m c v [unfolded p]]
  have av: "api_verdict E clock inst0 wh0 iid payload = ApiOk inst wh p" by simp
  then have "inst0 = inst" "wh0 = wh"
    by (simp_all add: api_verdict_def split: if_splits)
  with li lw cs k m c v p av show ?thesis by blast
qed

lemma api_verdict_ok:
  assumes "api_verdict E clock inst wh iid payload = ApiOk inst wh p"
  shows "opt_prop payload ''iid'' = Some (JStr iid)"
    and "js_parseInt E (opt_prop payload ''tv'') = expectedVersion_of E inst"
    and "js_parseInt E (opt_prop payload ''tv'') \<noteq> None"
    and "p = payload"
  using assms
  by (auto simp: api_verdict_def opt_prop_def split: if_splits json.splits)

lemma parseInt_equal_u32:
  assumes "js_parseInt E (Some (JNum n)) = expectedVersion_of E inst"
      and "\<bar>n\<bar> < 10 ^ 21"
      and "\<forall>m. tokenVersion inst = Some m \<longrightarrow> \<bar>m\<bar> < 10 ^ 21"
  shows "to_uint32 n = tokenVersion_u32 inst"
  using assms
  by (cases "tokenVersion inst")
     (auto simp: expectedVersion_of_def tokenVersion_u32_def to_uint32_def)

lemma jwt_char_b64urlchar: "jwt_char (b64urlchar n)"
proof (cases "n < 62")
  case True
  then show ?thesis
    using b64char_low_code [OF True] by (simp add: jwt_char_def b64urlchar_low)
next
  case False
  then have "62 \<le> n" by simp
  then show ?thesis by (simp add: jwt_char_def b64urlchar_high)
qed

lemma jwt_char_b64url: "c \<in> set (b64url buf) \<Longrightarrow> jwt_char c"
  by (auto simp: b64url_sextets jwt_char_b64urlchar)

lemma jwt_char_createJwtHs256:
  "c \<in> set (createJwtHs256 E clock key payload ttl iss aud iat) \<Longrightarrow> jwt_char c"
  by (auto simp: createJwtHs256_def Let_def b64uEncodeJson_def jwt_char_def dest: jwt_char_b64url)

lemma jwt_char_not_special:
  assumes "jwt_char c"
  shows "c \<noteq> CHR '';''" "c \<noteq> CHR ''=''" "c \<noteq> CHR ''%''" "\<not> is_space c"
    "(of_char c :: nat) < 128"
  using assms by (auto simp: jwt_char_def alnum_code_def is_space_def Let_def)

lemma strip_space_plain:
  assumes "s \<noteq> [] \<Longrightarrow> \<not> is_space (hd s) \<and> (of_char (hd s) :: nat) < 128"
      and "\<And>a b. p2 a b \<Longrightarrow> 128 \<le> (of_char a :: nat)"
      and "\<And>a b c. p3 a b c \<Longrightarrow> 128 \<le> (of_char a :: nat)"
  shows "strip_space p2 p3 s = s"
proof (cases "(p2, p3, s)" rule: strip_space.cases)
  case (1 q2 q3)
  then show ?thesis by simp
next
  case (2 q2 q3 a)
  then show ?thesis using assms(1) by simp
next
  case (3 q2 q3 a b)
  then show ?thesis using assms(1) assms(2) [of a b] by auto
next
  case (4 q2 q3 a b c t)
  then show ?thesis using assms(1) assms(2) [of a b] assms(3) [of a b c] by auto
qed

lemma trim_no_space:
  assumes "\<And>c. c \<in> set s \<Longrightarrow> \<not> is_space c \<and> (of_char c :: nat) < 128"
  shows "trim s = s"
proof -
  have f: "trimStart s = s"
    unfolding trimStart_def
    by (rule strip_space_plain) (use assms in \<open>auto simp: is_space2_def is_space3_def Let_def\<close>)
  have "strip_space (\<lambda>b a. is_space2 a b) (\<lambda>c b a. is_space3 a b c) (rev s) = rev s"
  proof (rule strip_space_plain)
    show "\<not> is_space (hd (rev s)) \<and> (of_char (hd (rev s)) :: nat) < 128" if "rev s \<noteq> []"
      using that assms [of "last s"] by (simp add: hd_rev)
    show "128 \<le> (of_char a :: nat)" if "is_space2 b a" for a b
      using that by (simp add: is_space2_def)
    show "128 \<le> (of_char a :: nat)" if "is_space3 c b a" for a b c
      using that by (auto simp: is_space3_def Let_def)
  qed
  then have "trimEnd s = s" by (simp add: trimEnd_def)
  with f show ?thesis by (simp add: trim_def)
qed

lemma sample_decodeURIComponent_plain:
  "CHR ''%'' \<notin> set s \<Longrightarrow> sample_decodeURIComponent s = Some s"
  by (induction s) auto

lemma getCookieMap_single:
  assumes "CHR '';'' \<notin> set k" and "CHR '';'' \<notin> set v" and "CHR ''='' \<notin> set k"
      and "trim k = k" and "trim v = v" and "k \<noteq> []"
      and "decodeURIComponent E v = Some v'"
  shows "getCookieMap E (Some (k @ ''='' @ v)) = Inr [k \<mapsto> v']"
proof -
  have sp: "split_on CHR '';'' (k @ ''='' @ v) = [k @ ''='' @ v]"
    using assms(1,2) by (intro split_on_no_sep) simp
  have tk: "takeWhile (\<lambda>c. c \<noteq> CHR ''='') (k @ CHR ''='' # v) = k"
    using assms(3) by (induction k) auto
  have dr: "dropWhile (\<lambda>c. c \<noteq> CHR ''='') (k @ CHR ''='' # v) = CHR ''='' # v"
    using assms(3) by (induction k) auto
  show ?thesis
    unfolding getCookieMap_def option.case sp
    using assms(4-7) by (simp add: tk dr Let_def)
qed

lemma gate_cookie:
  assumes "passwordProtected wh"
      and "\<not> (truthy_str (query_of ev ''token'') \<and> truthy_str (authKey inst))"
      and "getCookieMap E (or_str (header_of ev ''cookie'') (header_of ev ''Cookie'')) = Inr m"
      and "m (cookieNameFor (instance_id inst)) = Some c" and "c \<noteq> []"
  shows "verifyAccessOrPasswordPage E clock inst wh ev = cookie_step E clock inst wh c"
  using assms
  by (auto simp: verifyAccessOrPasswordPage_def Let_def js_bind_def password_flow_def)

lemma gate_cognito_cookie:
  assumes "authenticationType wh \<noteq> Some ''user''" and "passwordProtected wh"
      and "\<not> (truthy_str (query_of ev ''token'') \<and> truthy_str (authKey inst))"
      and "getCookieMap E (cookieSource_of ev) = Inr m"
      and "m (cookieNameFor (instance_id inst)) = Some c" and "c \<noteq> []"
  shows "verifyAccessOrPasswordPage_cognito E clock inst wh ev = cookie_step E clock inst wh c"
  using assms
  by (auto simp: verifyAccessOrPasswordPage_cognito_def Let_def js_bind_def password_flow_def
      cookieSource_of_def)

lemma gate_allows_iff:
  assumes "passwordProtected wh"
      and "\<not> (truthy_str (query_of ev ''token'') \<and> truthy_str (authKey inst))"
  shows "(verifyAccessOrPasswordPage E clock inst wh ev = Inr GateOk) =
     (\<exists>m c cs k payload.
        getCookieMap E (or_str (header_of ev ''cookie'') (header_of ev ''Cookie'')) = Inr m
        \<and> m (cookieNameFor (instance_id inst)) = Some c \<and> c \<noteq> []
        \<and> getClientSecret E (ClientID wh) = Inr cs
        \<and> deriveCookieSigningKey E (Some cs) (Some (instance_id inst)) = Inr k
        \<and> verifyJwtHs256 E clock c k (Some ''tgl'') (Some (''wi:'' @ instance_id inst))
             (Some clock) (Some 60) = Inr (JwtOk payload)
        \<and> opt_prop payload ''iid'' = Some (JStr (instance_id inst))
        \<and> js_to_uint32 E (opt_prop payload ''tv'') = tokenVersion_u32 inst)"
  (is "?L = ?R")
proof
  assume ?L
  from gate_ok_cookie [OF this assms] obtain m c where
    m: "getCookieMap E (or_str (header_of ev ''cookie'') (header_of ev ''Cookie'')) = Inr m"
       "m (cookieNameFor (instance_id inst)) = Some c" "c \<noteq> []"
    and cs: "cookie_step E clock inst wh c = Inr GateOk"
    by blast
  from cookie_step_ok [OF cs] m show ?R by blast
next
  assume ?R
  then obtain m c cs k payload where
    m: "getCookieMap E (or_str (header_of ev ''cookie'') (header_of ev ''Cookie'')) = Inr m"
       "m (cookieNameFor (instance_id inst)) = Some c" "c \<noteq> []"
    and v: "getClientSecret E (ClientID wh) = Inr cs"
       "deriveCookieSigningKey E (Some cs) (Some (instance_id inst)) = Inr k"
       "verifyJwtHs256 E clock c k (Some ''tgl'') (Some (''wi:'' @ instance_id inst))
             (Some clock) (Some 60) = Inr (JwtOk payload)"
    and e: "opt_prop payload ''iid'' = Some (JStr (instance_id inst))"
       "js_to_uint32 E (opt_prop payload ''tv'') = tokenVersion_u32 inst"
    by blast
  show ?L
    using gate_cookie [OF assms m, of clock] cookie_step_verified [OF v] e by simp
qed

lemma gate_cognito_allows_iff:
  assumes "authenticationType wh \<noteq> Some ''user''" and "passwordProtected wh"
      and "\<not> (truthy_str (query_of ev ''token'') \<and> truthy_str (authKey inst))"
  shows "(verifyAccessOrPasswordPage_cognito E clock inst wh ev = Inr GateOk) =
     (\<exists>m c cs k payload.
        getCookieMap E (cookieSource_of ev) = Inr m
        \<and> m (cookieNameFor (instance_id inst)) = Some c \<and> c \<noteq> []
        \<and> getClientSecret E (ClientID wh) = Inr cs
        \<and> deriveCookieSigningKey E (Some cs) (Some (instance_id inst)) = Inr k
        \<and> verifyJwtHs256 E clock c k (Some ''tgl'') (Some (''wi:'' @ instance_id inst))
             (Some clock) (Some 60) = Inr (JwtOk payload)
        \<and> opt_prop payload ''iid'' = Some (JStr (instance_id inst))
        \<and> js_to_uint32 E (opt_prop payload ''tv'') = tokenVersion_u32 inst)"
  (is "?L = ?R")
proof
  assume ?L
  from gate_cognito_ok_cookie [OF this assms] obtain m c where
    m: "getCookieMap E (cookieSource_of ev) = Inr m"
       "m (cookieNameFor (instance_id inst)) = Some c" "c \<noteq> []"
    and cs: "cookie_step E clock inst wh c = Inr GateOk"
    by blast
  from cookie_step_ok [OF cs] m show ?R by blast
next
  assume ?R
  then obtain m c cs k payload where
    m: "getCookieMap E (cookieSource_of ev) = Inr m"
       "m (cookieNameFor (instance_id inst)) = Some c" "c \<noteq> []"
    and v: "getClientSecret E (ClientID wh) = Inr cs"
       "deriveCookieSigningKey E (Some cs) (Some (instance_id inst)) = Inr k"
       "verifyJwtHs256 E clock c k (Some ''tgl'') (Some (''wi:'' @ instance_id inst))
             (Some clock) (Some 60) = Inr (JwtOk payload)"
    and e: "opt_prop payload ''iid'' = Some (JStr (instance_id inst))"
       "js_to_uint32 E (opt_prop payload ''tv'') = tokenVersion_u32 inst"
    by blast
  show ?L
    using gate_cognito_cookie [OF assms m, of clock] cookie_step_verified [OF v] e by simp
qed

lemma to_uint32_succ: "to_uint32 N \<noteq> to_uint32 (N + 1)"
proof
  assume "to_uint32 N = to_uint32 (N + 1)"
  then have "(N + 1) mod 2 ^ 32 = N mod 2 ^ 32" by (simp add: to_uint32_def)
  then have "(2 ^ 32 :: int) dvd (N + 1) - N" by (simp only: mod_eq_dvd_iff)
  then show False by simp
qed

lemma to_uint32_not_succ: "to_uint32 N \<noteq> N + 1"
proof
  assume a: "to_uint32 N = N + 1"
  have "to_uint32 (to_uint32 N) = to_uint32 N" by (simp add: to_uint32_def)
  with a have "to_uint32 (N + 1) = to_uint32 N" by simp
  with to_uint32_succ [of N] show False by simp
qed

lemma to_uint32_range: "0 \<le> to_uint32 n" "to_uint32 n < 2 ^ 32"
  by (simp_all add: to_uint32_def)

lemma cookie_step_revoked:
  assumes "getClientSecret E (ClientID wh) = Inr cs"
      and "deriveCookieSigningKey E (Some cs) (Some (instance_id inst)) = Inr k"
      and "verifyJwtHs256 E clock c k (Some ''tgl'') (Some (''wi:'' @ instance_id inst))
             (Some clock) (Some 60) = Inr (JwtOk payload)"
      and "opt_prop payload ''tv'' = Some (JNum (to_uint32 N))"
      and "tokenVersion inst = Some (N + 1)"
  shows "cookie_step E clock inst wh c = Inr (GateDeny PASSWORD_PAGE_HTML None)"
proof -
  have "to_uint32 (to_uint32 N) \<noteq> to_uint32 (N + 1)"
    using to_uint32_succ [of N] by (simp add: to_uint32_def)
  then show ?thesis
    using assms(4,5) by (simp add: cookie_step_verified [OF assms(1,2,3)] tokenVersion_u32_def)
qed

lemma api_verdict_revoked:
  assumes "opt_prop payload ''iid'' = Some (JStr iid)"
      and "opt_prop payload ''tv'' = Some (JNum (to_uint32 N))"
      and "tokenVersion inst = Some (N + 1)"
      and "\<bar>N + 1\<bar> < 10 ^ 21"
  shows "api_verdict E clock inst wh iid payload = ApiFail ''Token has been revoked''"
proof -
  have r: "\<bar>to_uint32 N\<bar> < 10 ^ 21"
    using to_uint32_range [of N] by simp
  have e: "expectedVersion_of E inst = Some (N + 1)"
    using assms(3,4) by (simp add: expectedVersion_of_def)
  show ?thesis
    using assms(1,2) r e to_uint32_not_succ [of N] by (simp add: api_verdict_def)
qed

section \<open>Lemmas: the sample platform\<close>

lemma sample_platform_fields:
  "hmac_sha256 (sample_platform c) = sample_hmac"
  "JSON_stringify (sample_platform c) = sample_JSON_stringify"
  "JSON_parse (sample_platform c) = sample_JSON_parse"
  "decodeURIComponent (sample_platform c) = sample_decodeURIComponent"
  "getClientSecret (sample_platform c) x = Inr ''s3cr3t''"
  "loadInstance (sample_platform c) ''I1'' = Inr (Some (sample_instance c))"
  "loadWebhook (sample_platform c) ''W1'' = Inr (Some sample_webhook)"
  "ToUint32_other (sample_platform c) = sample_ToUint32_other"
  "parseInt_other (sample_platform c) = sample_parseInt_other"
  by (simp_all add: sample_platform_def)

lemma sample_verify_independent:
  "verifyJwtHs256 (sample_platform c) clock t k i a n s
     = verifyJwtHs256 (sample_platform 0) clock t k i a n s"
  unfolding verifyJwtHs256_def b64uDecodeJson_def sample_platform_fields by (rule refl)

lemma sample_derive_key:
  "deriveCookieSigningKey (sample_platform c) (Some ''s3cr3t'') (Some ''I1'') = Inr sample_cookie_key"
  by (simp add: deriveCookieSigningKey_def sample_platform_fields sample_cookie_key_def)

lemma sample_session_body_eq:
  "JObj (jwt_body [(''iid'', JStr ''I1''), (''tv'', tv)] 600 ''tgl'' (Some ''wi:I1'') 1000)
     = sample_session_body tv"
  by (simp add: jwt_body_def sample_session_body_def)

lemma sample_session_verifies:
  assumes "sample_session_body tv \<in> snd ` set sample_json_table"
      and "1000 - 60 \<le> now" and "now < 1600 + 60"
  shows "verifyJwtHs256 (sample_platform c) clock (sample_session_jwt tv) sample_cookie_key
           (Some ''tgl'') (Some ''wi:I1'') (Some now) (Some 60)
         = Inr (JwtOk (sample_session_body tv))"
proof -
  have rt: "json_roundtrip (sample_platform 0)
      (JObj (jwt_body [(''iid'', JStr ''I1''), (''tv'', tv)] 600 ''tgl'' (Some ''wi:I1'') 1000))"
    unfolding sample_session_body_eq by (rule json_roundtrip_sample) (rule assms(1))
  show ?thesis
    unfolding sample_verify_independent [of c] sample_session_jwt_def
      verify_create_jwt_same [OF json_roundtrip_sample_header rt] verify_claims_jwt_body
    using assms(3)
    by (simp add: sample_session_body_eq)
qed

lemma sample_cookie_name: "cookieNameFor ''I1'' = ''tgl_wi_auth.I1''"
  by (simp add: cookieNameFor_def COOKIE_NAME_def)

lemma sample_cookie_name_trim: "trim ''tgl_wi_auth.I1'' = ''tgl_wi_auth.I1''"
  by code_simp

lemma sample_cookie_map:
  "getCookieMap (sample_platform c) (Some (sample_cookie_header tv))
     = Inr [cookieNameFor ''I1'' \<mapsto> sample_session_jwt tv]"
proof -
  have j: "jwt_char ch" if "ch \<in> set (sample_session_jwt tv)" for ch
    using that unfolding sample_session_jwt_def by (rule jwt_char_createJwtHs256)
  have v1: "CHR '';'' \<notin> set (sample_session_jwt tv)"
    using j jwt_char_not_special(1) by blast
  have v2: "trim (sample_session_jwt tv) = sample_session_jwt tv"
    by (rule trim_no_space) (use j jwt_char_not_special(4,5) in blast)
  have v3: "decodeURIComponent (sample_platform c) (sample_session_jwt tv) = Some (sample_session_jwt tv)"
    unfolding sample_platform_fields
    by (rule sample_decodeURIComponent_plain) (use j jwt_char_not_special(3) in blast)
  show ?thesis
    unfolding sample_cookie_header_def sample_cookie_name
    by (rule getCookieMap_single [OF _ v1 _ sample_cookie_name_trim v2 _ v3]) simp_all
qed

lemma sample_session_jwt_nonempty: "sample_session_jwt tv \<noteq> []"
  by (simp add: sample_session_jwt_def createJwtHs256_def Let_def)

lemma sample_event_cookie:
  "or_str (header_of (sample_event q (Some (sample_cookie_header tv))) ''cookie'')
      (header_of (sample_event q (Some (sample_cookie_header tv))) ''Cookie'')
     = Some (sample_cookie_header tv)"
  "cookieSource_of (sample_event q (Some (sample_cookie_header tv))) = Some (sample_cookie_header tv)"
  "api_cookie_header (sample_event q (Some (sample_cookie_header tv))) = Some (sample_cookie_header tv)"
  by (simp_all add: sample_event_def header_of_def or_str_def truthy_str_def cookieSource_of_def
      api_cookie_header_def sample_cookie_header_def)

lemma sample_session_table:
  "sample_session_body (JNum 0) \<in> snd ` set sample_json_table"
  "sample_session_body (JStr ''5abc'') \<in> snd ` set sample_json_table"
  by (simp_all add: sample_session_body_def sample_json_table_def)

lemma sample_event_query:
  "query_of (sample_event None h) ''token'' = None"
  "query_of (sample_event (Some t) h) ''token'' = Some t"
  by (simp_all add: sample_event_def query_of_def)

lemma sample_records:
  "passwordProtected sample_webhook" "ClientID sample_webhook = ''C1''"
  "authenticationType sample_webhook \<noteq> Some ''user''"
  "instance_id (sample_instance c) = ''I1''" "WebhookID (sample_instance c) = ''W1''"
  "tokenVersion (sample_instance c) = Some c" "authKey (sample_instance c) = Some ''legacy-key''"
  by (simp_all add: sample_webhook_def sample_instance_def)

lemma sample_gate_allows:
  "verifyAccessOrPasswordPage (sample_platform 0) 1200 (sample_instance 0) sample_webhook
     (sample_event None (Some (sample_cookie_header (JNum 0)))) = Inr GateOk"
proof -
  have v: "verifyJwtHs256 (sample_platform 0) 1200 (sample_session_jwt (JNum 0)) sample_cookie_key
      (Some ''tgl'') (Some (''wi:'' @ instance_id (sample_instance 0))) (Some 1200) (Some 60)
      = Inr (JwtOk (sample_session_body (JNum 0)))"
    using sample_session_verifies [OF sample_session_table(1), of 1200 0 1200]
    by (simp add: sample_records)
  have "verifyAccessOrPasswordPage (sample_platform 0) 1200 (sample_instance 0) sample_webhook
     (sample_event None (Some (sample_cookie_header (JNum 0))))
     = cookie_step (sample_platform 0) 1200 (sample_instance 0) sample_webhook
         (sample_session_jwt (JNum 0))"
    by (rule gate_cookie [where m = "[cookieNameFor ''I1'' \<mapsto> sample_session_jwt (JNum 0)]"])
       (simp_all add: sample_records sample_event_query truthy_str_def sample_event_cookie
          sample_cookie_map sample_session_jwt_nonempty)
  also have "\<dots> = Inr GateOk"
    using cookie_step_verified [of "sample_platform 0" sample_webhook "''s3cr3t''"
        "sample_instance 0" sample_cookie_key 1200 "sample_session_jwt (JNum 0)"
        "sample_session_body (JNum 0)"] v
    by (simp add: sample_platform_fields sample_records sample_derive_key sample_session_body_def
        opt_prop_def tokenVersion_u32_def to_uint32_def)
  finally show ?thesis .
qed

lemma sample_legacy_rejects:
  "\<not> legacy_token_accepts (sample_platform c) clock (sample_instance c) sample_webhook ''AQ''"
proof -
  have "verifyCompactToken (sample_platform c) ''AQ'' k ''I1'' tv clock = Inr (CompactFail ''len'')"
    for k tv
    by (rule verifyCompactToken_len) (simp add: fromB64url_AQ)
  then show ?thesis
    by (simp add: legacy_token_accepts_def sample_platform_fields sample_records
        deriveSigningKey_def compact_ok_def)
qed

lemma sample_bad_cookie: "getCookieMap (sample_platform c) (Some ''a=%'') = Inl URIError"
proof -
  have t: "trim ''a'' = ''a''" "trim ''%'' = ''%''" by code_simp+
  show ?thesis
    by (simp add: getCookieMap_def t sample_platform_fields)
qed

lemma sha256_sized_sample: "sha256_sized (sample_platform c)"
  by (auto simp: sha256_sized_def sample_platform_def sample_hmac_def)

lemma sample_legacy_accepts:
  "legacy_token_accepts (sample_platform c) clock (sample_instance c) sample_webhook
     (sample_query_token c)"
proof -
  let ?E = "sample_platform c"
  have t: "sample_query_token c =
      makeCompactToken ?E (replicate 8 0) sample_legacy_key ''I1'' (to_uint32 c) 1000 0"
    by (simp add: sample_query_token_def makeCompactToken_wire to_uint32_def)
  have v: "verifyCompactToken ?E (sample_query_token c) sample_legacy_key ''I1'' (to_uint32 c) clock
      = Inr (CompactOk (Some 1000) None)"
    unfolding t
    using verify_make_compact [of "replicate 8 0" ?E sample_legacy_key "''I1''" "to_uint32 c"
        1000 0 clock]
    by (simp add: sha256_sized_sample to_uint32_def)
  show ?thesis
    using v
    by (simp add: legacy_token_accepts_def sample_platform_fields sample_records
        deriveSigningKey_def sample_legacy_key_def tokenVersion_u32_def compact_ok_def)
qed

lemma sample_query_token_nonempty: "sample_query_token c \<noteq> []"
proof
  assume "sample_query_token c = []"
  then have "fromB64url (sample_query_token c) = fromB64url []" by simp
  moreover have "fromB64url [] = []" by code_simp
  ultimately show False
    by (simp add: sample_query_token_def makeCompactToken_wire fromB64url_b64url compact_wire_def)
qed

text \<open>
  \<open>verifyJWTForAPI\<close> compares \<open>parseInt(payload.tv)\<close> with \<open>parseInt(instance.tokenVersion || 0)\<close>.
  On a \<open>tv\<close> that is not a number the comparison is not the one of \<open>tv >>> 0\<close>: a JWT under the
  cookie key with \<open>tv = "5abc"\<close>, which no handler mints, is allowed against the counter \<open>5\<close>,
  since \<open>parseInt("5abc")\<close> is \<open>5\<close>, while \<open>"5abc" >>> 0\<close> is \<open>0\<close>.
\<close>

lemma sample_api_parseInt_prefix:
  "verifyJwtHs256 (sample_platform 5) 1200 (sample_session_jwt (JStr ''5abc'')) sample_cookie_key
      (Some ''tgl'') (Some ''wi:I1'') (Some 1200) (Some 60)
     = Inr (JwtOk (sample_session_body (JStr ''5abc'')))
   \<and> verifyJWTForAPI (sample_platform 5) 1200
       (sample_event None (Some (sample_cookie_header (JStr ''5abc'')))) ''I1''
     = Inr (ApiOk (sample_instance 5) sample_webhook (sample_session_body (JStr ''5abc'')))
   \<and> js_to_uint32 (sample_platform 5) (opt_prop (sample_session_body (JStr ''5abc'')) ''tv'')
       \<noteq> tokenVersion_u32 (sample_instance 5)"
proof -
  let ?E = "sample_platform 5"
  let ?ev = "sample_event None (Some (sample_cookie_header (JStr ''5abc'')))"
  let ?m = "[cookieNameFor ''I1'' \<mapsto> sample_session_jwt (JStr ''5abc'')]"
  have v: "verifyJwtHs256 ?E 1200 (sample_session_jwt (JStr ''5abc'')) sample_cookie_key
      (Some ''tgl'') (Some ''wi:I1'') (Some 1200) (Some 60)
      = Inr (JwtOk (sample_session_body (JStr ''5abc'')))"
    using sample_session_verifies [OF sample_session_table(2), of 1200 5 1200] by simp
  have pi: "js_parseInt ?E (Some (JStr ''5abc'')) = Some 5"
    by (simp add: sample_platform_fields sample_parseInt_other_def digit_val_def)
  have tu: "js_to_uint32 ?E (Some (JStr ''5abc'')) = 0"
    by (simp add: sample_platform_fields sample_ToUint32_other_def digit_val_def to_uint32_def)
  have av: "api_verdict ?E 1200 (sample_instance 5) sample_webhook ''I1''
      (sample_session_body (JStr ''5abc''))
      = ApiOk (sample_instance 5) sample_webhook (sample_session_body (JStr ''5abc''))"
    using pi
    by (simp add: api_verdict_def sample_session_body_def opt_prop_def expectedVersion_of_def
        sample_records)
  have "verifyJWTForAPI ?E 1200 ?ev ''I1''
      = Inr (api_verdict ?E 1200 (sample_instance 5) sample_webhook ''I1''
               (sample_session_body (JStr ''5abc'')))"
    by (rule api_verified [where m = ?m and cs = "''s3cr3t''" and k = sample_cookie_key
          and c = "sample_session_jwt (JStr ''5abc'')"])
       (simp_all add: sample_platform_fields sample_records sample_derive_key sample_event_cookie
          sample_cookie_map sample_session_jwt_nonempty v)
  with av v tu show ?thesis
    by (simp add: sample_session_body_def opt_prop_def tokenVersion_u32_def sample_records
        to_uint32_def)
qed
section \<open>Compact token: expiry, tag comparison, closed failures\<close>

text \<open>
  C2, as amended. A compact token minted with \<open>ttlSeconds = 3600\<close> and verified with the same
  key, instance identifier and token version is accepted at every \<open>now\<close>. A token minted with
  any other \<open>ttlSeconds\<close> from \<open>1\<close> to \<open>2 ^ 32 - 1\<close> and an \<open>issuedAt\<close> from \<open>0\<close> to \<open>2 ^ 32 - 1\<close>
  fails with reason \<open>exp\<close> exactly when \<open>now > issuedAt + ttlSeconds\<close>, and is accepted
  otherwise. (Both numbers are written to four bytes, so larger values are reduced modulo
  \<open>2 ^ 32\<close> on the wire.)
\<close>

theorem compact_token_expiry:
  assumes "length nonce = 8" and "sha256_sized E"
  shows "verifyCompactToken E (makeCompactToken E nonce key iid tv iat 3600) key iid tv now
           = Inr (CompactOk None (Some (to_uint32 iat + 3600)))
       \<and> (0 < ttl \<and> ttl < 2 ^ 32 \<and> ttl \<noteq> 3600 \<and> 0 \<le> iat \<and> iat < 2 ^ 32 \<longrightarrow>
            verifyCompactToken E (makeCompactToken E nonce key iid tv iat ttl) key iid tv now
              = Inr (if now > iat + ttl then CompactFail ''exp''
                     else CompactOk (Some iat) (Some (iat + ttl))))"
proof (intro conjI impI)
  show "verifyCompactToken E (makeCompactToken E nonce key iid tv iat 3600) key iid tv now
           = Inr (CompactOk None (Some (to_uint32 iat + 3600)))"
    by (simp add: verify_make_compact [OF assms] to_uint32_def)
next
  assume r: "0 < ttl \<and> ttl < 2 ^ 32 \<and> ttl \<noteq> 3600 \<and> 0 \<le> iat \<and> iat < 2 ^ 32"
  then have "to_uint32 ttl = ttl" "to_uint32 iat = iat"
    by (simp_all add: to_uint32_def)
  with r show "verifyCompactToken E (makeCompactToken E nonce key iid tv iat ttl) key iid tv now
              = Inr (if now > iat + ttl then CompactFail ''exp''
                     else CompactOk (Some iat) (Some (iat + ttl)))"
    by (simp add: verify_make_compact [OF assms])
qed

theorem compact_token_expiry_witness:
  "verifyCompactToken (sample_platform 0)
     (makeCompactToken (sample_platform 0) (replicate 8 0) [] ''I1'' 0 1000 3600) [] ''I1'' 0 5000
     = Inr (CompactOk None (Some 4600))
   \<and> verifyCompactToken (sample_platform 0)
     (makeCompactToken (sample_platform 0) (replicate 8 0) [] ''I1'' 0 1000 600) [] ''I1'' 0 5000
     = Inr (CompactFail ''exp'')"
  using compact_token_expiry [of "replicate 8 0" "sample_platform 0" "[]" "''I1''" 0 1000 5000 600]
  by (simp add: sha256_sized_sample to_uint32_def)

text \<open>
  C2 as stated fails for a positive \<open>ttlSeconds\<close> of \<open>2 ^ 32 + 3600\<close>: the four bytes on the wire
  hold \<open>3600\<close>, and the token is accepted long after \<open>issuedAt + ttlSeconds\<close>.
\<close>

theorem compact_token_expiry_counterexample:
  "(0::int) < 4294970896 \<and> (4294970896::int) \<noteq> 3600 \<and> (5000000000::int) > 1000 + 4294970896
   \<and> verifyCompactToken (sample_platform 0)
       (makeCompactToken (sample_platform 0) (replicate 8 0) [] ''I1'' 0 1000 4294970896)
       [] ''I1'' 0 5000000000
     = Inr (CompactOk None (Some 4600))"
  using verify_make_compact [of "replicate 8 0" "sample_platform 0" "[]" "''I1''" 0 1000
      4294970896 5000000000]
  by (simp add: sha256_sized_sample to_uint32_def)

text \<open>
  C5, its functional part. On a token that decodes to 34 bytes with version byte 1,
  \<open>verifyCompactToken\<close> fails with reason \<open>mac\<close> exactly when the first 16 bytes of the
  recomputed HMAC differ from the 16 bytes the token carries. The comparison is
  \<open>expected.equals(sig)\<close>.
\<close>

theorem compact_token_mac:
  assumes "length (fromB64url token) = 34" and "fromB64url token ! 0 = 1"
  shows "verifyCompactToken E token key iid tv now = Inr (CompactFail ''mac'')
           \<longleftrightarrow> expected_tag E (fromB64url token) key iid tv \<noteq> subarray (fromB64url token) 18 34"
  using assms
  by (simp add: verifyCompactToken_wire compact_verdict_def Buffer_equals_def)

theorem compact_token_mac_witness:
  "length (fromB64url (b64url (1 # replicate 33 0))) = 34
   \<and> fromB64url (b64url (1 # replicate 33 0)) ! 0 = 1
   \<and> verifyCompactToken (sample_platform 0) (b64url (1 # replicate 33 0)) [] ''I1'' 0 0
        = Inr (CompactFail ''mac'')"
proof -
  let ?w = "1 # replicate 33 (0 :: byte)"
  have d: "fromB64url (b64url ?w) = ?w" by (rule fromB64url_b64url)
  have l: "length (fromB64url (b64url ?w)) = 34" unfolding d by simp
  have v: "fromB64url (b64url ?w) ! 0 = 1" unfolding d by simp
  have t: "expected_tag (sample_platform 0) ?w [] ''I1'' 0 \<noteq> subarray ?w 18 34"
    by code_simp
  show ?thesis
    using compact_token_mac [OF l v, of "sample_platform 0" "[]" "''I1''" 0 0] l v t
    unfolding d by simp
qed

section \<open>HS256 JWT: signing, verification, header, expiry\<close>

text \<open>
  C3, as amended. For every key, every \<open>ttl > 0\<close>, issuer, audience and \<open>issuedAt\<close>, and every
  claims object that holds no numeric \<open>nbf\<close> later than \<open>now\<close>: the output of \<open>createJwtHs256\<close>
  verifies under \<open>verifyJwtHs256\<close> with the same key, issuer and audience, clock skew \<open>0\<close> and any
  \<open>now\<close> with \<open>issuedAt \<le> now < issuedAt + ttl\<close>. The recovered payload holds \<open>iat\<close>, \<open>iss\<close> and
  \<open>exp\<close> as set at signing, \<open>aud\<close> as set at signing when an audience was given, and under every
  other key what the claims object holds: a claim named \<open>iat\<close>, \<open>iss\<close>, \<open>exp\<close> or (with an
  audience) \<open>aud\<close> is overwritten. The platform's \<open>JSON.parse\<close> is assumed to give back the
  header and the body that \<open>JSON.stringify\<close> wrote.
\<close>

theorem jwt_sign_verify:
  assumes "json_roundtrip E jwt_header"
      and "json_roundtrip E (JObj (jwt_body claims ttl iss aud iat))"
      and "0 < ttl" and "iat \<le> now" and "now < iat + ttl"
      and "\<forall>n. map_of claims ''nbf'' = Some (JNum n) \<longrightarrow> n \<le> now"
  shows "verifyJwtHs256 E clock'
           (createJwtHs256 E clock key (Some claims) (Some ttl) (Some iss) aud (Some iat)) key
           (Some iss) aud (Some now) (Some 0)
         = Inr (JwtOk (JObj (jwt_body claims ttl iss aud iat)))
       \<and> map_of (jwt_body claims ttl iss aud iat) ''iat'' = Some (JNum iat)
       \<and> map_of (jwt_body claims ttl iss aud iat) ''iss'' = Some (JStr iss)
       \<and> map_of (jwt_body claims ttl iss aud iat) ''exp'' = Some (JNum (iat + ttl))
       \<and> (truthy_str aud \<longrightarrow> map_of (jwt_body claims ttl iss aud iat) ''aud'' = map_option JStr aud)
       \<and> (\<forall>k. k \<notin> {''iat'', ''iss'', ''aud'', ''exp''} \<longrightarrow>
              map_of (jwt_body claims ttl iss aud iat) k = map_of claims k)"
proof -
  have nbf: "\<not> (case map_of claims ''nbf'' of Some (JNum n) \<Rightarrow> now + 0 < n | _ \<Rightarrow> False)"
    using assms(6) by (auto split: option.splits json.splits)
  have "verifyJwtHs256 E clock'
           (createJwtHs256 E clock key (Some claims) (Some ttl) (Some iss) aud (Some iat)) key
           (Some iss) aud (Some now) (Some 0)
         = Inr (JwtOk (JObj (jwt_body claims ttl iss aud iat)))"
    unfolding verify_create_jwt_same [OF assms(1,2)] verify_claims_jwt_body
    using nbf assms(3,5) by simp
  then show ?thesis
    using assms(3) by (simp add: map_of_jwt_body)
qed


theorem jwt_sign_verify_witness:
  "verifyJwtHs256 (sample_platform 0) 0
     (createJwtHs256 (sample_platform 0) 0 (utf8 ''key'')
        (Some [(''iid'', JStr ''I1''), (''tv'', JNum 0)]) (Some 600) (Some ''tgl'')
        (Some ''wi:I1'') (Some 1000))
     (utf8 ''key'') (Some ''tgl'') (Some ''wi:I1'') (Some 1500) (Some 0)
   = Inr (JwtOk (JObj [(''iid'', JStr ''I1''), (''tv'', JNum 0), (''iat'', JNum 1000),
                        (''iss'', JStr ''tgl''), (''aud'', JStr ''wi:I1''), (''exp'', JNum 1600)]))"
proof -
  have b: "jwt_body [(''iid'', JStr ''I1''), (''tv'', JNum 0)] 600 ''tgl'' (Some ''wi:I1'') 1000
      = [(''iid'', JStr ''I1''), (''tv'', JNum 0), (''iat'', JNum 1000),
         (''iss'', JStr ''tgl''), (''aud'', JStr ''wi:I1''), (''exp'', JNum 1600)]"
    by (simp add: jwt_body_def)
  have rt: "json_roundtrip (sample_platform 0)
      (JObj (jwt_body [(''iid'', JStr ''I1''), (''tv'', JNum 0)] 600 ''tgl'' (Some ''wi:I1'') 1000))"
    by (rule json_roundtrip_sample_body) (simp add: b sample_json_table_def)
  show ?thesis
    using jwt_sign_verify [OF json_roundtrip_sample_header rt, of 1500 0 0 "utf8 ''key''"]
    by (simp add: b)
qed

text \<open>
  C3 as stated fails for a claims object with a numeric \<open>nbf\<close> in the future (verification fails
  with reason \<open>nbf\<close>), and for one with its own \<open>iss\<close> (the recovered \<open>iss\<close> is the issuer given
  at signing, not the claim).
\<close>

theorem jwt_sign_verify_counterexample:
  "verifyJwtHs256 (sample_platform 0) 0
     (createJwtHs256 (sample_platform 0) 0 (utf8 ''key'')
        (Some [(''nbf'', JNum 2000)]) (Some 600) (Some ''tgl'') None (Some 1000))
     (utf8 ''key'') (Some ''tgl'') None (Some 1500) (Some 0)
   = Inr (JwtFail ''nbf'')
   \<and> verifyJwtHs256 (sample_platform 0) 0
     (createJwtHs256 (sample_platform 0) 0 (utf8 ''key'')
        (Some [(''iss'', JStr ''other'')]) (Some 600) (Some ''tgl'') None (Some 1000))
     (utf8 ''key'') (Some ''tgl'') None (Some 1500) (Some 0)
   = Inr (JwtOk (JObj [(''iss'', JStr ''tgl''), (''iat'', JNum 1000), (''exp'', JNum 1600)]))"
proof -
  have b1: "jwt_body [(''nbf'', JNum 2000)] 600 ''tgl'' None 1000
      = [(''nbf'', JNum 2000), (''iat'', JNum 1000), (''iss'', JStr ''tgl''), (''exp'', JNum 1600)]"
    by (simp add: jwt_body_def)
  have b2: "jwt_body [(''iss'', JStr ''other'')] 600 ''tgl'' None 1000
      = [(''iss'', JStr ''tgl''), (''iat'', JNum 1000), (''exp'', JNum 1600)]"
    by (simp add: jwt_body_def)
  have rt1: "json_roundtrip (sample_platform 0)
      (JObj (jwt_body [(''nbf'', JNum 2000)] 600 ''tgl'' None 1000))"
    by (rule json_roundtrip_sample_body) (simp add: b1 sample_json_table_def)
  have rt2: "json_roundtrip (sample_platform 0)
      (JObj (jwt_body [(''iss'', JStr ''other'')] 600 ''tgl'' None 1000))"
    by (rule json_roundtrip_sample_body) (simp add: b2 sample_json_table_def)
  show ?thesis
    unfolding verify_create_jwt_same [OF json_roundtrip_sample_header rt1]
      verify_create_jwt_same [OF json_roundtrip_sample_header rt2]
    by (simp add: b1 b2 verify_claims_obj)
qed

text \<open>
  C6, as amended. For every token whose first dot-separated segment decodes to a JSON value in
  which \<open>alg\<close> is not exactly \<open>"HS256"\<close> or \<open>typ\<close> is not exactly \<open>"JWT"\<close>, \<open>verifyJwtHs256\<close>
  returns \<open>ok: false\<close>, whatever the key, the claims and the signature: with reason \<open>header\<close>
  when the token has exactly three segments, and with reason \<open>format\<close> otherwise (the segment
  count is checked first).
\<close>

theorem jwt_header_gate:
  assumes "b64uDecodeJson E (hd (split_on CHR ''.'' token)) = Inr header"
      and "opt_prop header ''alg'' \<noteq> Some (JStr ''HS256'') \<or> opt_prop header ''typ'' \<noteq> Some (JStr ''JWT'')"
  shows "verifyJwtHs256 E clock token key iss aud now skew =
           Inr (JwtFail (if length (split_on CHR ''.'' token) = 3 then ''header'' else ''format''))"
  using assms by (rule verifyJwtHs256_bad_header)

theorem jwt_header_gate_witness:
  "verifyJwtHs256 (sample_platform 0) 0
     (b64uEncodeJson (sample_platform 0) (JObj [(''alg'', JStr ''none''), (''typ'', JStr ''JWT'')])
        @ ''.'' @ ''e30'' @ ''.'' @ ''AQ'')
     (utf8 ''key'') None None None None
   = Inr (JwtFail ''header'')"
proof -
  let ?h = "b64uEncodeJson (sample_platform 0) (JObj [(''alg'', JStr ''none''), (''typ'', JStr ''JWT'')])"
  have sp: "split_on CHR ''.'' (?h @ ''.'' @ ''e30'' @ ''.'' @ ''AQ'') = [?h, ''e30'', ''AQ'']"
    using split_on_three [of "CHR ''.''" ?h "''e30''" "''AQ''"] b64uEncodeJson_no_dot by simp
  have d: "b64uDecodeJson (sample_platform 0)
      (hd (split_on CHR ''.'' (?h @ ''.'' @ ''e30'' @ ''.'' @ ''AQ'')))
      = Inr (JObj [(''alg'', JStr ''none''), (''typ'', JStr ''JWT'')])"
    unfolding sp by (simp add: sample_none_header)
  have bad: "opt_prop (JObj [(''alg'', JStr ''none''), (''typ'', JStr ''JWT'')]) ''alg'' \<noteq> Some (JStr ''HS256'')
      \<or> opt_prop (JObj [(''alg'', JStr ''none''), (''typ'', JStr ''JWT'')]) ''typ'' \<noteq> Some (JStr ''JWT'')"
    by (simp add: opt_prop_def)
  show ?thesis
    using jwt_header_gate [OF d bad, of 0 "utf8 ''key''" None None None None]
    unfolding sp by simp
qed

text \<open>
  C6 as stated fails for a token of two segments: its first segment decodes to a header with
  \<open>alg\<close> \<open>none\<close>, and the reason is \<open>format\<close>, not \<open>header\<close>.
\<close>

theorem jwt_header_gate_counterexample:
  "b64uDecodeJson (sample_platform 0)
     (hd (split_on CHR ''.''
        (b64uEncodeJson (sample_platform 0) (JObj [(''alg'', JStr ''none''), (''typ'', JStr ''JWT'')])
           @ ''.'' @ ''e30'')))
     = Inr (JObj [(''alg'', JStr ''none''), (''typ'', JStr ''JWT'')])
   \<and> opt_prop (JObj [(''alg'', JStr ''none''), (''typ'', JStr ''JWT'')]) ''alg'' \<noteq> Some (JStr ''HS256'')
   \<and> verifyJwtHs256 (sample_platform 0) 0
       (b64uEncodeJson (sample_platform 0) (JObj [(''alg'', JStr ''none''), (''typ'', JStr ''JWT'')])
          @ ''.'' @ ''e30'')
       (utf8 ''key'') None None None None
     = Inr (JwtFail ''format'')"
proof -
  let ?h = "b64uEncodeJson (sample_platform 0) (JObj [(''alg'', JStr ''none''), (''typ'', JStr ''JWT'')])"
  have sp: "split_on CHR ''.'' (?h @ ''.'' @ ''e30'') = [?h, ''e30'']"
    using split_on_two [of "CHR ''.''" ?h "''e30''"] b64uEncodeJson_no_dot by simp
  have d: "b64uDecodeJson (sample_platform 0) (hd (split_on CHR ''.'' (?h @ ''.'' @ ''e30'')))
      = Inr (JObj [(''alg'', JStr ''none''), (''typ'', JStr ''JWT'')])"
    unfolding sp by (simp add: sample_none_header)
  have bad: "opt_prop (JObj [(''alg'', JStr ''none''), (''typ'', JStr ''JWT'')]) ''alg'' \<noteq> Some (JStr ''HS256'')"
    by (simp add: opt_prop_def)
  have f: "verifyJwtHs256 (sample_platform 0) 0 (?h @ ''.'' @ ''e30'') (utf8 ''key'') None None None None
      = Inr (JwtFail ''format'')"
    using verifyJwtHs256_bad_header [OF d, of 0 "utf8 ''key''" None None None None] bad
    unfolding sp by simp
  from d bad f show ?thesis by blast
qed

text \<open>
  C7. For every input string, \<open>verifyCompactToken\<close> and \<open>verifyJwtHs256\<close> return a value and do
  not throw: the body of each is inside \<open>try ... catch\<close>, whose handler returns
  \<open>{ ok: false, reason: "parse" }\<close>. A compact token whose decoding does not have exactly 34
  bytes, so in particular a shorter one, gives reason \<open>len\<close>. A JWT of three segments whose
  header is not JSON gives reason \<open>parse\<close>, and so does one with a good header and signature
  whose payload segment is not JSON or is the JSON text \<open>null\<close>.
\<close>

theorem verification_returns:
  "(\<exists>r. verifyCompactToken E token key iid tv now = Inr r)
   \<and> (\<exists>r. verifyJwtHs256 E clock jwt jkey iss aud jnow skew = Inr r)
   \<and> (length (fromB64url token) \<noteq> 34 \<longrightarrow>
        verifyCompactToken E token key iid tv now = Inr (CompactFail ''len''))
   \<and> (\<forall>h p s. split_on CHR ''.'' jwt = [h, p, s]
          \<and> JSON_parse E (toString_utf8 (fromB64url h)) = None \<longrightarrow>
        verifyJwtHs256 E clock jwt jkey iss aud jnow skew = Inr (JwtFail ''parse''))
   \<and> (\<forall>h p s header. split_on CHR ''.'' jwt = [h, p, s]
          \<and> b64uDecodeJson E h = Inr header
          \<and> opt_prop header ''alg'' = Some (JStr ''HS256'')
          \<and> opt_prop header ''typ'' = Some (JStr ''JWT'')
          \<and> fromB64url s = hmac_sha256 E jkey (utf8 (h @ ''.'' @ p))
          \<and> (JSON_parse E (toString_utf8 (fromB64url p)) = None
               \<or> JSON_parse E (toString_utf8 (fromB64url p)) = Some JNull) \<longrightarrow>
        verifyJwtHs256 E clock jwt jkey iss aud jnow skew = Inr (JwtFail ''parse''))"
  using verifyCompactToken_returns [of E token key iid tv now]
    verifyJwtHs256_returns [of E clock jwt jkey iss aud jnow skew]
    verifyCompactToken_len [of token E key iid tv now]
    verifyJwtHs256_header_parse [of jwt _ _ _ E clock jkey iss aud jnow skew]
    verifyJwtHs256_payload_parse [of jwt _ _ _ E _ jkey clock iss aud jnow skew]
  by blast

theorem verification_returns_witness:
  "length (fromB64url ''AQ'') \<noteq> 34
   \<and> verifyCompactToken (sample_platform 0) ''AQ'' [] ''I1'' 0 0 = Inr (CompactFail ''len'')
   \<and> split_on CHR ''.'' ''AQ.AQ.AQ'' = [''AQ'', ''AQ'', ''AQ'']
   \<and> JSON_parse (sample_platform 0) (toString_utf8 (fromB64url ''AQ'')) = None
   \<and> verifyJwtHs256 (sample_platform 0) 0 ''AQ.AQ.AQ'' [] None None None None
        = Inr (JwtFail ''parse'')"
proof -
  have l: "length (fromB64url ''AQ'') \<noteq> 34" by (simp add: fromB64url_AQ)
  have sp: "split_on CHR ''.'' ''AQ.AQ.AQ'' = [''AQ'', ''AQ'', ''AQ'']" by simp
  have np: "JSON_parse (sample_platform 0) (toString_utf8 (fromB64url ''AQ'')) = None"
    by (simp add: fromB64url_AQ sample_platform_def sample_JSON_parse_def sample_json_table_def
        toString_utf8_def char_of_byte_def)
  show ?thesis
    using verification_returns [of "sample_platform 0" "''AQ''" "[]" "''I1''" 0 0 0
        "''AQ.AQ.AQ''" "[]" None None None None] l sp np
    by simp
qed
text \<open>
  C10, as amended. A JWT created by \<open>createJwtHs256\<close> with \<open>ttlSec \<le> 0\<close> from a payload that
  has no \<open>exp\<close> property carries no \<open>exp\<close> claim; verified with the same key, issuer and
  audience it never fails with reason \<open>exp\<close>, at any \<open>now\<close> and clock skew, and when the
  payload has no numeric \<open>nbf\<close> either it verifies as ok at every \<open>now\<close>. In general
  \<open>verifyJwtHs256\<close> gives reason \<open>exp\<close> only for a payload whose \<open>exp\<close> is a number.
\<close>

theorem jwt_without_ttl:
  assumes "json_roundtrip E jwt_header"
      and "json_roundtrip E (JObj (jwt_body claims ttl iss aud iat))"
      and "ttl \<le> 0" and "map_of claims ''exp'' = None"
  shows "map_of (jwt_body claims ttl iss aud iat) ''exp'' = None
       \<and> verifyJwtHs256 E clock'
           (createJwtHs256 E clock key (Some claims) (Some ttl) (Some iss) aud (Some iat)) key
           (Some iss) aud (Some now) (Some skew) \<noteq> Inr (JwtFail ''exp'')
       \<and> ((\<forall>n. map_of claims ''nbf'' \<noteq> Some (JNum n)) \<longrightarrow>
            verifyJwtHs256 E clock'
              (createJwtHs256 E clock key (Some claims) (Some ttl) (Some iss) aud (Some iat)) key
              (Some iss) aud (Some now) (Some skew)
            = Inr (JwtOk (JObj (jwt_body claims ttl iss aud iat))))
       \<and> (\<forall>token k i a t s.
            verifyJwtHs256 E clock' token k i a t s = Inr (JwtFail ''exp'') \<longrightarrow>
            (\<exists>h p sg payload n.
                split_on CHR ''.'' token = [h, p, sg] \<and> b64uDecodeJson E p = Inr payload
                \<and> get_prop payload ''exp'' = Inr (Some (JNum n))))"
proof (intro conjI allI impI)
  show "map_of (jwt_body claims ttl iss aud iat) ''exp'' = None"
    using assms(3,4) by (simp add: map_of_jwt_body)
  show "verifyJwtHs256 E clock'
           (createJwtHs256 E clock key (Some claims) (Some ttl) (Some iss) aud (Some iat)) key
           (Some iss) aud (Some now) (Some skew) \<noteq> Inr (JwtFail ''exp'')"
    unfolding verify_create_jwt_same [OF assms(1,2)] verify_claims_jwt_body
    using assms(3,4) by simp
  show "verifyJwtHs256 E clock'
              (createJwtHs256 E clock key (Some claims) (Some ttl) (Some iss) aud (Some iat)) key
              (Some iss) aud (Some now) (Some skew)
            = Inr (JwtOk (JObj (jwt_body claims ttl iss aud iat)))"
    if "\<forall>n. map_of claims ''nbf'' \<noteq> Some (JNum n)"
    unfolding verify_create_jwt_same [OF assms(1,2)] verify_claims_jwt_body
    using assms(3,4) that by (auto split: option.splits json.splits)
  show "\<exists>h p sg payload n.
                split_on CHR ''.'' token = [h, p, sg] \<and> b64uDecodeJson E p = Inr payload
                \<and> get_prop payload ''exp'' = Inr (Some (JNum n))"
    if "verifyJwtHs256 E clock' token k i a t s = Inr (JwtFail ''exp'')" for token k i a t s
    using verifyJwtHs256_exp_only_number [OF that] by blast
qed

theorem jwt_without_ttl_witness:
  "map_of (jwt_body [(''iid'', JStr ''I1''), (''tv'', JNum 0)] 0 ''tgl'' (Some ''wi:I1'') 1000) ''exp''
     = None
   \<and> verifyJwtHs256 (sample_platform 0) 0
     (createJwtHs256 (sample_platform 0) 0 (utf8 ''key'')
        (Some [(''iid'', JStr ''I1''), (''tv'', JNum 0)]) (Some 0) (Some ''tgl'')
        (Some ''wi:I1'') (Some 1000))
     (utf8 ''key'') (Some ''tgl'') (Some ''wi:I1'') (Some 4000000000) (Some 0)
   = Inr (JwtOk (JObj [(''iid'', JStr ''I1''), (''tv'', JNum 0), (''iat'', JNum 1000),
                        (''iss'', JStr ''tgl''), (''aud'', JStr ''wi:I1'')]))"
proof -
  have b: "jwt_body [(''iid'', JStr ''I1''), (''tv'', JNum 0)] 0 ''tgl'' (Some ''wi:I1'') 1000
      = [(''iid'', JStr ''I1''), (''tv'', JNum 0), (''iat'', JNum 1000),
         (''iss'', JStr ''tgl''), (''aud'', JStr ''wi:I1'')]"
    by (simp add: jwt_body_def)
  have rt: "json_roundtrip (sample_platform 0)
      (JObj (jwt_body [(''iid'', JStr ''I1''), (''tv'', JNum 0)] 0 ''tgl'' (Some ''wi:I1'') 1000))"
    by (rule json_roundtrip_sample_body) (simp add: b sample_json_table_def)
  show ?thesis
    using jwt_without_ttl [OF json_roundtrip_sample_header rt, of 0 0 "utf8 ''key''" 4000000000 0]
    by (simp add: b)
qed

text \<open>
  C10 as stated fails for a payload with its own \<open>exp\<close>: the token carries it, and verification
  fails with reason \<open>exp\<close> once \<open>now\<close> has reached it.
\<close>

theorem jwt_without_ttl_counterexample:
  "map_of (jwt_body [(''exp'', JNum 100)] 0 ''tgl'' None 1000) ''exp'' = Some (JNum 100)
   \<and> verifyJwtHs256 (sample_platform 0) 0
     (createJwtHs256 (sample_platform 0) 0 (utf8 ''key'')
        (Some [(''exp'', JNum 100)]) (Some 0) (Some ''tgl'') None (Some 1000))
     (utf8 ''key'') (Some ''tgl'') None (Some 200) (Some 0)
   = Inr (JwtFail ''exp'')"
proof -
  have b: "jwt_body [(''exp'', JNum 100)] 0 ''tgl'' None 1000
      = [(''exp'', JNum 100), (''iat'', JNum 1000), (''iss'', JStr ''tgl'')]"
    by (simp add: jwt_body_def)
  have rt: "json_roundtrip (sample_platform 0)
      (JObj (jwt_body [(''exp'', JNum 100)] 0 ''tgl'' None 1000))"
    by (rule json_roundtrip_sample_body) (simp add: b sample_json_table_def)
  show ?thesis
    unfolding verify_create_jwt_same [OF json_roundtrip_sample_header rt]
    by (simp add: b verify_claims_obj)
qed

section \<open>CSRF headers and the password exchange\<close>

text \<open>
  C8. With a non-empty list of allowed origins, \<open>validateCSRFHeaders\<close> fails with
  \<open>Missing Origin/Referer header\<close> when no header whose lower-cased name is \<open>origin\<close> or
  \<open>referer\<close> has a non-empty value; with \<open>Invalid Origin header\<close> when the header it reads
  (\<open>Origin\<close>, or failing that \<open>Referer\<close>) does not parse as a URL; and with
  \<open>Origin not allowed\<close> exactly when no allowed entry is a prefix of \<open>protocol // host\<close> of the
  parsed header. \<open>Origin: https://app.example.com/path\<close> passes against the allowed prefix
  \<open>https://app.example.com\<close> and \<open>Origin: https://evil.example.com\<close> fails, on a platform whose
  URL parser splits the two as WHATWG URL does.
\<close>

theorem csrf_origin_allow_list:
  assumes "allowed \<noteq> []"
  shows "((\<forall>(k, v) \<in> set hs. toLowerCase k \<in> {''origin'', ''referer''} \<longrightarrow> v = []) \<longrightarrow>
            validateCSRFHeaders E (Some hs) allowed xrw = CsrfFail ''Missing Origin/Referer header'')
       \<and> (\<forall>ori. csrf_origin (Some hs) = Some ori \<and> ori \<noteq> [] \<and> URL_parse E ori = None \<longrightarrow>
            validateCSRFHeaders E (Some hs) allowed xrw = CsrfFail ''Invalid Origin header'')
       \<and> (\<forall>ori protocol host.
            csrf_origin (Some hs) = Some ori \<and> ori \<noteq> [] \<and> URL_parse E ori = Some (protocol, host) \<longrightarrow>
            (validateCSRFHeaders E (Some hs) allowed xrw = CsrfFail ''Origin not allowed'')
              = (\<not> (\<exists>a \<in> set allowed. startsWith (protocol @ ''//'' @ host) a)))
       \<and> (URL_parse E ''https://app.example.com/path'' = Some (''https:'', ''app.example.com'') \<longrightarrow>
            validateCSRFHeaders E (Some [(''Origin'', ''https://app.example.com/path'')])
              [''https://app.example.com''] False = CsrfOk)
       \<and> (URL_parse E ''https://evil.example.com'' = Some (''https:'', ''evil.example.com'') \<longrightarrow>
            validateCSRFHeaders E (Some [(''Origin'', ''https://evil.example.com'')])
              [''https://app.example.com''] False = CsrfFail ''Origin not allowed'')"
proof (intro conjI allI impI)
  show "validateCSRFHeaders E (Some hs) allowed xrw = CsrfFail ''Missing Origin/Referer header''"
    if "\<forall>(k, v) \<in> set hs. toLowerCase k \<in> {''origin'', ''referer''} \<longrightarrow> v = []"
    using csrf_origin_absent [OF that] assms by (simp add: validateCSRFHeaders_origin)
  show "validateCSRFHeaders E (Some hs) allowed xrw = CsrfFail ''Invalid Origin header''"
    if "csrf_origin (Some hs) = Some ori \<and> ori \<noteq> [] \<and> URL_parse E ori = None" for ori
    using that assms by (simp add: validateCSRFHeaders_origin truthy_str_def)
  show "(validateCSRFHeaders E (Some hs) allowed xrw = CsrfFail ''Origin not allowed'')
              = (\<not> (\<exists>a \<in> set allowed. startsWith (protocol @ ''//'' @ host) a))"
    if "csrf_origin (Some hs) = Some ori \<and> ori \<noteq> [] \<and> URL_parse E ori = Some (protocol, host)"
    for ori protocol host
    using that assms by (simp add: validateCSRFHeaders_origin truthy_str_def list_ex_iff)
  show "validateCSRFHeaders E (Some [(''Origin'', ''https://app.example.com/path'')])
              [''https://app.example.com''] False = CsrfOk"
    if "URL_parse E ''https://app.example.com/path'' = Some (''https:'', ''app.example.com'')"
    using that
    by (simp add: validateCSRFHeaders_origin csrf_origin_single truthy_str_def startsWith_def)
  show "validateCSRFHeaders E (Some [(''Origin'', ''https://evil.example.com'')])
              [''https://app.example.com''] False = CsrfFail ''Origin not allowed''"
    if "URL_parse E ''https://evil.example.com'' = Some (''https:'', ''evil.example.com'')"
    using that
    by (simp add: validateCSRFHeaders_origin csrf_origin_single truthy_str_def startsWith_def)
qed

theorem csrf_origin_allow_list_witness:
  "validateCSRFHeaders (sample_platform 0) (Some [(''X-Other'', ''1'')]) [''https://app.example.com''] False
     = CsrfFail ''Missing Origin/Referer header''
   \<and> validateCSRFHeaders (sample_platform 0) (Some [(''Origin'', ''https://app.example.com/path'')])
       [''https://app.example.com''] False = CsrfOk
   \<and> validateCSRFHeaders (sample_platform 0) (Some [(''Origin'', ''https://evil.example.com'')])
       [''https://app.example.com''] False = CsrfFail ''Origin not allowed''"
proof -
  have lc: "toLowerCase ''X-Other'' = ''x-other''" by code_simp
  have u: "URL_parse (sample_platform 0) ''https://app.example.com/path''
             = Some (''https:'', ''app.example.com'')"
      "URL_parse (sample_platform 0) ''https://evil.example.com''
             = Some (''https:'', ''evil.example.com'')"
    by (simp_all add: sample_platform_def sample_URL_parse_examples)
  show ?thesis
    using csrf_origin_allow_list [of "[''https://app.example.com'']" "[(''X-Other'', ''1'')]"
        "sample_platform 0" False] u
    by (simp add: lc)
qed

text \<open>
  C9. In a password exchange on a password-protected webhook (a POST that is not an upload
  request, with a path ending in \<open>/auth\<close> or \<open>auth=1\<close> in the query):
  \<^item> when the body is absent or empty, the handler answers status 401 with the error
    \<open>Invalid password\<close>;
  \<^item> when the body parses as JSON, it answers the same when the body carries no password or
    the empty string, and also whenever the instance has no stored password or an empty one,
    whatever the body holds;
  \<^item> when the body is not empty and is not JSON, \<open>JSON.parse(event.body)\<close>, which stands at the
    head of the branch and outside any \<open>try\<close>, throws \<open>SyntaxError\<close>, and the handler throws with
    it instead of answering 401;
  \<^item> so for an instance with no stored password or an empty one the handler either answers 401
    or throws: the exchange never unlocks it.
\<close>

theorem password_exchange_empty:
  assumes "\<not> path_includes ev ''/upload-url''" and "\<not> path_includes ev ''/upload-complete''"
      and "isAuthExchange ev"
      and "resolveInstanceId E (greedy_of E ev) = Inr iid"
      and "loadInstance E iid = Inr (Some inst)"
      and "loadWebhook E (WebhookID inst) = Inr (Some wh)"
      and "passwordProtected wh"
  shows "(body ev = None \<or> body ev = Some [] \<longrightarrow>
            handlePostRequest E clock show_int gate ev = Inr (invalid_password_response E))
       \<and> (\<forall>b payload. body ev = Some b \<and> b \<noteq> [] \<and> JSON_parse E b = Some payload
              \<and> (opt_prop payload ''password'' = None
                   \<or> opt_prop payload ''password'' = Some (JStr [])
                   \<or> password inst = None \<or> password inst = Some []) \<longrightarrow>
            handlePostRequest E clock show_int gate ev = Inr (invalid_password_response E))
       \<and> (\<forall>b. body ev = Some b \<and> b \<noteq> [] \<and> JSON_parse E b = None \<longrightarrow>
            handlePostRequest E clock show_int gate ev = Inl SyntaxError)
       \<and> (password inst = None \<or> password inst = Some [] \<longrightarrow>
            handlePostRequest E clock show_int gate ev = Inr (invalid_password_response E)
            \<or> handlePostRequest E clock show_int gate ev = Inl SyntaxError)"
proof -
  have denied: "handlePostRequest E clock show_int gate ev = Inr (invalid_password_response E)"
    if b: "body_payload E ev = Inr payload"
      and pw: "opt_prop payload ''password'' = None \<or> opt_prop payload ''password'' = Some (JStr [])
           \<or> password inst = None \<or> password inst = Some []"
    for payload
  proof -
    have "provided_password payload = JStr []
        \<or> provided_password payload
             \<noteq> JStr (case or_str (password inst) (Some []) of None \<Rightarrow> [] | Some p \<Rightarrow> p)"
      using pw by (auto simp: provided_password_def Let_def or_str_def truthy_str_def)
    then show ?thesis
      using assms b by (simp add: handlePostRequest_def js_bind_def Let_def)
  qed
  have thrown: "handlePostRequest E clock show_int gate ev = Inl SyntaxError"
    if "body_payload E ev = Inl SyntaxError"
    using assms that by (simp add: handlePostRequest_def js_bind_def)
  have cases: "body_payload E ev = Inl SyntaxError \<or> (\<exists>payload. body_payload E ev = Inr payload)"
    by (auto simp: body_payload_def split: option.splits)
  have c1: "handlePostRequest E clock show_int gate ev = Inr (invalid_password_response E)"
    if "body ev = None \<or> body ev = Some []"
  proof -
    from that have "body_payload E ev = Inr (JObj [])"
      by (auto simp: body_payload_def)
    then show ?thesis
      by (rule denied) (simp add: opt_prop_def)
  qed
  have c2: "handlePostRequest E clock show_int gate ev = Inr (invalid_password_response E)"
    if "body ev = Some b \<and> b \<noteq> [] \<and> JSON_parse E b = Some payload
        \<and> (opt_prop payload ''password'' = None
             \<or> opt_prop payload ''password'' = Some (JStr [])
             \<or> password inst = None \<or> password inst = Some [])" for b payload
  proof -
    from that have "body_payload E ev = Inr payload"
      by (simp add: body_payload_def)
    then show ?thesis
      by (rule denied) (use that in blast)
  qed
  have c3: "handlePostRequest E clock show_int gate ev = Inl SyntaxError"
    if "body ev = Some b \<and> b \<noteq> [] \<and> JSON_parse E b = None" for b
    by (rule thrown) (use that in \<open>simp add: body_payload_def\<close>)
  have c4: "handlePostRequest E clock show_int gate ev = Inr (invalid_password_response E)
      \<or> handlePostRequest E clock show_int gate ev = Inl SyntaxError"
    if "password inst = None \<or> password inst = Some []"
    using cases denied thrown that by blast
  from c1 c2 c3 c4 show ?thesis by blast
qed

theorem password_exchange_empty_witness:
  "handlePostRequest (sample_platform 0) 0 (\<lambda>n. []) (verifyAccessOrPasswordPage (sample_platform 0) 0)
     (sample_exchange_event (Some sample_empty_password_body))
   = Inr (invalid_password_response (sample_platform 0))
   \<and> handlePostRequest (sample_platform 0) 0 (\<lambda>n. []) (verifyAccessOrPasswordPage (sample_platform 0) 0)
     (sample_exchange_event None)
   = Inr (invalid_password_response (sample_platform 0))
   \<and> handlePostRequest (sample_platform 0) 0 (\<lambda>n. []) (verifyAccessOrPasswordPage (sample_platform 0) 0)
     (sample_exchange_event (Some ''not json''))
   = Inl SyntaxError"
proof -
  have r: "resolveInstanceId (sample_platform 0) (greedy_of (sample_platform 0)
      (sample_exchange_event b)) = Inr ''I1''" for b
    by (simp add: sample_exchange_event_facts) (simp add: sample_platform_def)
  have li: "loadInstance (sample_platform 0) ''I1'' = Inr (Some (sample_instance 0))"
    by (simp add: sample_platform_def)
  have lw: "loadWebhook (sample_platform 0) (WebhookID (sample_instance 0)) = Inr (Some sample_webhook)"
    by (simp add: sample_platform_def sample_instance_def)
  have pp: "passwordProtected sample_webhook" by (simp add: sample_webhook_def)
  have bd: "body (sample_exchange_event b) = b" for b
    by (simp add: sample_exchange_event_def)
  have p1: "JSON_parse (sample_platform 0) sample_empty_password_body
      = Some (JObj [(''password'', JStr [])])"
    by (simp add: sample_platform_def sample_JSON_parse_def sample_json_table_def
        sample_empty_password_body_def)
  have p2: "JSON_parse (sample_platform 0) ''not json'' = None"
    by (simp add: sample_platform_def sample_JSON_parse_def sample_json_table_def)
  have n: "sample_empty_password_body \<noteq> []"
    by (simp add: sample_empty_password_body_def)
  note th = password_exchange_empty [OF sample_exchange_event_facts(1,2,3) r li lw pp,
      where clock = 0 and show_int = "\<lambda>n. []"
        and gate = "verifyAccessOrPasswordPage (sample_platform 0) 0"]
  have a: "handlePostRequest (sample_platform 0) 0 (\<lambda>n. [])
      (verifyAccessOrPasswordPage (sample_platform 0) 0)
      (sample_exchange_event (Some sample_empty_password_body))
      = Inr (invalid_password_response (sample_platform 0))"
    using th [of "Some sample_empty_password_body"] p1 n by (simp add: bd opt_prop_def)
  have b: "handlePostRequest (sample_platform 0) 0 (\<lambda>n. [])
      (verifyAccessOrPasswordPage (sample_platform 0) 0) (sample_exchange_event None)
      = Inr (invalid_password_response (sample_platform 0))"
    using th [of None] by (simp add: bd)
  have c: "handlePostRequest (sample_platform 0) 0 (\<lambda>n. [])
      (verifyAccessOrPasswordPage (sample_platform 0) 0) (sample_exchange_event (Some ''not json''))
      = Inl SyntaxError"
    using th [of "Some ''not json''"] p2 by (simp add: bd)
  from a b c show ?thesis by simp
qed
section \<open>The gates: revocation and the precedence of the query token\<close>

text \<open>
  C1, as amended. A session JWT is the value of the request's cookie named
  \<open>tgl_wi_auth.\<close> and the instance identifier; it verifies when \<open>verifyJwtHs256\<close> accepts it
  under the cookie key derived from the secret of the webhook's client and the instance
  identifier, with issuer \<open>tgl\<close>, audience \<open>wi:\<close> and the instance identifier, and 60 seconds of
  clock skew.
  \<^item> \<open>verifyAccessOrPasswordPage\<close>, in both versions (the later one when the webhook is not under
    user authentication), on a password-protected webhook and a request that does not take the
    query-token branch (no non-empty \<open>?token\<close>, or an instance without \<open>authKey\<close>), allows if and
    only if the request's cookie is a non-empty JWT that verifies, the payload's \<open>iid\<close> is the
    instance identifier and \<open>tv >>> 0\<close> equals \<open>instance.tokenVersion >>> 0\<close>. On the query-token
    branch the cookie is not consulted.
  \<^item> \<open>verifyJWTForAPI\<close> allows only if the request's cookie is a JWT that verifies, the payload's
    \<open>iid\<close> is the instance identifier and \<open>parseInt(tv)\<close> equals
    \<open>parseInt(instance.tokenVersion || 0)\<close>, neither being \<open>NaN\<close>. For a \<open>tv\<close> that is a number, as
    the handler mints it (of magnitude below \<open>10 ^ 21\<close>, as the counter), the two are then equal
    as numbers, and so as unsigned 32-bit values.
  \<^item> A JWT minted with \<open>tv = N >>> 0\<close> is denied by both once the counter is \<open>N + 1\<close>, although
    it still verifies: the first gate, off the query-token branch, returns the password page, the
    second \<open>Token has been revoked\<close>.
\<close>

theorem session_gates_revocation:
  "(passwordProtected wh
      \<and> \<not> (truthy_str (query_of ev ''token'') \<and> truthy_str (authKey inst)) \<longrightarrow>
    (verifyAccessOrPasswordPage E clock inst wh ev = Inr GateOk) =
    (\<exists>m c cs k payload.
        getCookieMap E (or_str (header_of ev ''cookie'') (header_of ev ''Cookie'')) = Inr m
        \<and> m (cookieNameFor (instance_id inst)) = Some c \<and> c \<noteq> []
        \<and> getClientSecret E (ClientID wh) = Inr cs
        \<and> deriveCookieSigningKey E (Some cs) (Some (instance_id inst)) = Inr k
        \<and> verifyJwtHs256 E clock c k (Some ''tgl'') (Some (''wi:'' @ instance_id inst))
             (Some clock) (Some 60) = Inr (JwtOk payload)
        \<and> opt_prop payload ''iid'' = Some (JStr (instance_id inst))
        \<and> js_to_uint32 E (opt_prop payload ''tv'') = tokenVersion_u32 inst))
   \<and> (authenticationType wh \<noteq> Some ''user'' \<and> passwordProtected wh
      \<and> \<not> (truthy_str (query_of ev ''token'') \<and> truthy_str (authKey inst)) \<longrightarrow>
    (verifyAccessOrPasswordPage_cognito E clock inst wh ev = Inr GateOk) =
    (\<exists>m c cs k payload.
        getCookieMap E (cookieSource_of ev) = Inr m
        \<and> m (cookieNameFor (instance_id inst)) = Some c \<and> c \<noteq> []
        \<and> getClientSecret E (ClientID wh) = Inr cs
        \<and> deriveCookieSigningKey E (Some cs) (Some (instance_id inst)) = Inr k
        \<and> verifyJwtHs256 E clock c k (Some ''tgl'') (Some (''wi:'' @ instance_id inst))
             (Some clock) (Some 60) = Inr (JwtOk payload)
        \<and> opt_prop payload ''iid'' = Some (JStr (instance_id inst))
        \<and> js_to_uint32 E (opt_prop payload ''tv'') = tokenVersion_u32 inst))
   \<and> (verifyJWTForAPI E clock aev iid = Inr (ApiOk ainst awh p) \<longrightarrow>
    (\<exists>m c cs k.
        loadInstance E iid = Inr (Some ainst)
        \<and> loadWebhook E (WebhookID ainst) = Inr (Some awh)
        \<and> getCookieMap E (api_cookie_header aev) = Inr m
        \<and> m (cookieNameFor iid) = Some c \<and> c \<noteq> []
        \<and> getClientSecret E (ClientID awh) = Inr cs
        \<and> deriveCookieSigningKey E (Some cs) (Some iid) = Inr k
        \<and> verifyJwtHs256 E clock c k (Some ''tgl'') (Some (''wi:'' @ iid)) (Some clock) (Some 60)
             = Inr (JwtOk p)
        \<and> opt_prop p ''iid'' = Some (JStr iid)
        \<and> js_parseInt E (opt_prop p ''tv'') = expectedVersion_of E ainst
        \<and> js_parseInt E (opt_prop p ''tv'') \<noteq> None
        \<and> (\<forall>n. opt_prop p ''tv'' = Some (JNum n) \<and> \<bar>n\<bar> < 10 ^ 21
               \<and> (\<forall>m. tokenVersion ainst = Some m \<longrightarrow> \<bar>m\<bar> < 10 ^ 21) \<longrightarrow>
             to_uint32 n = tokenVersion_u32 ainst)))
   \<and> (passwordProtected rwh
      \<and> \<not> (truthy_str (query_of rv ''token'') \<and> truthy_str (authKey rinst))
      \<and> getCookieMap E (or_str (header_of rv ''cookie'') (header_of rv ''Cookie'')) = Inr rm
      \<and> rm (cookieNameFor (instance_id rinst)) = Some rc \<and> rc \<noteq> []
      \<and> getClientSecret E (ClientID rwh) = Inr rcs
      \<and> deriveCookieSigningKey E (Some rcs) (Some (instance_id rinst)) = Inr rk
      \<and> verifyJwtHs256 E clock rc rk (Some ''tgl'') (Some (''wi:'' @ instance_id rinst))
           (Some clock) (Some 60) = Inr (JwtOk rp)
      \<and> opt_prop rp ''tv'' = Some (JNum (to_uint32 N))
      \<and> tokenVersion rinst = Some (N + 1) \<longrightarrow>
    verifyAccessOrPasswordPage E clock rinst rwh rv = Inr (GateDeny PASSWORD_PAGE_HTML None))
   \<and> (loadInstance E iid = Inr (Some rinst)
      \<and> loadWebhook E (WebhookID rinst) = Inr (Some rwh)
      \<and> getClientSecret E (ClientID rwh) = Inr rcs \<and> rcs \<noteq> []
      \<and> deriveCookieSigningKey E (Some rcs) (Some iid) = Inr rk
      \<and> getCookieMap E (api_cookie_header rv) = Inr rm
      \<and> rm (cookieNameFor iid) = Some rc \<and> rc \<noteq> []
      \<and> verifyJwtHs256 E clock rc rk (Some ''tgl'') (Some (''wi:'' @ iid)) (Some clock) (Some 60)
           = Inr (JwtOk rp)
      \<and> opt_prop rp ''iid'' = Some (JStr iid)
      \<and> opt_prop rp ''tv'' = Some (JNum (to_uint32 N))
      \<and> tokenVersion rinst = Some (N + 1) \<and> \<bar>N + 1\<bar> < 10 ^ 21 \<longrightarrow>
    verifyJWTForAPI E clock rv iid = Inr (ApiFail ''Token has been revoked''))"
proof (intro conjI impI)
  assume "passwordProtected wh
      \<and> \<not> (truthy_str (query_of ev ''token'') \<and> truthy_str (authKey inst))"
  then show "(verifyAccessOrPasswordPage E clock inst wh ev = Inr GateOk) =
    (\<exists>m c cs k payload.
        getCookieMap E (or_str (header_of ev ''cookie'') (header_of ev ''Cookie'')) = Inr m
        \<and> m (cookieNameFor (instance_id inst)) = Some c \<and> c \<noteq> []
        \<and> getClientSecret E (ClientID wh) = Inr cs
        \<and> deriveCookieSigningKey E (Some cs) (Some (instance_id inst)) = Inr k
        \<and> verifyJwtHs256 E clock c k (Some ''tgl'') (Some (''wi:'' @ instance_id inst))
             (Some clock) (Some 60) = Inr (JwtOk payload)
        \<and> opt_prop payload ''iid'' = Some (JStr (instance_id inst))
        \<and> js_to_uint32 E (opt_prop payload ''tv'') = tokenVersion_u32 inst)"
    using gate_allows_iff [of wh ev inst E clock] by blast
next
  assume "authenticationType wh \<noteq> Some ''user'' \<and> passwordProtected wh
      \<and> \<not> (truthy_str (query_of ev ''token'') \<and> truthy_str (authKey inst))"
  then show "(verifyAccessOrPasswordPage_cognito E clock inst wh ev = Inr GateOk) =
    (\<exists>m c cs k payload.
        getCookieMap E (cookieSource_of ev) = Inr m
        \<and> m (cookieNameFor (instance_id inst)) = Some c \<and> c \<noteq> []
        \<and> getClientSecret E (ClientID wh) = Inr cs
        \<and> deriveCookieSigningKey E (Some cs) (Some (instance_id inst)) = Inr k
        \<and> verifyJwtHs256 E clock c k (Some ''tgl'') (Some (''wi:'' @ instance_id inst))
             (Some clock) (Some 60) = Inr (JwtOk payload)
        \<and> opt_prop payload ''iid'' = Some (JStr (instance_id inst))
        \<and> js_to_uint32 E (opt_prop payload ''tv'') = tokenVersion_u32 inst)"
    using gate_cognito_allows_iff [of wh ev inst E clock] by blast
next
  assume a: "verifyJWTForAPI E clock aev iid = Inr (ApiOk ainst awh p)"
  from api_ok [OF a] obtain cs k m' c payload where
    l: "loadInstance E iid = Inr (Some ainst)" "loadWebhook E (WebhookID ainst) = Inr (Some awh)"
    and s: "getClientSecret E (ClientID awh) = Inr cs"
    and k: "deriveCookieSigningKey E (Some cs) (Some iid) = Inr k"
    and m: "getCookieMap E (api_cookie_header aev) = Inr m'"
       "m' (cookieNameFor iid) = Some c" "c \<noteq> []"
    and v: "verifyJwtHs256 E clock c k (Some ''tgl'') (Some (''wi:'' @ iid)) (Some clock) (Some 60)
        = Inr (JwtOk payload)"
    and av: "api_verdict E clock ainst awh iid payload = ApiOk ainst awh p"
    by blast
  note ok = api_verdict_ok [OF av]
  have num: "to_uint32 n = tokenVersion_u32 ainst"
    if "opt_prop p ''tv'' = Some (JNum n) \<and> \<bar>n\<bar> < 10 ^ 21
        \<and> (\<forall>m. tokenVersion ainst = Some m \<longrightarrow> \<bar>m\<bar> < 10 ^ 21)" for n
    using parseInt_equal_u32 [of E n ainst] ok(2,4) that by simp
  from l s k m v ok num
  show "\<exists>m c cs k.
        loadInstance E iid = Inr (Some ainst)
        \<and> loadWebhook E (WebhookID ainst) = Inr (Some awh)
        \<and> getCookieMap E (api_cookie_header aev) = Inr m
        \<and> m (cookieNameFor iid) = Some c \<and> c \<noteq> []
        \<and> getClientSecret E (ClientID awh) = Inr cs
        \<and> deriveCookieSigningKey E (Some cs) (Some iid) = Inr k
        \<and> verifyJwtHs256 E clock c k (Some ''tgl'') (Some (''wi:'' @ iid)) (Some clock) (Some 60)
             = Inr (JwtOk p)
        \<and> opt_prop p ''iid'' = Some (JStr iid)
        \<and> js_parseInt E (opt_prop p ''tv'') = expectedVersion_of E ainst
        \<and> js_parseInt E (opt_prop p ''tv'') \<noteq> None
        \<and> (\<forall>n. opt_prop p ''tv'' = Some (JNum n) \<and> \<bar>n\<bar> < 10 ^ 21
               \<and> (\<forall>m. tokenVersion ainst = Some m \<longrightarrow> \<bar>m\<bar> < 10 ^ 21) \<longrightarrow>
             to_uint32 n = tokenVersion_u32 ainst)"
    by blast
next
  assume a: "passwordProtected rwh
      \<and> \<not> (truthy_str (query_of rv ''token'') \<and> truthy_str (authKey rinst))
      \<and> getCookieMap E (or_str (header_of rv ''cookie'') (header_of rv ''Cookie'')) = Inr rm
      \<and> rm (cookieNameFor (instance_id rinst)) = Some rc \<and> rc \<noteq> []
      \<and> getClientSecret E (ClientID rwh) = Inr rcs
      \<and> deriveCookieSigningKey E (Some rcs) (Some (instance_id rinst)) = Inr rk
      \<and> verifyJwtHs256 E clock rc rk (Some ''tgl'') (Some (''wi:'' @ instance_id rinst))
           (Some clock) (Some 60) = Inr (JwtOk rp)
      \<and> opt_prop rp ''tv'' = Some (JNum (to_uint32 N))
      \<and> tokenVersion rinst = Some (N + 1)"
  then have "verifyAccessOrPasswordPage E clock rinst rwh rv = cookie_step E clock rinst rwh rc"
    using gate_cookie [of rwh rv rinst E rm rc clock] by blast
  also have "\<dots> = Inr (GateDeny PASSWORD_PAGE_HTML None)"
    using a cookie_step_revoked [of E rwh rcs rinst rk clock rc rp N] by blast
  finally show "verifyAccessOrPasswordPage E clock rinst rwh rv = Inr (GateDeny PASSWORD_PAGE_HTML None)" .
next
  assume a: "loadInstance E iid = Inr (Some rinst)
      \<and> loadWebhook E (WebhookID rinst) = Inr (Some rwh)
      \<and> getClientSecret E (ClientID rwh) = Inr rcs \<and> rcs \<noteq> []
      \<and> deriveCookieSigningKey E (Some rcs) (Some iid) = Inr rk
      \<and> getCookieMap E (api_cookie_header rv) = Inr rm
      \<and> rm (cookieNameFor iid) = Some rc \<and> rc \<noteq> []
      \<and> verifyJwtHs256 E clock rc rk (Some ''tgl'') (Some (''wi:'' @ iid)) (Some clock) (Some 60)
           = Inr (JwtOk rp)
      \<and> opt_prop rp ''iid'' = Some (JStr iid)
      \<and> opt_prop rp ''tv'' = Some (JNum (to_uint32 N))
      \<and> tokenVersion rinst = Some (N + 1) \<and> \<bar>N + 1\<bar> < 10 ^ 21"
  then have "verifyJWTForAPI E clock rv iid = Inr (api_verdict E clock rinst rwh iid rp)"
    using api_verified [of E iid rinst rwh rcs rk rv rm rc clock rp] by blast
  also have "api_verdict E clock rinst rwh iid rp = ApiFail ''Token has been revoked''"
    using a api_verdict_revoked [of rp iid N rinst E clock rwh] by blast
  finally show "verifyJWTForAPI E clock rv iid = Inr (ApiFail ''Token has been revoked'')" .
qed

theorem session_gates_revocation_witness:
  "verifyAccessOrPasswordPage (sample_platform 0) 1200 (sample_instance 0) sample_webhook
     (sample_event None (Some (sample_cookie_header (JNum 0)))) = Inr GateOk
   \<and> verifyAccessOrPasswordPage_cognito (sample_platform 0) 1200 (sample_instance 0) sample_webhook
     (sample_event None (Some (sample_cookie_header (JNum 0)))) = Inr GateOk
   \<and> verifyAccessOrPasswordPage (sample_platform 1) 1200 (sample_instance 1) sample_webhook
     (sample_event None (Some (sample_cookie_header (JNum 0))))
     = Inr (GateDeny PASSWORD_PAGE_HTML None)
   \<and> verifyJWTForAPI (sample_platform 1) 1200
       (sample_event None (Some (sample_cookie_header (JNum 0)))) ''I1''
     = Inr (ApiFail ''Token has been revoked'')"
proof -
  let ?ev = "sample_event None (Some (sample_cookie_header (JNum 0)))"
  let ?m = "[cookieNameFor ''I1'' \<mapsto> sample_session_jwt (JNum 0)]"
  have v: "verifyJwtHs256 (sample_platform c) 1200 (sample_session_jwt (JNum 0)) sample_cookie_key
      (Some ''tgl'') (Some (''wi:'' @ ''I1'')) (Some 1200) (Some 60)
      = Inr (JwtOk (sample_session_body (JNum 0)))" for c
    using sample_session_verifies [OF sample_session_table(1), of 1200 c 1200] by simp
  have tv: "opt_prop (sample_session_body (JNum 0)) ''tv'' = Some (JNum (to_uint32 0))"
    "opt_prop (sample_session_body (JNum 0)) ''iid'' = Some (JStr ''I1'')"
    by (simp_all add: sample_session_body_def opt_prop_def to_uint32_def)
  have q: "\<not> (truthy_str (query_of ?ev ''token'') \<and> truthy_str (authKey (sample_instance c)))" for c
    by (simp add: sample_event_query truthy_str_def)
  have ex: "\<exists>m c cs k payload.
        getCookieMap (sample_platform 0) (Some (sample_cookie_header (JNum 0))) = Inr m
        \<and> m (cookieNameFor ''I1'') = Some c \<and> c \<noteq> []
        \<and> getClientSecret (sample_platform 0) ''C1'' = Inr cs
        \<and> deriveCookieSigningKey (sample_platform 0) (Some cs) (Some ''I1'') = Inr k
        \<and> verifyJwtHs256 (sample_platform 0) 1200 c k (Some ''tgl'') (Some (''wi:'' @ ''I1''))
             (Some 1200) (Some 60) = Inr (JwtOk payload)
        \<and> opt_prop payload ''iid'' = Some (JStr ''I1'')
        \<and> js_to_uint32 (sample_platform 0) (opt_prop payload ''tv'')
            = tokenVersion_u32 (sample_instance 0)"
    apply (rule exI [of _ ?m])
    apply (rule exI [of _ "sample_session_jwt (JNum 0)"])
    apply (rule exI [of _ "''s3cr3t''"])
    apply (rule exI [of _ sample_cookie_key])
    apply (rule exI [of _ "sample_session_body (JNum 0)"])
    using v [of 0] tv
    by (simp add: sample_cookie_map sample_session_jwt_nonempty sample_platform_fields
        sample_derive_key tokenVersion_u32_def sample_records to_uint32_def)
  note th0 = session_gates_revocation [where E = "sample_platform 0" and clock = 1200
      and inst = "sample_instance 0" and wh = sample_webhook and ev = ?ev]
  from th0 q [of 0] ex
  have a0: "verifyAccessOrPasswordPage (sample_platform 0) 1200 (sample_instance 0) sample_webhook
      ?ev = Inr GateOk"
    by (simp add: sample_records sample_event_cookie)
  from th0 q [of 0] ex
  have a1: "verifyAccessOrPasswordPage_cognito (sample_platform 0) 1200 (sample_instance 0)
      sample_webhook ?ev = Inr GateOk"
    by (simp add: sample_records sample_event_cookie)
  show ?thesis
    using session_gates_revocation [where E = "sample_platform 1" and clock = 1200
        and rinst = "sample_instance 1"
        and rwh = sample_webhook and rv = ?ev and rm = ?m and rc = "sample_session_jwt (JNum 0)"
        and rcs = "''s3cr3t''" and rk = sample_cookie_key and rp = "sample_session_body (JNum 0)"
        and N = 0 and iid = "''I1''"] v [of 1] tv a0 a1 q [of 1]
    by (simp add: sample_records sample_event_cookie
        sample_cookie_map sample_session_jwt_nonempty sample_platform_fields sample_derive_key)
qed

text \<open>
  C1 as stated fails for \<open>verifyAccessOrPasswordPage\<close> on the query-token branch, which decides
  before the cookie is read: a request that carries a query token valid for the current counter
  \<open>1\<close> is allowed, in both versions, although its session cookie holds a JWT that verifies
  under the cookie key with \<open>tv = 0\<close>, which is not the counter.
\<close>

theorem session_gates_revocation_counterexample:
  "getCookieMap (sample_platform 1) (Some (sample_cookie_header (JNum 0)))
     = Inr [cookieNameFor ''I1'' \<mapsto> sample_session_jwt (JNum 0)]
   \<and> verifyJwtHs256 (sample_platform 1) 1200 (sample_session_jwt (JNum 0)) sample_cookie_key
      (Some ''tgl'') (Some ''wi:I1'') (Some 1200) (Some 60)
     = Inr (JwtOk (sample_session_body (JNum 0)))
   \<and> js_to_uint32 (sample_platform 1) (opt_prop (sample_session_body (JNum 0)) ''tv'')
       \<noteq> tokenVersion_u32 (sample_instance 1)
   \<and> verifyAccessOrPasswordPage (sample_platform 1) 1200 (sample_instance 1) sample_webhook
       (sample_event (Some (sample_query_token 1)) (Some (sample_cookie_header (JNum 0))))
     = Inr GateOk
   \<and> verifyAccessOrPasswordPage_cognito (sample_platform 1) 1200 (sample_instance 1) sample_webhook
       (sample_event (Some (sample_query_token 1)) (Some (sample_cookie_header (JNum 0))))
     = Inr GateOk"
proof -
  let ?E = "sample_platform 1"
  let ?ev = "sample_event (Some (sample_query_token 1)) (Some (sample_cookie_header (JNum 0)))"
  have v: "verifyJwtHs256 ?E 1200 (sample_session_jwt (JNum 0)) sample_cookie_key
      (Some ''tgl'') (Some ''wi:I1'') (Some 1200) (Some 60)
      = Inr (JwtOk (sample_session_body (JNum 0)))"
    using sample_session_verifies [OF sample_session_table(1), of 1200 1 1200] by simp
  have tu: "js_to_uint32 ?E (opt_prop (sample_session_body (JNum 0)) ''tv'')
      \<noteq> tokenVersion_u32 (sample_instance 1)"
    by (simp add: sample_session_body_def opt_prop_def tokenVersion_u32_def sample_records
        to_uint32_def)
  have a: "truthy_str (authKey (sample_instance 1))"
    by (simp add: sample_records truthy_str_def)
  have g: "verifyAccessOrPasswordPage ?E 1200 (sample_instance 1) sample_webhook ?ev = Inr GateOk"
    using gate_query_token [where E = ?E and clock = 1200 and wh = sample_webhook
        and inst = "sample_instance 1" and ev = ?ev and t = "sample_query_token 1",
        OF sample_records(1) sample_event_query(2) sample_query_token_nonempty a]
    by (simp add: sample_event_cookie sample_cookie_map sample_legacy_accepts)
  have gc: "verifyAccessOrPasswordPage_cognito ?E 1200 (sample_instance 1) sample_webhook ?ev
      = Inr GateOk"
    using gate_cognito_query_token [where E = ?E and clock = 1200 and wh = sample_webhook
        and inst = "sample_instance 1" and ev = ?ev and t = "sample_query_token 1",
        OF sample_records(3) sample_records(1) sample_event_query(2)
        sample_query_token_nonempty a]
    by (simp add: sample_event_cookie sample_cookie_map sample_legacy_accepts)
  from v tu g gc show ?thesis
    by (simp add: sample_cookie_map)
qed


text \<open>
  C4. On a password-protected webhook, for a request with a non-empty query token and an
  instance with legacy key material, the gate (in both versions; in the later one when the
  webhook is not under user authentication) first parses the Cookie header and then decides on
  the query token alone: it allows when the compact token verifies and returns the password page
  otherwise, whatever the cookies hold. When the Cookie header does not decode,
  \<open>getCookieMap\<close>, which runs before the branch and outside any \<open>try\<close>, throws, and the gate
  throws with it instead of returning a verdict.
\<close>

theorem query_token_short_circuit:
  assumes "passwordProtected wh" and "query_of ev ''token'' = Some t" and "t \<noteq> []"
      and "truthy_str (authKey inst)"
  shows "verifyAccessOrPasswordPage E clock inst wh ev =
           (case getCookieMap E (or_str (header_of ev ''cookie'') (header_of ev ''Cookie'')) of
              Inl e \<Rightarrow> Inl e
            | Inr m \<Rightarrow> Inr (if legacy_token_accepts E clock inst wh t then GateOk
                            else GateDeny PASSWORD_PAGE_HTML None))
       \<and> (authenticationType wh \<noteq> Some ''user'' \<longrightarrow>
            verifyAccessOrPasswordPage_cognito E clock inst wh ev =
              (case getCookieMap E (cookieSource_of ev) of
                 Inl e \<Rightarrow> Inl e
               | Inr m \<Rightarrow> Inr (if legacy_token_accepts E clock inst wh t then GateOk
                               else GateDeny PASSWORD_PAGE_HTML None)))"
  using gate_query_token [OF assms] gate_cognito_query_token [OF _ assms] by simp

theorem query_token_short_circuit_witness:
  "verifyAccessOrPasswordPage (sample_platform 0) 1200 (sample_instance 0) sample_webhook
     (sample_event (Some ''AQ'') (Some ''a=%'')) = Inl URIError
   \<and> verifyAccessOrPasswordPage (sample_platform 0) 1200 (sample_instance 0) sample_webhook
       (sample_event (Some ''AQ'') (Some (sample_cookie_header (JNum 0))))
     = Inr (GateDeny PASSWORD_PAGE_HTML None)
   \<and> verifyAccessOrPasswordPage (sample_platform 0) 1200 (sample_instance 0) sample_webhook
       (sample_event None (Some (sample_cookie_header (JNum 0)))) = Inr GateOk"
proof -
  have h: "or_str (header_of (sample_event q (Some ''a=%'')) ''cookie'')
      (header_of (sample_event q (Some ''a=%'')) ''Cookie'') = Some ''a=%''" for q
    by (simp add: sample_event_def header_of_def or_str_def truthy_str_def)
  have a: "truthy_str (authKey (sample_instance 0))"
    by (simp add: sample_records truthy_str_def)
  have n: "''AQ'' \<noteq> []" by simp
  show ?thesis
    using query_token_short_circuit [where wh = sample_webhook and inst = "sample_instance 0"
        and ev = "sample_event (Some ''AQ'') (Some ''a=%'')" and t = "''AQ''"
        and E = "sample_platform 0" and clock = 1200]
      query_token_short_circuit [where wh = sample_webhook and inst = "sample_instance 0"
        and ev = "sample_event (Some ''AQ'') (Some (sample_cookie_header (JNum 0)))"
        and t = "''AQ''" and E = "sample_platform 0" and clock = 1200]
      sample_gate_allows a
    by (simp add: h sample_bad_cookie sample_event_cookie sample_cookie_map sample_legacy_rejects
        sample_records(1) sample_event_query)
qed


end
